theory Spec2Isabelle
  imports Complex_Main "HOL-Library.Sublist"
begin

section \<open>Python values\<close>

text \<open>
  A Python \<open>str\<close> is a sequence of Unicode code points. The literals of the source that
  are not ASCII (Korean text, emoji) are written as lists of code points; \<open>asc\<close> embeds
  an ASCII literal.
\<close>

type_synonym pystr = "nat list"

definition asc :: "string \<Rightarrow> pystr" where
  "asc s = map of_char s"

text \<open>
  What \<open>response.json()\<close> produces: \<open>None\<close>, \<open>bool\<close>, \<open>int\<close>, \<open>float\<close>, \<open>str\<close>,
  \<open>list\<close> and \<open>dict\<close> with string keys (an association list with distinct keys, in
  insertion order). Floats are read as reals; only their truth value is used.
\<close>

datatype json =
    JNull
  | JBool bool
  | JInt int
  | JFloat real
  | JStr pystr
  | JList "json list"
  | JObj "(pystr \<times> json) list"

text \<open>
  Exceptions, that is, the subclasses of \<open>Exception\<close>. \<open>SlackAPIError(error, response)\<close>
  is the repository's own class; its \<open>error\<close> is whatever value the caller passes, a
  string or the \<open>error\<close> entry of a response. Every other exception is a class tag with
  the text \<open>str(e)\<close> gives. \<open>RequestsJSONDecodeError\<close> is
  \<open>requests.exceptions.JSONDecodeError\<close>, which is a subclass of both
  \<open>requests.exceptions.RequestException\<close> and \<open>json.JSONDecodeError\<close>;
  \<open>OtherException\<close> stands for every class without a handler of its own in the source.
\<close>

datatype exn_class =
    RequestException
  | RequestsJSONDecodeError
  | JSONDecodeError
  | AttributeError
  | KeyError
  | IndexError
  | TypeError
  | ValueError
  | OtherException

datatype exn =
    SlackAPIError json "json option"
  | PyExn exn_class pystr

fun is_RequestException :: "exn \<Rightarrow> bool" where
  "is_RequestException (PyExn RequestException m) = True"
| "is_RequestException (PyExn RequestsJSONDecodeError m) = True"
| "is_RequestException e = False"

fun is_JSONDecodeError :: "exn \<Rightarrow> bool" where
  "is_JSONDecodeError (PyExn JSONDecodeError m) = True"
| "is_JSONDecodeError (PyExn RequestsJSONDecodeError m) = True"
| "is_JSONDecodeError e = False"

fun is_ValueError_or_TypeError :: "exn \<Rightarrow> bool" where
  "is_ValueError_or_TypeError (PyExn ValueError m) = True"
| "is_ValueError_or_TypeError (PyExn TypeError m) = True"
| "is_ValueError_or_TypeError e = False"

definition exn_bind :: "exn + 'a \<Rightarrow> ('a \<Rightarrow> exn + 'b) \<Rightarrow> exn + 'b" where
  "exn_bind m f = (case m of Inl e \<Rightarrow> Inl e | Inr x \<Rightarrow> f x)"

subsection \<open>Truth values, \<open>str()\<close>, \<open>dict.get\<close>, subscripts, iteration\<close>

fun truthy :: "json \<Rightarrow> bool" where
  "truthy JNull = False"
| "truthy (JBool b) = b"
| "truthy (JInt i) = (i \<noteq> 0)"
| "truthy (JFloat r) = (r \<noteq> 0)"
| "truthy (JStr s) = (s \<noteq> [])"
| "truthy (JList xs) = (xs \<noteq> [])"
| "truthy (JObj kvs) = (kvs \<noteq> [])"

fun str_of_nat :: "nat \<Rightarrow> pystr" where
  "str_of_nat n = (if n < 10 then [48 + n] else str_of_nat (n div 10) @ [48 + n mod 10])"

declare str_of_nat.simps [simp del]

definition str_of_int :: "int \<Rightarrow> pystr" where
  "str_of_int i = (if i < 0 then 45 # str_of_nat (nat (- i)) else str_of_nat (nat i))"

fun type_name :: "json \<Rightarrow> pystr" where
  "type_name JNull = asc ''NoneType''"
| "type_name (JBool b) = asc ''bool''"
| "type_name (JInt i) = asc ''int''"
| "type_name (JFloat r) = asc ''float''"
| "type_name (JStr s) = asc ''str''"
| "type_name (JList xs) = asc ''list''"
| "type_name (JObj kvs) = asc ''dict''"

text \<open>\<open>d.get(k, default)\<close>: the value stored under the key, else the default. Only a dict has the method.\<close>

definition lookup :: "(pystr \<times> json) list \<Rightarrow> pystr \<Rightarrow> json \<Rightarrow> json" where
  "lookup kvs k dflt = (case map_of kvs k of Some v \<Rightarrow> v | None \<Rightarrow> dflt)"

fun dict_get :: "json \<Rightarrow> pystr \<Rightarrow> json \<Rightarrow> exn + json" where
  "dict_get (JObj kvs) k dflt = Inr (lookup kvs k dflt)"
| "dict_get v k dflt =
     Inl (PyExn AttributeError
       ([39] @ type_name v @ [39] @ asc '' object has no attribute '' @ [39] @ asc ''get'' @ [39]))"

text \<open>
  \<open>d[k]\<close> with a string key. The text for a \<open>str\<close> is the one of Python 3.11 and later;
  earlier versions end it after "integers".
\<close>

fun subscript :: "json \<Rightarrow> pystr \<Rightarrow> exn + json" where
  "subscript (JObj kvs) k =
     (case map_of kvs k of Some v \<Rightarrow> Inr v | None \<Rightarrow> Inl (PyExn KeyError ([39] @ k @ [39])))"
| "subscript (JStr s) k =
     Inl (PyExn TypeError
       (asc ''string indices must be integers, not '' @ [39] @ asc ''str'' @ [39]))"
| "subscript (JList xs) k = Inl (PyExn TypeError (asc ''list indices must be integers or slices, not str''))"
| "subscript v k =
     Inl (PyExn TypeError ([39] @ type_name v @ [39] @ asc '' object is not subscriptable''))"

text \<open>\<open>v[0]\<close>.\<close>

fun subscript0 :: "json \<Rightarrow> exn + json" where
  "subscript0 (JList []) = Inl (PyExn IndexError (asc ''list index out of range''))"
| "subscript0 (JList (x # xs)) = Inr x"
| "subscript0 (JStr []) = Inl (PyExn IndexError (asc ''string index out of range''))"
| "subscript0 (JStr (c # cs)) = Inr (JStr [c])"
| "subscript0 (JObj kvs) = Inl (PyExn KeyError (asc ''0''))"
| "subscript0 v =
     Inl (PyExn TypeError ([39] @ type_name v @ [39] @ asc '' object is not subscriptable''))"

text \<open>\<open>for x in v\<close>: the elements of a list, the keys of a dict, the characters of a str.\<close>

fun py_iter :: "json \<Rightarrow> exn + json list" where
  "py_iter (JList xs) = Inr xs"
| "py_iter (JObj kvs) = Inr (map (\<lambda>kv. JStr (fst kv)) kvs)"
| "py_iter (JStr s) = Inr (map (\<lambda>c. JStr [c]) s)"
| "py_iter v =
     Inl (PyExn TypeError ([39] @ type_name v @ [39] @ asc '' object is not iterable''))"

section \<open>The environment: network, file system, Python runtime\<close>

datatype request =
    HttpGet pystr "(pystr \<times> pystr) list" "(pystr \<times> json) list option"
  | HttpPostJson pystr "(pystr \<times> pystr) list" "json option"
  | HttpPostFiles json pystr "nat list"

record response =
  status_code :: int
  http_error_text :: pystr
  resp_json :: "exn + json"

datatype outcome = Raised exn | Replied response

text \<open>
  \<open>respond\<close> is the \<open>requests\<close> library together with the remote service: given the
  requests issued so far and the next request, either the call raises or a response arrives.
  \<open>http_error_text\<close> is the text of the \<open>HTTPError\<close> that \<open>raise_for_status\<close> builds for
  the response, \<open>resp_json\<close> what \<open>response.json()\<close> returns or raises; for a body
  that does not decode, \<open>requests\<close> 2.27 and later raise \<open>RequestsJSONDecodeError\<close>.
  \<open>py_float\<close> is \<open>float(v)\<close>, \<open>local_time\<close> is
  \<open>datetime.fromtimestamp(f).strftime("%Y-%m-%d %H:%M:%S")\<close> in the local zone, \<open>now_text\<close>
  the same for \<open>datetime.now()\<close>, and \<open>str_other\<close> is \<open>str(v)\<close> for floats, lists and dicts.
  \<open>nan_order\<close> gives, for a list of sort keys with a NaN among them, the positions of
  the keys in the order in which \<open>list.sort\<close> leaves them: with NaN the comparisons are no
  order, and the result depends on how the sort merges.
\<close>

text \<open>
  The result of \<open>float(v)\<close>: a finite number, an infinity or NaN, with Python's \<open><\<close>, which
  is false whenever a NaN takes part.
\<close>

datatype pyfloat = Finite real | PosInf | NegInf | NaN

fun float_less :: "pyfloat \<Rightarrow> pyfloat \<Rightarrow> bool" where
  "float_less (Finite a) (Finite b) = (a < b)"
| "float_less (Finite a) PosInf = True"
| "float_less NegInf (Finite b) = True"
| "float_less NegInf PosInf = True"
| "float_less a b = False"

record env =
  respond :: "request list \<Rightarrow> request \<Rightarrow> outcome"
  path_exists :: "pystr \<Rightarrow> bool"
  getsize :: "pystr \<Rightarrow> exn + int"
  basename :: "pystr \<Rightarrow> pystr"
  open_rb :: "pystr \<Rightarrow> exn + nat list"
  py_float :: "json \<Rightarrow> exn + pyfloat"
  local_time :: "pyfloat \<Rightarrow> exn + pystr"
  nan_order :: "pyfloat list \<Rightarrow> nat list"
  now_text :: pystr
  str_other :: "json \<Rightarrow> pystr"

fun py_str :: "env \<Rightarrow> json \<Rightarrow> pystr" where
  "py_str env JNull = asc ''None''"
| "py_str env (JBool b) = (if b then asc ''True'' else asc ''False'')"
| "py_str env (JInt i) = str_of_int i"
| "py_str env (JStr s) = s"
| "py_str env v = str_other env v"

fun str_exn :: "env \<Rightarrow> exn \<Rightarrow> pystr" where
  "str_exn env (SlackAPIError err resp) = asc ''Slack API Error: '' @ py_str env err"
| "str_exn env (PyExn c m) = m"

subsection \<open>Computations that issue requests\<close>

text \<open>
  A computation takes the list of requests issued so far and returns a value or an
  exception together with the extended list.
\<close>

type_synonym 'a io = "request list \<Rightarrow> (exn + 'a) \<times> request list"

definition io_lift :: "exn + 'a \<Rightarrow> 'a io" where
  "io_lift r tr = (r, tr)"

definition io_bind :: "'a io \<Rightarrow> ('a \<Rightarrow> 'b io) \<Rightarrow> 'b io" where
  "io_bind m f tr = (case m tr of (Inl e, tr') \<Rightarrow> (Inl e, tr') | (Inr x, tr') \<Rightarrow> f x tr')"

definition io_catch :: "'a io \<Rightarrow> (exn \<Rightarrow> 'a io) \<Rightarrow> 'a io" where
  "io_catch m h tr = (case m tr of (Inl e, tr') \<Rightarrow> h e tr' | (Inr x, tr') \<Rightarrow> (Inr x, tr'))"

definition http :: "env \<Rightarrow> request \<Rightarrow> response io" where
  "http env req tr =
     (case respond env tr req of
        Raised e \<Rightarrow> (Inl e, tr @ [req])
      | Replied r \<Rightarrow> (Inr r, tr @ [req]))"

section \<open>The transport client (slack\_api.py)\<close>

text \<open>
  The client holds the token; every operation takes it as an argument. The debug output
  that the source prints is not part of the model.
\<close>

definition BASE_URL :: pystr where
  "BASE_URL = asc ''https://slack.com/api''"

definition headers :: "pystr \<Rightarrow> (pystr \<times> pystr) list" where
  "headers token =
     [(asc ''Authorization'', asc ''Bearer '' @ token),
      (asc ''Content-Type'', asc ''application/json; charset=utf-8''),
      (asc ''User-Agent'', asc ''SlackMCP/1.0'')]"

text \<open>\<open>Response.raise_for_status\<close> raises \<open>HTTPError\<close>, a \<open>RequestException\<close>, for 4xx and 5xx.\<close>

definition raise_for_status :: "response \<Rightarrow> exn + unit" where
  "raise_for_status r =
     (if 400 \<le> status_code r \<and> status_code r < 600
      then Inl (PyExn RequestException (http_error_text r)) else Inr ())"

text \<open>\<open>method.upper()\<close>, on the ASCII letters (no other character maps to G, E or T).\<close>

definition upper :: "pystr \<Rightarrow> pystr" where
  "upper s = map (\<lambda>c. if 97 \<le> c \<and> c \<le> 122 then c - 32 else c) s"

definition make_request ::
  "env \<Rightarrow> pystr \<Rightarrow> pystr \<Rightarrow> pystr \<Rightarrow> json option \<Rightarrow> (pystr \<times> json) list option \<Rightarrow> json io" where
  "make_request env token method endpoint data params =
     io_catch
       (io_bind
          (if upper method = asc ''GET''
           then http env (HttpGet (BASE_URL @ asc ''/'' @ endpoint) (headers token) params)
           else http env (HttpPostJson (BASE_URL @ asc ''/'' @ endpoint) (headers token) data))
          (\<lambda>response. io_lift
             (exn_bind (raise_for_status response) (\<lambda>u.
              exn_bind (resp_json response) (\<lambda>result.
              exn_bind (dict_get result (asc ''ok'') (JBool False)) (\<lambda>ok.
                if \<not> truthy ok
                then exn_bind (dict_get result (asc ''error'') (JStr (asc ''Unknown error'')))
                       (\<lambda>error_msg. Inl (SlackAPIError error_msg (Some result)))
                else Inr result))))))
       (\<lambda>e. if is_RequestException e
            then io_lift (Inl (SlackAPIError (JStr (asc ''Network error: '' @ str_exn env e)) None))
            else if is_JSONDecodeError e
            then io_lift (Inl (SlackAPIError (JStr (asc ''JSON decode error: '' @ str_exn env e)) None))
            else io_lift (Inl e))"

subsection \<open>String literals of the client\<close>

text \<open>
  The messages of the client, as code points: the two scope remediation messages of
  \<open>get_channels\<close> and \<open>get_channel_history\<close>, the one of \<open>search_messages\<close> (followed by
  "current error: "), and the failure messages of \<open>upload_file\<close> ("file not found: ",
  "channel not found: ", "file upload failed: HTTP ", "network error during file upload: ",
  "file upload failed: ").
\<close>

definition guidance_channels :: pystr where
  "guidance_channels =
     [0xCC44, 0xB110, 0x20, 0xBAA9, 0xB85D, 0x20, 0xC870, 0xD68C, 0x20, 0xAD8C, 0xD55C,
     0xC774, 0x20, 0xC5C6, 0xC2B5, 0xB2C8, 0xB2E4, 0x2E, 0x20, 0x27] @ asc ''channels:read''
     @ [0x27, 0x20, 0xC2A4, 0xCF54, 0xD504, 0xAC00, 0x20, 0xD544, 0xC694, 0xD569, 0xB2C8,
     0xB2E4, 0x2E]"

definition guidance_history :: pystr where
  "guidance_history =
     [0xCC44, 0xB110, 0x20, 0xD788, 0xC2A4, 0xD1A0, 0xB9AC, 0x20, 0xC870, 0xD68C, 0x20,
     0xAD8C, 0xD55C, 0xC774, 0x20, 0xC5C6, 0xC2B5, 0xB2C8, 0xB2E4, 0x2E, 0x20, 0x27] @
     asc ''channels:history'' @ [0x27, 0x20, 0xC2A4, 0xCF54, 0xD504, 0xAC00, 0x20, 0xD544,
     0xC694, 0xD569, 0xB2C8, 0xB2E4, 0x2E]"

definition guidance_search :: pystr where
  "guidance_search =
     [0xBA54, 0xC2DC, 0xC9C0, 0x20, 0xAC80, 0xC0C9, 0x20, 0xAD8C, 0xD55C, 0xC774, 0x20,
     0xC5C6, 0xC2B5, 0xB2C8, 0xB2E4] @ asc ''. Slack '' @ [0xC571, 0xC758] @ asc '' OAuth ''
     @ [0xC2A4, 0xCF54, 0xD504, 0xC5D0, 0x20, 0x27] @ asc ''search:read'' @ [0x27, 0xB97C,
     0x20, 0xCD94, 0xAC00, 0xD574, 0xC8FC, 0xC138, 0xC694, 0x2E, 0x20]"

definition guidance_search_current :: pystr where
  "guidance_search_current =
     [0xD604, 0xC7AC, 0x20, 0xC624, 0xB958, 0x3A, 0x20]"

definition file_not_found :: pystr where
  "file_not_found =
     [0xD30C, 0xC77C, 0xC744, 0x20, 0xCC3E, 0xC744, 0x20, 0xC218, 0x20, 0xC5C6, 0xC2B5,
     0xB2C8, 0xB2E4, 0x3A, 0x20]"

definition channel_not_found :: pystr where
  "channel_not_found =
     [0xCC44, 0xB110, 0xC744, 0x20, 0xCC3E, 0xC744, 0x20, 0xC218, 0x20, 0xC5C6, 0xC2B5,
     0xB2C8, 0xB2E4, 0x3A, 0x20]"

definition upload_failed_http :: pystr where
  "upload_failed_http =
     [0xD30C, 0xC77C, 0x20, 0xC5C5, 0xB85C, 0xB4DC, 0x20, 0xC2E4, 0xD328] @ asc '': HTTP ''"

definition upload_network_error :: pystr where
  "upload_network_error =
     [0xD30C, 0xC77C, 0x20, 0xC5C5, 0xB85C, 0xB4DC, 0x20, 0xC911, 0x20, 0xB124, 0xD2B8,
     0xC6CC, 0xD06C, 0x20, 0xC624, 0xB958, 0x3A, 0x20]"

definition upload_failed :: pystr where
  "upload_failed =
     [0xD30C, 0xC77C, 0x20, 0xC5C5, 0xB85C, 0xB4DC, 0x20, 0xC2E4, 0xD328, 0x3A, 0x20]"

subsection \<open>Data classes\<close>

text \<open>
  The fields are filled from decoded responses without any check, so they hold whatever
  value the response has. The prefixes keep the field names of the three classes apart.
\<close>

record SlackMessage =
  m_text :: json
  m_user :: json
  m_timestamp :: json
  m_channel :: pystr
  m_user_name :: json
  m_thread_ts :: json

record SlackChannel =
  c_id :: json
  c_name :: json
  c_is_private :: json
  c_is_member :: json
  c_topic :: json
  c_purpose :: json
  c_num_members :: json

record SlackUser =
  u_id :: json
  u_name :: json
  u_real_name :: json
  u_email :: json
  u_is_bot :: json
  u_is_admin :: json
  u_status :: json

text \<open>
  A \<open>for\<close> loop that appends to a result list: the body returns the element to append, or
  \<open>None\<close> where the source says \<open>continue\<close>; an exception in the body ends the loop.
\<close>

fun for_each :: "('a \<Rightarrow> exn + 'b option) \<Rightarrow> 'a list \<Rightarrow> exn + 'b list" where
  "for_each body [] = Inr []"
| "for_each body (x # xs) =
     (case body x of
        Inl e \<Rightarrow> Inl e
      | Inr None \<Rightarrow> for_each body xs
      | Inr (Some y) \<Rightarrow> (case for_each body xs of Inl e \<Rightarrow> Inl e | Inr ys \<Rightarrow> Inr (y # ys)))"

subsection \<open>Operations\<close>

definition startswith :: "nat \<Rightarrow> pystr \<Rightarrow> bool" where
  "startswith c s = (case s of [] \<Rightarrow> False | x # xs \<Rightarrow> x = c)"

definition send_message :: "env \<Rightarrow> pystr \<Rightarrow> pystr \<Rightarrow> pystr \<Rightarrow> pystr option \<Rightarrow> json io" where
  "send_message env token channel text thread_ts =
     make_request env token (asc ''POST'') (asc ''chat.postMessage'')
       (Some (JObj
          ([(asc ''channel'', JStr (if startswith 35 channel then drop 1 channel else channel)),
            (asc ''text'', JStr text),
            (asc ''unfurl_links'', JBool True),
            (asc ''unfurl_media'', JBool True)]
           @ (case thread_ts of
                None \<Rightarrow> []
              | Some t \<Rightarrow> if t \<noteq> [] then [(asc ''thread_ts'', JStr t)] else []))))
       None"

definition slack_channel_of :: "json \<Rightarrow> exn + SlackChannel option" where
  "slack_channel_of channel_data =
     exn_bind (subscript channel_data (asc ''id'')) (\<lambda>v_id.
     exn_bind (subscript channel_data (asc ''name'')) (\<lambda>v_name.
     exn_bind (dict_get channel_data (asc ''is_private'') (JBool False)) (\<lambda>v_private.
     exn_bind (dict_get channel_data (asc ''is_member'') (JBool False)) (\<lambda>v_member.
     exn_bind (dict_get channel_data (asc ''topic'') (JObj [])) (\<lambda>t.
     exn_bind (dict_get t (asc ''value'') JNull) (\<lambda>v_topic.
     exn_bind (dict_get channel_data (asc ''purpose'') (JObj [])) (\<lambda>p.
     exn_bind (dict_get p (asc ''value'') JNull) (\<lambda>v_purpose.
     exn_bind (dict_get channel_data (asc ''num_members'') JNull) (\<lambda>v_members.
       Inr (Some \<lparr>c_id = v_id, c_name = v_name, c_is_private = v_private,
                  c_is_member = v_member, c_topic = v_topic, c_purpose = v_purpose,
                  c_num_members = v_members\<rparr>))))))))))"

definition get_channels :: "env \<Rightarrow> pystr \<Rightarrow> bool \<Rightarrow> SlackChannel list io" where
  "get_channels env token exclude_archived =
     io_catch
       (io_bind
          (make_request env token (asc ''GET'') (asc ''conversations.list'') None
             (Some [(asc ''types'', JStr (asc ''public_channel'')),
                    (asc ''exclude_archived'', JBool exclude_archived),
                    (asc ''limit'', JInt 1000)]))
          (\<lambda>result. io_lift
             (exn_bind (dict_get result (asc ''channels'') (JList [])) (\<lambda>v.
              exn_bind (py_iter v) (for_each slack_channel_of)))))
       (\<lambda>e. case e of
              SlackAPIError err resp \<Rightarrow>
                if sublist (asc ''missing_scope'') (py_str env err)
                then io_lift (Inl (SlackAPIError (JStr guidance_channels) None))
                else io_lift (Inl e)
            | PyExn c m \<Rightarrow> io_lift (Inl e))"

definition noise_subtypes :: "json list" where
  "noise_subtypes =
     [JStr (asc ''bot_message''), JStr (asc ''channel_join''), JStr (asc ''channel_leave'')]"

definition history_message :: "pystr \<Rightarrow> json \<Rightarrow> exn + SlackMessage option" where
  "history_message channel_id msg_data =
     exn_bind (dict_get msg_data (asc ''subtype'') JNull) (\<lambda>subtype.
       if subtype \<in> set noise_subtypes then Inr None
       else
         exn_bind (dict_get msg_data (asc ''text'') (JStr [])) (\<lambda>v_text.
         exn_bind (dict_get msg_data (asc ''user'') (JStr [])) (\<lambda>v_user.
         exn_bind (dict_get msg_data (asc ''ts'') (JStr [])) (\<lambda>v_ts.
         exn_bind (dict_get msg_data (asc ''thread_ts'') JNull) (\<lambda>v_thread.
           Inr (Some \<lparr>m_text = v_text, m_user = v_user, m_timestamp = v_ts,
                      m_channel = channel_id, m_user_name = JNull,
                      m_thread_ts = v_thread\<rparr>))))))"

definition optional_param :: "pystr \<Rightarrow> pystr option \<Rightarrow> (pystr \<times> json) list" where
  "optional_param k v =
     (case v of None \<Rightarrow> [] | Some s \<Rightarrow> if s \<noteq> [] then [(k, JStr s)] else [])"

definition get_channel_history ::
  "env \<Rightarrow> pystr \<Rightarrow> pystr \<Rightarrow> int \<Rightarrow> pystr option \<Rightarrow> pystr option \<Rightarrow> SlackMessage list io" where
  "get_channel_history env token channel_id limit oldest latest =
     io_catch
       (io_bind
          (make_request env token (asc ''GET'') (asc ''conversations.history'') None
             (Some ([(asc ''channel'', JStr channel_id), (asc ''limit'', JInt (min limit 100))]
                    @ optional_param (asc ''oldest'') oldest
                    @ optional_param (asc ''latest'') latest)))
          (\<lambda>result. io_lift
             (exn_bind (dict_get result (asc ''messages'') (JList [])) (\<lambda>v.
              exn_bind (py_iter v) (for_each (history_message channel_id))))))
       (\<lambda>e. case e of
              SlackAPIError err resp \<Rightarrow>
                if sublist (asc ''missing_scope'') (py_str env err)
                then io_lift (Inl (SlackAPIError (JStr guidance_history) None))
                else io_lift (Inl e)
            | PyExn c m \<Rightarrow> io_lift (Inl e))"

definition send_direct_message :: "env \<Rightarrow> pystr \<Rightarrow> pystr \<Rightarrow> pystr \<Rightarrow> json io" where
  "send_direct_message env token user_id text =
     io_catch
       (io_bind
          (make_request env token (asc ''POST'') (asc ''conversations.open'')
             (Some (JObj [(asc ''users'', JStr user_id)])) None)
          (\<lambda>dm_result.
             io_bind
               (io_lift (exn_bind (subscript dm_result (asc ''channel'')) (\<lambda>c.
                           subscript c (asc ''id''))))
               (\<lambda>dm_channel_id.
                  case dm_channel_id of
                    JStr s \<Rightarrow> send_message env token s text None
                  | v \<Rightarrow> io_lift (Inl (PyExn AttributeError
                           ([39] @ type_name v @ [39] @ asc '' object has no attribute ''
                            @ [39] @ asc ''startswith'' @ [39]))))))
       (\<lambda>e. io_lift (Inl e))"

definition slack_user_of :: "json \<Rightarrow> exn + SlackUser" where
  "slack_user_of user_data =
     exn_bind (subscript user_data (asc ''id'')) (\<lambda>v_id.
     exn_bind (subscript user_data (asc ''name'')) (\<lambda>v_name.
     exn_bind (dict_get user_data (asc ''real_name'') (JStr [])) (\<lambda>v_real.
     exn_bind (dict_get user_data (asc ''profile'') (JObj [])) (\<lambda>p1.
     exn_bind (dict_get p1 (asc ''email'') JNull) (\<lambda>v_email.
     exn_bind (dict_get user_data (asc ''is_bot'') (JBool False)) (\<lambda>v_bot.
     exn_bind (dict_get user_data (asc ''is_admin'') (JBool False)) (\<lambda>v_admin.
     exn_bind (dict_get user_data (asc ''profile'') (JObj [])) (\<lambda>p2.
     exn_bind (dict_get p2 (asc ''status_text'') JNull) (\<lambda>v_status.
       Inr \<lparr>u_id = v_id, u_name = v_name, u_real_name = v_real, u_email = v_email,
            u_is_bot = v_bot, u_is_admin = v_admin, u_status = v_status\<rparr>)))))))))"

definition users_member :: "json \<Rightarrow> exn + SlackUser option" where
  "users_member user_data =
     exn_bind (dict_get user_data (asc ''deleted'') (JBool False)) (\<lambda>deleted.
       if truthy deleted then Inr None
       else exn_bind (slack_user_of user_data) (\<lambda>user. Inr (Some user)))"

definition get_users :: "env \<Rightarrow> pystr \<Rightarrow> int \<Rightarrow> SlackUser list io" where
  "get_users env token limit =
     io_bind
       (make_request env token (asc ''GET'') (asc ''users.list'') None
          (Some [(asc ''limit'', JInt (min limit 1000))]))
       (\<lambda>result. io_lift
          (exn_bind (dict_get result (asc ''members'') (JList [])) (\<lambda>v.
           exn_bind (py_iter v) (for_each users_member))))"

definition get_user_info :: "env \<Rightarrow> pystr \<Rightarrow> pystr \<Rightarrow> SlackUser io" where
  "get_user_info env token user_id =
     io_bind
       (make_request env token (asc ''GET'') (asc ''users.info'') None
          (Some [(asc ''user'', JStr user_id)]))
       (\<lambda>result. io_lift (exn_bind (subscript result (asc ''user'')) slack_user_of))"

definition search_messages :: "env \<Rightarrow> pystr \<Rightarrow> pystr \<Rightarrow> int \<Rightarrow> pystr \<Rightarrow> json io" where
  "search_messages env token query count sort_mode =
     io_catch
       (io_bind
          (make_request env token (asc ''GET'') (asc ''search.messages'') None
             (Some [(asc ''query'', JStr query), (asc ''count'', JInt (min count 100)),
                    (asc ''sort'', JStr sort_mode)]))
          (\<lambda>result. io_lift
             (exn_bind (dict_get result (asc ''messages'') (JObj [])) (\<lambda>v.
              dict_get v (asc ''matches'') (JList [])))))
       (\<lambda>e. case e of
              SlackAPIError err resp \<Rightarrow>
                if err \<in> set [JStr (asc ''not_allowed_token_type''), JStr (asc ''missing_scope'')]
                then io_lift (Inl (SlackAPIError
                       (JStr (guidance_search @ guidance_search_current @ py_str env err)) None))
                else io_lift (Inl e)
            | PyExn c m \<Rightarrow> io_lift (Inl e))"

text \<open>
  \<open>upload_file\<close>. \<open>channels\<close> is a string or a list of strings. The steps after the check of
  the local path run inside one \<open>try\<close>, whose handlers wrap every exception, also a
  \<open>SlackAPIError\<close> raised by a step, into a new \<open>SlackAPIError\<close>.
\<close>

definition resolve_channels :: "env \<Rightarrow> pystr \<Rightarrow> json \<Rightarrow> json io" where
  "resolve_channels env token channels =
     (case channels of
        JStr s \<Rightarrow>
          if \<not> startswith 67 s
          then io_bind (get_channels env token True) (\<lambda>channel_list.
                 let channel_id = (case find (\<lambda>channel. c_name channel = JStr s) channel_list of
                                     None \<Rightarrow> JNull
                                   | Some channel \<Rightarrow> c_id channel)
                 in if \<not> truthy channel_id
                    then io_lift (Inl (SlackAPIError (JStr (channel_not_found @ s)) None))
                    else io_lift (Inr channel_id))
          else io_lift (Inr channels)
      | v \<Rightarrow> io_lift (Inr channels))"

definition title_or :: "pystr option \<Rightarrow> pystr \<Rightarrow> pystr" where
  "title_or title dflt = (case title of None \<Rightarrow> dflt | Some t \<Rightarrow> if t \<noteq> [] then t else dflt)"

definition upload_file ::
  "env \<Rightarrow> pystr \<Rightarrow> json \<Rightarrow> pystr \<Rightarrow> pystr option \<Rightarrow> pystr option \<Rightarrow> json io" where
  "upload_file env token channels file_path title initial_comment =
     (if \<not> path_exists env file_path
      then io_lift (Inl (SlackAPIError (JStr (file_not_found @ file_path)) None))
      else
        io_catch
          (io_bind (resolve_channels env token channels) (\<lambda>channels.
           io_bind (io_lift (getsize env file_path)) (\<lambda>file_size.
           io_bind
             (make_request env token (asc ''GET'') (asc ''files.getUploadURLExternal'') None
                (Some [(asc ''filename'', JStr (basename env file_path)),
                       (asc ''length'', JInt file_size)])) (\<lambda>upload_result.
           io_bind (io_lift (subscript upload_result (asc ''upload_url''))) (\<lambda>upload_url.
           io_bind (io_lift (subscript upload_result (asc ''file_id''))) (\<lambda>file_id.
           io_bind (io_lift (open_rb env file_path)) (\<lambda>f.
           io_bind (http env (HttpPostFiles upload_url (basename env file_path) f)) (\<lambda>response.
             if status_code response \<noteq> 200
             then io_lift (Inl (SlackAPIError
                    (JStr (upload_failed_http @ str_of_int (status_code response))) None))
             else
               io_bind
                 (io_lift (case channels of JStr s \<Rightarrow> Inr channels | v \<Rightarrow> subscript0 channels))
                 (\<lambda>channel_id.
                    make_request env token (asc ''POST'') (asc ''files.completeUploadExternal'')
                      (Some (JObj
                         ([(asc ''files'',
                            JList [JObj [(asc ''id'', file_id),
                                         (asc ''title'',
                                          JStr (title_or title (basename env file_path)))]]),
                           (asc ''channel_id'', channel_id)]
                          @ optional_param (asc ''initial_comment'') initial_comment)))
                      None)))))))))
          (\<lambda>e. if is_RequestException e
               then io_lift (Inl (SlackAPIError
                      (JStr (upload_network_error @ str_exn env e)) None))
               else io_lift (Inl (SlackAPIError (JStr (upload_failed @ str_exn env e)) None))))"

definition add_reaction :: "env \<Rightarrow> pystr \<Rightarrow> pystr \<Rightarrow> pystr \<Rightarrow> pystr \<Rightarrow> json io" where
  "add_reaction env token channel timestamp name =
     make_request env token (asc ''POST'') (asc ''reactions.add'')
       (Some (JObj [(asc ''channel'', JStr channel), (asc ''timestamp'', JStr timestamp),
                    (asc ''name'', JStr name)]))
       None"

definition thread_message :: "pystr \<Rightarrow> json \<Rightarrow> exn + SlackMessage option" where
  "thread_message channel msg_data =
     exn_bind (dict_get msg_data (asc ''text'') (JStr [])) (\<lambda>v_text.
     exn_bind (dict_get msg_data (asc ''user'') (JStr (asc ''unknown''))) (\<lambda>v_user.
     exn_bind (dict_get msg_data (asc ''ts'') (JStr [])) (\<lambda>v_ts.
     exn_bind (dict_get msg_data (asc ''thread_ts'') JNull) (\<lambda>v_thread.
       Inr (Some \<lparr>m_text = v_text, m_user = v_user, m_timestamp = v_ts, m_channel = channel,
                  m_user_name = JNull, m_thread_ts = v_thread\<rparr>)))))"

definition get_thread_replies :: "env \<Rightarrow> pystr \<Rightarrow> pystr \<Rightarrow> pystr \<Rightarrow> SlackMessage list io" where
  "get_thread_replies env token channel thread_ts =
     io_bind
       (make_request env token (asc ''GET'') (asc ''conversations.replies'') None
          (Some [(asc ''channel'', JStr channel), (asc ''ts'', JStr thread_ts)]))
       (\<lambda>result. io_lift
          (exn_bind (dict_get result (asc ''messages'') (JList [])) (\<lambda>v.
           exn_bind (py_iter v) (for_each (thread_message channel)))))"

definition test_connection :: "env \<Rightarrow> pystr \<Rightarrow> json io" where
  "test_connection env token =
     make_request env token (asc ''GET'') (asc ''auth.test'') None None"

section \<open>The tool adapter layer (slack\_mcp\_server.py)\<close>

subsection \<open>String literals of the tools\<close>

text \<open>
  The fixed parts of the rendered strings, as code points. A failure string starts with
  U+274C and a success string with U+2705; 0x0A is the line feed.
\<close>

definition unexpected_error :: pystr where
  "unexpected_error =
     [0x274C, 0x20, 0xC608, 0xC0C1, 0xCE58, 0x20, 0xBABB, 0xD55C, 0x20, 0xC624, 0xB958, 0x20,
     0xBC1C, 0xC0DD, 0x3A, 0x20]"

definition no_messages :: pystr where
  "no_messages =
     [0xBA54, 0xC2DC, 0xC9C0, 0xAC00, 0x20, 0xC5C6, 0xC2B5, 0xB2C8, 0xB2E4, 0x2E]"

definition thread_reply_mark :: pystr where
  "thread_reply_mark =
     [0x20, 0x28, 0xC2A4, 0xB808, 0xB4DC, 0x20, 0xB2F5, 0xAE00, 0x29]"

definition timestamp_arrow :: pystr where
  "timestamp_arrow =
     [0xA, 0x2192, 0x20, 0xD0C0, 0xC784, 0xC2A4, 0xD0EC, 0xD504, 0x3A, 0x20]"

definition no_channels :: pystr where
  "no_channels =
     [0xC811, 0xADFC, 0x20, 0xAC00, 0xB2A5, 0xD55C, 0x20, 0xCC44, 0xB110, 0xC774, 0x20,
     0xC5C6, 0xC2B5, 0xB2C8, 0xB2E4, 0x2E]"

definition privacy_private :: pystr where
  "privacy_private =
     [0xBE44, 0xACF5, 0xAC1C]"

definition privacy_public :: pystr where
  "privacy_public =
     [0xACF5, 0xAC1C]"

definition membership_member :: pystr where
  "membership_member =
     [0xBA64, 0xBC84]"

definition membership_nonmember :: pystr where
  "membership_nonmember =
     [0xBE44, 0xBA64, 0xBC84]"

definition channel_topic :: pystr where
  "channel_topic =
     [0xA, 0x20, 0x20, 0xC8FC, 0xC81C, 0x3A, 0x20]"

definition channel_purpose :: pystr where
  "channel_purpose =
     [0xA, 0x20, 0x20, 0xBAA9, 0xC801, 0x3A, 0x20]"

definition channel_members :: pystr where
  "channel_members =
     [0xA, 0x20, 0x20, 0xBA64, 0xBC84, 0x20, 0xC218, 0x3A, 0x20]"

definition channel_members_unit :: pystr where
  "channel_members_unit =
     [0xBA85]"

definition no_users :: pystr where
  "no_users =
     [0xC0AC, 0xC6A9, 0xC790, 0xAC00, 0x20, 0xC5C6, 0xC2B5, 0xB2C8, 0xB2E4, 0x2E]"

definition user_email :: pystr where
  "user_email =
     [0xC774, 0xBA54, 0xC77C, 0x3A, 0x20]"

definition user_bot :: pystr where
  "user_bot =
     [0xBD07]"

definition user_admin :: pystr where
  "user_admin =
     [0xAD00, 0xB9AC, 0xC790]"

definition user_status :: pystr where
  "user_status =
     [0xC0C1, 0xD0DC, 0x3A, 0x20]"

definition send_ok :: pystr where
  "send_ok =
     [0x2705, 0x20, 0xBA54, 0xC2DC, 0xC9C0, 0xAC00, 0x20, 0xC131, 0xACF5, 0xC801, 0xC73C,
     0xB85C, 0x20, 0xC804, 0xC1A1, 0xB418, 0xC5C8, 0xC2B5, 0xB2C8, 0xB2E4, 0x21, 0xA]"

definition label_channel :: pystr where
  "label_channel =
     [0xCC44, 0xB110, 0x3A, 0x20]"

definition label_message :: pystr where
  "label_message =
     [0xBA54, 0xC2DC, 0xC9C0, 0x3A, 0x20]"

definition label_timestamp :: pystr where
  "label_timestamp =
     [0xD0C0, 0xC784, 0xC2A4, 0xD0EC, 0xD504, 0x3A, 0x20]"

definition send_failed :: pystr where
  "send_failed =
     [0x274C, 0x20, 0xBA54, 0xC2DC, 0xC9C0, 0x20, 0xC804, 0xC1A1, 0x20, 0xC2E4, 0xD328, 0x3A,
     0x20]"

definition channels_total :: pystr where
  "channels_total =
     [0x1F4CB, 0x20, 0xCD1D, 0x20]"

definition channels_found :: pystr where
  "channels_found =
     [0xAC1C, 0xC758, 0x20, 0xCC44, 0xB110, 0xC744, 0x20, 0xCC3E, 0xC558, 0xC2B5, 0xB2C8,
     0xB2E4, 0x2E, 0xA, 0xA]"

definition channels_public :: pystr where
  "channels_public =
     [0x1F310, 0x20, 0xACF5, 0xAC1C, 0x20, 0xCC44, 0xB110, 0x20, 0x28]"

definition count_close :: pystr where
  "count_close =
     [0xAC1C, 0x29, 0x3A, 0xA]"

definition channels_private :: pystr where
  "channels_private =
     [0x1F512, 0x20, 0xBE44, 0xACF5, 0xAC1C, 0x20, 0xCC44, 0xB110, 0x20, 0x28]"

definition channels_failed :: pystr where
  "channels_failed =
     [0x274C, 0x20, 0xCC44, 0xB110, 0x20, 0xBAA9, 0xB85D, 0x20, 0xC870, 0xD68C, 0x20, 0xC2E4,
     0xD328, 0x3A, 0x20]"

definition history_channel :: pystr where
  "history_channel =
     [0xCC44, 0xB110, 0x20]"

definition history_empty :: pystr where
  "history_empty =
     [0xC5D0, 0x20, 0xBA54, 0xC2DC, 0xC9C0, 0xAC00, 0x20, 0xC5C6, 0xC2B5, 0xB2C8, 0xB2E4,
     0x2E]"

definition history_head :: pystr where
  "history_head =
     [0x1F4DC, 0x20, 0xCC44, 0xB110, 0x20]"

definition history_recent :: pystr where
  "history_recent =
     [0xC758, 0x20, 0xCD5C, 0xADFC, 0x20]"

definition history_count :: pystr where
  "history_count =
     [0xAC1C, 0x20, 0xBA54, 0xC2DC, 0xC9C0, 0x3A, 0xA, 0xA]"

definition history_failed :: pystr where
  "history_failed =
     [0x274C, 0x20, 0xCC44, 0xB110, 0x20, 0xD788, 0xC2A4, 0xD1A0, 0xB9AC, 0x20, 0xC870,
     0xD68C, 0x20, 0xC2E4, 0xD328, 0x3A, 0x20]"

definition history_channel_id :: pystr where
  "history_channel_id =
     [0xA, 0xCC44, 0xB110] @ asc '' ID: ''"

definition dm_ok :: pystr where
  "dm_ok =
     [0x2705, 0x20, 0xB2E4, 0xC774, 0xB809, 0xD2B8, 0x20, 0xBA54, 0xC2DC, 0xC9C0, 0xAC00,
     0x20, 0xC131, 0xACF5, 0xC801, 0xC73C, 0xB85C, 0x20, 0xC804, 0xC1A1, 0xB418, 0xC5C8,
     0xC2B5, 0xB2C8, 0xB2E4, 0x21, 0xA]"

definition label_recipient :: pystr where
  "label_recipient =
     [0xC218, 0xC2E0, 0xC790, 0x3A, 0x20]"

definition dm_failed :: pystr where
  "dm_failed =
     [0x274C, 0x20, 0xB2E4, 0xC774, 0xB809, 0xD2B8, 0x20, 0xBA54, 0xC2DC, 0xC9C0, 0x20,
     0xC804, 0xC1A1, 0x20, 0xC2E4, 0xD328, 0x3A, 0x20]"

definition label_user_id :: pystr where
  "label_user_id =
     [0xC0AC, 0xC6A9, 0xC790] @ asc '' ID: ''"

definition users_not_found :: pystr where
  "users_not_found =
     [0xC0AC, 0xC6A9, 0xC790, 0xB97C, 0x20, 0xCC3E, 0xC744, 0x20, 0xC218, 0x20, 0xC5C6,
     0xC2B5, 0xB2C8, 0xB2E4, 0x2E]"

definition users_total :: pystr where
  "users_total =
     [0x1F465, 0x20, 0xCD1D, 0x20]"

definition users_found :: pystr where
  "users_found =
     [0xBA85, 0xC758, 0x20, 0xC0AC, 0xC6A9, 0xC790, 0xB97C, 0x20, 0xCC3E, 0xC558, 0xC2B5,
     0xB2C8, 0xB2E4, 0x2E, 0xA, 0xA]"

definition users_regular :: pystr where
  "users_regular =
     [0x1F464, 0x20, 0xC77C, 0xBC18, 0x20, 0xC0AC, 0xC6A9, 0xC790, 0x20, 0x28]"

definition users_close :: pystr where
  "users_close =
     [0xBA85, 0x29, 0x3A, 0xA]"

definition users_bots :: pystr where
  "users_bots =
     [0x1F916, 0x20, 0xBD07, 0x20, 0xC0AC, 0xC6A9, 0xC790, 0x20, 0x28]"

definition users_failed :: pystr where
  "users_failed =
     [0x274C, 0x20, 0xC0AC, 0xC6A9, 0xC790, 0x20, 0xBAA9, 0xB85D, 0x20, 0xC870, 0xD68C, 0x20,
     0xC2E4, 0xD328, 0x3A, 0x20]"

definition search_empty :: pystr where
  "search_empty =
     [0x27, 0x20, 0xD0A4, 0xC6CC, 0xB4DC, 0xB85C, 0x20, 0xAC80, 0xC0C9, 0xB41C, 0x20, 0xBA54,
     0xC2DC, 0xC9C0, 0xAC00, 0x20, 0xC5C6, 0xC2B5, 0xB2C8, 0xB2E4, 0x2E]"

definition search_head :: pystr where
  "search_head =
     [0x1F50D, 0x20, 0x27]"

definition search_results :: pystr where
  "search_results =
     [0x27, 0x20, 0xAC80, 0xC0C9, 0x20, 0xACB0, 0xACFC, 0x20, 0x28]"

definition search_count :: pystr where
  "search_count =
     [0xAC1C, 0x29, 0x3A, 0xA, 0xA]"

definition search_failed :: pystr where
  "search_failed =
     [0x274C, 0x20, 0xBA54, 0xC2DC, 0xC9C0, 0x20, 0xAC80, 0xC0C9, 0x20, 0xC2E4, 0xD328, 0x3A,
     0x20]"

definition search_query :: pystr where
  "search_query =
     [0xA, 0xAC80, 0xC0C9, 0xC5B4, 0x3A, 0x20]"

definition tool_file_not_found :: pystr where
  "tool_file_not_found =
     [0x274C, 0x20, 0xD30C, 0xC77C, 0xC744, 0x20, 0xCC3E, 0xC744, 0x20, 0xC218, 0x20, 0xC5C6,
     0xC2B5, 0xB2C8, 0xB2E4, 0x3A, 0x20]"

definition upload_ok :: pystr where
  "upload_ok =
     [0x2705, 0x20, 0xD30C, 0xC77C, 0xC774, 0x20, 0xC131, 0xACF5, 0xC801, 0xC73C, 0xB85C,
     0x20, 0xC5C5, 0xB85C, 0xB4DC, 0xB418, 0xC5C8, 0xC2B5, 0xB2C8, 0xB2E4, 0x21, 0xA]"

definition label_file_name :: pystr where
  "label_file_name =
     [0xD30C, 0xC77C, 0xBA85, 0x3A, 0x20]"

definition label_size :: pystr where
  "label_size =
     [0xD06C, 0xAE30, 0x3A, 0x20]"

definition label_title :: pystr where
  "label_title =
     [0xC81C, 0xBAA9, 0x3A, 0x20]"

definition label_none :: pystr where
  "label_none =
     [0xC5C6, 0xC74C]"

definition label_comment :: pystr where
  "label_comment =
     [0xCF54, 0xBA58, 0xD2B8, 0x3A, 0x20]"

definition tool_upload_failed :: pystr where
  "tool_upload_failed =
     [0x274C, 0x20, 0xD30C, 0xC77C, 0x20, 0xC5C5, 0xB85C, 0xB4DC, 0x20, 0xC2E4, 0xD328, 0x3A,
     0x20]"

definition label_file :: pystr where
  "label_file =
     [0xD30C, 0xC77C, 0x3A, 0x20]"

definition reaction_ok :: pystr where
  "reaction_ok =
     [0x2705, 0x20, 0xC774, 0xBAA8, 0xC9C0, 0x20, 0xBC18, 0xC751, 0xC774, 0x20, 0xC131,
     0xACF5, 0xC801, 0xC73C, 0xB85C, 0x20, 0xCD94, 0xAC00, 0xB418, 0xC5C8, 0xC2B5, 0xB2C8,
     0xB2E4, 0x21, 0xA]"

definition label_message_time :: pystr where
  "label_message_time =
     [0xBA54, 0xC2DC, 0xC9C0, 0x20, 0xC2DC, 0xAC04, 0x3A, 0x20]"

definition label_emoji_colon :: pystr where
  "label_emoji_colon =
     [0xC774, 0xBAA8, 0xC9C0, 0x3A, 0x20, 0x3A]"

definition reaction_failed :: pystr where
  "reaction_failed =
     [0x274C, 0x20, 0xC774, 0xBAA8, 0xC9C0, 0x20, 0xBC18, 0xC751, 0x20, 0xCD94, 0xAC00, 0x20,
     0xC2E4, 0xD328, 0x3A, 0x20]"

definition label_emoji :: pystr where
  "label_emoji =
     [0xC774, 0xBAA8, 0xC9C0, 0x3A, 0x20]"

definition thread_empty :: pystr where
  "thread_empty =
     [0xC2A4, 0xB808, 0xB4DC, 0xC5D0, 0x20, 0xB2F5, 0xAE00, 0xC774, 0x20, 0xC5C6, 0xC2B5,
     0xB2C8, 0xB2E4, 0x2E, 0xA, 0xCC44, 0xB110, 0x3A, 0x20]"

definition thread_label :: pystr where
  "thread_label =
     [0xA, 0xC2A4, 0xB808, 0xB4DC, 0x3A, 0x20]"

definition thread_head :: pystr where
  "thread_head =
     [0x1F9F5, 0x20, 0xC2A4, 0xB808, 0xB4DC, 0x20, 0xB2F5, 0xAE00, 0x20, 0x28]"

definition thread_original :: pystr where
  "thread_original =
     [0xC6D0, 0xBCF8, 0x20, 0xBA54, 0xC2DC, 0xC9C0, 0x20, 0xC2DC, 0xAC04, 0x3A, 0x20]"

definition thread_no_replies :: pystr where
  "thread_no_replies =
     [0xB2F5, 0xAE00, 0xC774, 0x20, 0xC5C6, 0xC2B5, 0xB2C8, 0xB2E4, 0x2E]"

definition thread_failed :: pystr where
  "thread_failed =
     [0x274C, 0x20, 0xC2A4, 0xB808, 0xB4DC, 0x20, 0xB2F5, 0xAE00, 0x20, 0xC870, 0xD68C, 0x20,
     0xC2E4, 0xD328, 0x3A, 0x20]"

definition reply_ok :: pystr where
  "reply_ok =
     [0x2705, 0x20, 0xC2A4, 0xB808, 0xB4DC, 0x20, 0xB2F5, 0xAE00, 0xC774, 0x20, 0xC131,
     0xACF5, 0xC801, 0xC73C, 0xB85C, 0x20, 0xC804, 0xC1A1, 0xB418, 0xC5C8, 0xC2B5, 0xB2C8,
     0xB2E4, 0x21, 0xA]"

definition label_original :: pystr where
  "label_original =
     [0xC6D0, 0xBCF8, 0x20, 0xBA54, 0xC2DC, 0xC9C0, 0x3A, 0x20]"

definition label_reply :: pystr where
  "label_reply =
     [0xB2F5, 0xAE00, 0x3A, 0x20]"

definition label_reply_time :: pystr where
  "label_reply_time =
     [0xB2F5, 0xAE00, 0x20, 0xC2DC, 0xAC04, 0x3A, 0x20]"

definition reply_failed :: pystr where
  "reply_failed =
     [0x274C, 0x20, 0xC2A4, 0xB808, 0xB4DC, 0x20, 0xB2F5, 0xAE00, 0x20, 0xC804, 0xC1A1, 0x20,
     0xC2E4, 0xD328, 0x3A, 0x20]"

definition connection_ok :: pystr where
  "connection_ok =
     [0x2705] @ asc '' Slack API '' @ [0xC5F0, 0xACB0, 0x20, 0xC131, 0xACF5, 0x21, 0xA]"

definition label_team :: pystr where
  "label_team =
     [0xD300, 0x3A, 0x20]"

definition label_bot_user :: pystr where
  "label_bot_user =
     [0xBD07, 0x20, 0xC0AC, 0xC6A9, 0xC790, 0x3A, 0x20]"

definition label_connected :: pystr where
  "label_connected =
     [0xC5F0, 0xACB0, 0x20, 0xC2DC, 0xAC04, 0x3A, 0x20]"

definition connection_failed :: pystr where
  "connection_failed =
     [0x274C] @ asc '' Slack API '' @ [0xC5F0, 0xACB0, 0x20, 0xC2E4, 0xD328, 0x3A, 0x20]"

definition check_token :: pystr where
  "check_token =
     [0xD1A0, 0xD070, 0xC744, 0x20, 0xD655, 0xC778, 0xD574, 0xC8FC, 0xC138, 0xC694, 0x2E]"

subsection \<open>String helpers\<close>

text \<open>\<open>sep.join(xs)\<close>, \<open>s.split(c)\<close>, \<open>s.strip(c)\<close> and \<open>s.strip()\<close>.\<close>

fun join :: "pystr \<Rightarrow> pystr list \<Rightarrow> pystr" where
  "join sep [] = []"
| "join sep [x] = x"
| "join sep (x # y # ys) = x @ sep @ join sep (y # ys)"

fun py_split :: "nat \<Rightarrow> pystr \<Rightarrow> pystr list" where
  "py_split sep [] = [[]]"
| "py_split sep (c # cs) =
     (if c = sep then [] # py_split sep cs
      else (case py_split sep cs of [] \<Rightarrow> [[c]] | w # ws \<Rightarrow> (c # w) # ws))"

definition strip_char :: "nat \<Rightarrow> pystr \<Rightarrow> pystr" where
  "strip_char c s = rev (dropWhile (\<lambda>x. x = c) (rev (dropWhile (\<lambda>x. x = c) s)))"

definition is_space :: "nat \<Rightarrow> bool" where
  "is_space c =
     ((0x09 \<le> c \<and> c \<le> 0x0D) \<or> (0x1C \<le> c \<and> c \<le> 0x20) \<or> c = 0x85 \<or> c = 0xA0 \<or> c = 0x1680
      \<or> (0x2000 \<le> c \<and> c \<le> 0x200A) \<or> c = 0x2028 \<or> c = 0x2029 \<or> c = 0x202F \<or> c = 0x205F
      \<or> c = 0x3000)"

definition strip :: "pystr \<Rightarrow> pystr" where
  "strip s = rev (dropWhile is_space (rev (dropWhile is_space s)))"

subsection \<open>Formatting helpers\<close>

text \<open>
  \<open>format_timestamp\<close> returns its argument unchanged when \<open>float\<close> or \<open>fromtimestamp\<close>
  raises \<open>ValueError\<close> or \<open>TypeError\<close>; any other exception leaves the function.
\<close>

definition format_timestamp :: "env \<Rightarrow> json \<Rightarrow> exn + json" where
  "format_timestamp env timestamp =
     (case exn_bind (py_float env timestamp) (\<lambda>ts_float.
             exn_bind (local_time env ts_float) (\<lambda>s. Inr (JStr s))) of
        Inl e \<Rightarrow> if is_ValueError_or_TypeError e then Inr timestamp else Inl e
      | Inr v \<Rightarrow> Inr v)"

definition format_message :: "env \<Rightarrow> SlackMessage \<Rightarrow> exn + pystr option" where
  "format_message env msg =
     exn_bind (format_timestamp env (m_timestamp msg)) (\<lambda>timestamp.
       Inr (Some
         ([91] @ py_str env timestamp @ asc ''] ''
          @ py_str env (if truthy (m_user_name msg) then m_user_name msg else m_user msg)
          @ asc '': '' @ py_str env (m_text msg)
          @ (if truthy (m_thread_ts msg) then thread_reply_mark else [])
          @ timestamp_arrow @ py_str env (m_timestamp msg))))"

definition format_message_list :: "env \<Rightarrow> SlackMessage list \<Rightarrow> exn + pystr" where
  "format_message_list env messages =
     (if messages = [] then Inr no_messages
      else exn_bind (for_each (format_message env) messages) (\<lambda>formatted_messages.
             Inr (join [10] formatted_messages)))"

definition format_channel :: "env \<Rightarrow> SlackChannel \<Rightarrow> pystr" where
  "format_channel env channel =
     [35] @ py_str env (c_name channel) @ asc '' (ID: '' @ py_str env (c_id channel)
     @ asc '') - ''
     @ (if truthy (c_is_private channel) then privacy_private else privacy_public)
     @ asc '', ''
     @ (if truthy (c_is_member channel) then membership_member else membership_nonmember)
     @ (if truthy (c_topic channel) then channel_topic @ py_str env (c_topic channel) else [])
     @ (if truthy (c_purpose channel) then channel_purpose @ py_str env (c_purpose channel)
        else [])
     @ (if truthy (c_num_members channel)
        then channel_members @ py_str env (c_num_members channel) @ channel_members_unit
        else [])"

definition format_channel_list :: "env \<Rightarrow> SlackChannel list \<Rightarrow> pystr" where
  "format_channel_list env channels =
     (if channels = [] then no_channels else join [10, 10] (map (format_channel env) channels))"

definition format_user :: "env \<Rightarrow> SlackUser \<Rightarrow> pystr" where
  "format_user env user =
     (let details =
            (if truthy (u_email user) then [user_email @ py_str env (u_email user)] else [])
            @ (if truthy (u_is_bot user) then [user_bot] else [])
            @ (if truthy (u_is_admin user) then [user_admin] else [])
            @ (if truthy (u_status user) then [user_status @ py_str env (u_status user)] else [])
      in py_str env (u_real_name user) @ asc '' (@'' @ py_str env (u_name user)
         @ asc '') - ID: '' @ py_str env (u_id user)
         @ (if details \<noteq> [] then [10, 32, 32] @ join (asc '', '') details else []))"

definition format_user_list :: "env \<Rightarrow> SlackUser list \<Rightarrow> pystr" where
  "format_user_list env users =
     (if users = [] then no_users else join [10, 10] (map (format_user env) users))"

text \<open>
  \<open>messages.sort(key=lambda x: float(x.timestamp))\<close>: the keys are computed first, any of
  them may raise. Without a NaN among the keys the sort is the stable ascending one: an
  element is placed before the first one that is not smaller. With a NaN the order is the
  one \<open>nan_order\<close> gives.
\<close>

fun insort_float :: "pyfloat \<times> 'a \<Rightarrow> (pyfloat \<times> 'a) list \<Rightarrow> (pyfloat \<times> 'a) list" where
  "insort_float x [] = [x]"
| "insort_float x (y # ys) =
     (if float_less (fst y) (fst x) then y # insort_float x ys else x # y # ys)"

definition sort_by_timestamp :: "env \<Rightarrow> SlackMessage list \<Rightarrow> exn + SlackMessage list" where
  "sort_by_timestamp env messages =
     exn_bind (for_each (\<lambda>x. exn_bind (py_float env (m_timestamp x)) (\<lambda>k. Inr (Some (k, x))))
                 messages)
       (\<lambda>keyed.
          Inr (if NaN \<in> set (map fst keyed)
               then List.map_filter
                      (\<lambda>i. if i < length keyed then Some (snd (keyed ! i)) else None)
                      (nan_order env (map fst keyed))
               else map snd (foldr insort_float keyed [])))"

subsection \<open>Tools\<close>

text \<open>
  Every tool is one \<open>try\<close> with the handlers \<open>except SlackAPIError\<close> and \<open>except Exception\<close>;
  the module's client is the one built from the token.
\<close>

definition send_slack_message :: "env \<Rightarrow> pystr \<Rightarrow> pystr \<Rightarrow> pystr \<Rightarrow> pystr io" where
  "send_slack_message env token channel text =
     io_catch
       (io_bind (send_message env token channel text None) (\<lambda>result. io_lift
          (exn_bind (dict_get result (asc ''ts'') (JStr [])) (\<lambda>message_ts.
           exn_bind (dict_get result (asc ''channel'') (JStr [])) (\<lambda>channel_id.
           exn_bind (format_timestamp env message_ts) (\<lambda>ts.
             Inr (send_ok @ label_channel @ channel @ [10] @ label_message @ text @ [10]
                  @ label_timestamp @ py_str env ts)))))))
       (\<lambda>e. case e of
              SlackAPIError err resp \<Rightarrow>
                io_lift (Inr (send_failed @ py_str env err @ [10] @ label_channel @ channel
                              @ [10] @ label_message @ text))
            | PyExn c m \<Rightarrow> io_lift (Inr (unexpected_error @ str_exn env e)))"

definition get_slack_channels :: "env \<Rightarrow> pystr \<Rightarrow> pystr io" where
  "get_slack_channels env token =
     io_catch
       (io_bind (get_channels env token True) (\<lambda>channels. io_lift
          (if channels = [] then Inr no_channels
           else
             let public_channels = filter (\<lambda>ch. \<not> truthy (c_is_private ch)) channels;
                 private_channels = filter (\<lambda>ch. truthy (c_is_private ch)) channels
             in Inr (channels_total @ str_of_nat (length channels) @ channels_found
                     @ (if public_channels \<noteq> []
                        then channels_public @ str_of_nat (length public_channels) @ count_close
                             @ format_channel_list env public_channels @ [10, 10]
                        else [])
                     @ (if private_channels \<noteq> []
                        then channels_private @ str_of_nat (length private_channels)
                             @ count_close @ format_channel_list env private_channels
                        else [])))))
       (\<lambda>e. case e of
              SlackAPIError err resp \<Rightarrow> io_lift (Inr (channels_failed @ py_str env err))
            | PyExn c m \<Rightarrow> io_lift (Inr (unexpected_error @ str_exn env e)))"

definition get_slack_channel_history :: "env \<Rightarrow> pystr \<Rightarrow> pystr \<Rightarrow> int \<Rightarrow> pystr io" where
  "get_slack_channel_history env token channel_id limit =
     io_catch
       (io_bind (get_channel_history env token channel_id (max 1 (min limit 100)) None None)
          (\<lambda>messages. io_lift
             (if messages = [] then Inr (history_channel @ channel_id @ history_empty)
              else
                exn_bind (sort_by_timestamp env messages) (\<lambda>sorted.
                exn_bind (format_message_list env sorted) (\<lambda>listing.
                  Inr (history_head @ channel_id @ history_recent @ str_of_nat (length sorted)
                       @ history_count @ listing))))))
       (\<lambda>e. case e of
              SlackAPIError err resp \<Rightarrow>
                io_lift (Inr (history_failed @ py_str env err @ history_channel_id @ channel_id))
            | PyExn c m \<Rightarrow> io_lift (Inr (unexpected_error @ str_exn env e)))"

definition send_slack_direct_message :: "env \<Rightarrow> pystr \<Rightarrow> pystr \<Rightarrow> pystr \<Rightarrow> pystr io" where
  "send_slack_direct_message env token user_id text =
     io_catch
       (io_bind (send_direct_message env token user_id text) (\<lambda>result.
        io_bind (io_lift (dict_get result (asc ''ts'') (JStr []))) (\<lambda>message_ts.
        io_bind
          (io_catch
             (io_bind (get_user_info env token user_id) (\<lambda>user_info. io_lift
                (Inr (py_str env (u_real_name user_info) @ asc '' (@''
                      @ py_str env (u_name user_info) @ asc '')''))))
             (\<lambda>e. io_lift (Inr user_id)))
          (\<lambda>user_display. io_lift
             (exn_bind (format_timestamp env message_ts) (\<lambda>ts.
                Inr (dm_ok @ label_recipient @ user_display @ [10] @ label_message @ text
                     @ [10] @ label_timestamp @ py_str env ts)))))))
       (\<lambda>e. case e of
              SlackAPIError err resp \<Rightarrow>
                io_lift (Inr (dm_failed @ py_str env err @ [10] @ label_user_id @ user_id
                              @ [10] @ label_message @ text))
            | PyExn c m \<Rightarrow> io_lift (Inr (unexpected_error @ str_exn env e)))"

definition get_slack_users :: "env \<Rightarrow> pystr \<Rightarrow> int \<Rightarrow> pystr io" where
  "get_slack_users env token limit =
     io_catch
       (io_bind (get_users env token (max 1 (min limit 1000))) (\<lambda>users. io_lift
          (if users = [] then Inr users_not_found
           else
             let regular_users = filter (\<lambda>user. \<not> truthy (u_is_bot user)) users;
                 bot_users = filter (\<lambda>user. truthy (u_is_bot user)) users
             in Inr (users_total @ str_of_nat (length users) @ users_found
                     @ (if regular_users \<noteq> []
                        then users_regular @ str_of_nat (length regular_users) @ users_close
                             @ format_user_list env regular_users @ [10, 10]
                        else [])
                     @ (if bot_users \<noteq> []
                        then users_bots @ str_of_nat (length bot_users) @ users_close
                             @ format_user_list env bot_users
                        else [])))))
       (\<lambda>e. case e of
              SlackAPIError err resp \<Rightarrow> io_lift (Inr (users_failed @ py_str env err))
            | PyExn c m \<Rightarrow> io_lift (Inr (unexpected_error @ str_exn env e)))"

definition format_search_result :: "env \<Rightarrow> nat \<times> json \<Rightarrow> exn + pystr option" where
  "format_search_result env ir =
     exn_bind (dict_get (snd ir) (asc ''text'') (JStr [])) (\<lambda>v_text.
     exn_bind (dict_get (snd ir) (asc ''user'') (JObj [])) (\<lambda>u.
     exn_bind (dict_get u (asc ''name'') (JStr (asc ''unknown''))) (\<lambda>v_user.
     exn_bind (dict_get (snd ir) (asc ''channel'') (JObj [])) (\<lambda>c.
     exn_bind (dict_get c (asc ''name'') (JStr (asc ''unknown''))) (\<lambda>v_channel.
     exn_bind (dict_get (snd ir) (asc ''ts'') (JStr [])) (\<lambda>timestamp.
     exn_bind (format_timestamp env timestamp) (\<lambda>ts.
       Inr (Some
         (str_of_nat (fst ir) @ asc ''. ['' @ py_str env ts @ asc ''] #''
          @ py_str env v_channel @ asc '' - @'' @ py_str env v_user @ [58, 10, 32, 32, 32]
          @ py_str env v_text)))))))))"

definition search_slack_messages :: "env \<Rightarrow> pystr \<Rightarrow> pystr \<Rightarrow> int \<Rightarrow> pystr io" where
  "search_slack_messages env token query count =
     io_catch
       (io_bind
          (search_messages env token query (max 1 (min count 100)) (asc ''timestamp''))
          (\<lambda>results. io_lift
             (if \<not> truthy results then Inr ([39] @ query @ search_empty)
              else
                exn_bind (py_iter results) (\<lambda>items.
                exn_bind (for_each (format_search_result env)
                            (zip [1 ..< Suc (length items)] items)) (\<lambda>formatted_results.
                  Inr (search_head @ query @ search_results @ str_of_nat (length items)
                       @ search_count @ join [10, 10] formatted_results))))))
       (\<lambda>e. case e of
              SlackAPIError err resp \<Rightarrow>
                io_lift (Inr (search_failed @ py_str env err @ search_query @ query))
            | PyExn c m \<Rightarrow> io_lift (Inr (unexpected_error @ str_exn env e)))"

definition channel_param :: "pystr \<Rightarrow> json" where
  "channel_param channels =
     (if startswith 85 channels \<and> 44 \<notin> set channels then JStr channels
      else JList (map (\<lambda>ch. JStr (strip ch)) (py_split 44 channels)))"

definition upload_slack_file ::
  "env \<Rightarrow> pystr \<Rightarrow> pystr \<Rightarrow> pystr \<Rightarrow> pystr option \<Rightarrow> pystr option \<Rightarrow> pystr io" where
  "upload_slack_file env token channels file_path title initial_comment =
     io_catch
       (if \<not> path_exists env file_path
        then io_lift (Inr (tool_file_not_found @ file_path))
        else
          io_bind
            (upload_file env token (channel_param channels) file_path title initial_comment)
            (\<lambda>result. io_lift
               (exn_bind (dict_get result (asc ''files'') JNull) (\<lambda>files.
                exn_bind (if truthy files then subscript0 files
                          else dict_get result (asc ''file'') (JObj [])) (\<lambda>file_info.
                exn_bind (dict_get file_info (asc ''name'') (JStr (basename env file_path)))
                  (\<lambda>file_name.
                exn_bind (dict_get file_info (asc ''size'') (JInt 0)) (\<lambda>file_size.
                  Inr (upload_ok @ label_file_name @ py_str env file_name @ [10]
                       @ label_size @ py_str env file_size @ asc '' bytes'' @ [10]
                       @ label_channel @ channels @ [10]
                       @ label_title @ title_or title label_none @ [10]
                       @ label_comment @ title_or initial_comment label_none))))))))
       (\<lambda>e. case e of
              SlackAPIError err resp \<Rightarrow>
                io_lift (Inr (tool_upload_failed @ py_str env err @ [10] @ label_file @ file_path
                              @ [10] @ label_channel @ channels))
            | PyExn c m \<Rightarrow> io_lift (Inr (unexpected_error @ str_exn env e)))"

definition add_slack_reaction :: "env \<Rightarrow> pystr \<Rightarrow> pystr \<Rightarrow> pystr \<Rightarrow> pystr \<Rightarrow> pystr io" where
  "add_slack_reaction env token channel timestamp emoji =
     io_catch
       (io_bind (add_reaction env token channel timestamp (strip_char 58 emoji)) (\<lambda>result.
          io_lift
            (exn_bind (format_timestamp env (JStr timestamp)) (\<lambda>ts.
               Inr (reaction_ok @ label_channel @ channel @ [10] @ label_message_time
                    @ py_str env ts @ [10] @ label_emoji_colon @ strip_char 58 emoji @ [58])))))
       (\<lambda>e. case e of
              SlackAPIError err resp \<Rightarrow>
                io_lift (Inr (reaction_failed @ py_str env err @ [10] @ label_channel @ channel
                              @ [10] @ label_timestamp @ timestamp @ [10] @ label_emoji
                              @ strip_char 58 emoji))
            | PyExn c m \<Rightarrow> io_lift (Inr (unexpected_error @ str_exn env e)))"

definition get_slack_thread_replies :: "env \<Rightarrow> pystr \<Rightarrow> pystr \<Rightarrow> pystr \<Rightarrow> pystr io" where
  "get_slack_thread_replies env token channel thread_ts =
     io_catch
       (io_bind (get_thread_replies env token channel thread_ts) (\<lambda>replies. io_lift
          (if replies = []
           then exn_bind (format_timestamp env (JStr thread_ts)) (\<lambda>ts.
                  Inr (thread_empty @ channel @ thread_label @ py_str env ts))
           else
             let thread_replies = (if length replies > 1 then drop 1 replies else [])
             in exn_bind (format_timestamp env (JStr thread_ts)) (\<lambda>ts.
                exn_bind (if thread_replies \<noteq> [] then format_message_list env thread_replies
                          else Inr thread_no_replies) (\<lambda>listing.
                  Inr (thread_head @ str_of_nat (length thread_replies) @ count_close
                       @ thread_original @ py_str env ts @ [10, 10] @ listing))))))
       (\<lambda>e. case e of
              SlackAPIError err resp \<Rightarrow>
                io_lift (Inr (thread_failed @ py_str env err @ [10] @ label_channel @ channel
                              @ thread_label @ thread_ts))
            | PyExn c m \<Rightarrow> io_lift (Inr (unexpected_error @ str_exn env e)))"

definition send_slack_thread_reply :: "env \<Rightarrow> pystr \<Rightarrow> pystr \<Rightarrow> pystr \<Rightarrow> pystr \<Rightarrow> pystr io" where
  "send_slack_thread_reply env token channel thread_ts text =
     io_catch
       (io_bind (send_message env token channel text (Some thread_ts)) (\<lambda>result. io_lift
          (exn_bind (dict_get result (asc ''ts'') (JStr [])) (\<lambda>message_ts.
           exn_bind (format_timestamp env (JStr thread_ts)) (\<lambda>ts1.
           exn_bind (format_timestamp env message_ts) (\<lambda>ts2.
             Inr (reply_ok @ label_channel @ channel @ [10] @ label_original @ py_str env ts1
                  @ [10] @ label_reply @ text @ [10] @ label_reply_time @ py_str env ts2)))))))
       (\<lambda>e. case e of
              SlackAPIError err resp \<Rightarrow>
                io_lift (Inr (reply_failed @ py_str env err @ [10] @ label_channel @ channel
                              @ thread_label @ thread_ts @ [10] @ label_reply @ text))
            | PyExn c m \<Rightarrow> io_lift (Inr (unexpected_error @ str_exn env e)))"

definition test_slack_connection :: "env \<Rightarrow> pystr \<Rightarrow> pystr io" where
  "test_slack_connection env token =
     io_catch
       (io_bind (test_connection env token) (\<lambda>result. io_lift
          (exn_bind (dict_get result (asc ''team'') (JStr (asc ''Unknown''))) (\<lambda>team_name.
           exn_bind (dict_get result (asc ''user'') (JStr (asc ''Unknown''))) (\<lambda>user_name.
           exn_bind (dict_get result (asc ''team_id'') (JStr (asc ''Unknown''))) (\<lambda>team_id.
           exn_bind (dict_get result (asc ''user_id'') (JStr (asc ''Unknown''))) (\<lambda>user_id.
             Inr (connection_ok @ label_team @ py_str env team_name @ asc '' (ID: ''
                  @ py_str env team_id @ [41, 10] @ label_bot_user @ py_str env user_name
                  @ asc '' (ID: '' @ py_str env user_id @ [41, 10] @ label_connected
                  @ now_text env))))))))
       (\<lambda>e. case e of
              SlackAPIError err resp \<Rightarrow>
                io_lift (Inr (connection_failed @ py_str env err @ [10] @ check_token))
            | PyExn c m \<Rightarrow> io_lift (Inr (unexpected_error @ str_exn env e)))"

section \<open>Example environments\<close>

text \<open>
  Concrete environments for the examples: \<open>example_env net files\<close> answers requests by
  \<open>net\<close> and has exactly the local files \<open>files\<close>; \<open>reply status body\<close> is a response
  with that status whose \<open>json()\<close> gives \<open>body\<close>.
\<close>

definition example_env :: "(request list \<Rightarrow> request \<Rightarrow> outcome) \<Rightarrow> (pystr \<Rightarrow> bool) \<Rightarrow> env" where
  "example_env net files =
     \<lparr>respond = net, path_exists = files, getsize = (\<lambda>p. Inr 3), basename = (\<lambda>p. p),
      open_rb = (\<lambda>p. Inr [104, 105, 10]),
      py_float = (\<lambda>v. Inl (PyExn ValueError (asc ''could not convert to float''))),
      local_time = (\<lambda>f. Inr (asc ''2023-07-22 12:00:00'')),
      nan_order = (\<lambda>ks. [0 ..< length ks]),
      now_text = asc ''2023-07-22 12:00:00'',
      str_other = (\<lambda>v. asc ''?'')\<rparr>"

definition reply :: "int \<Rightarrow> exn + json \<Rightarrow> outcome" where
  "reply status body =
     Replied \<lparr>status_code = status, http_error_text = asc ''HTTP error'', resp_json = body\<rparr>"

text \<open>A history response that mixes two ordinary messages with a bot message, a join and a leave.\<close>

definition history_response :: json where
  "history_response =
     JObj [(asc ''ok'', JBool True),
           (asc ''messages'',
            JList [JObj [(asc ''text'', JStr (asc ''hello'')), (asc ''user'', JStr (asc ''U1'')),
                         (asc ''ts'', JStr (asc ''1690000000.000100''))],
                   JObj [(asc ''subtype'', JStr (asc ''bot_message'')),
                         (asc ''text'', JStr (asc ''beep'')),
                         (asc ''ts'', JStr (asc ''1690000001.000100''))],
                   JObj [(asc ''subtype'', JStr (asc ''channel_join'')),
                         (asc ''user'', JStr (asc ''U2'')),
                         (asc ''ts'', JStr (asc ''1690000002.000100''))],
                   JObj [(asc ''subtype'', JStr (asc ''channel_leave'')),
                         (asc ''user'', JStr (asc ''U2'')),
                         (asc ''ts'', JStr (asc ''1690000003.000100''))],
                   JObj [(asc ''text'', JStr (asc ''bye'')), (asc ''user'', JStr (asc ''U1'')),
                         (asc ''ts'', JStr (asc ''1690000004.000100'')),
                         (asc ''thread_ts'', JStr (asc ''1690000000.000100''))]])]"

text \<open>A thread response: the parent message and two replies, the second without a user.\<close>

definition thread_parent :: "(pystr \<times> json) list" where
  "thread_parent =
     [(asc ''text'', JStr (asc ''question'')), (asc ''user'', JStr (asc ''U1'')),
      (asc ''ts'', JStr (asc ''1690000000.000100'')),
      (asc ''thread_ts'', JStr (asc ''1690000000.000100''))]"

definition thread_later :: "(pystr \<times> json) list list" where
  "thread_later =
     [[(asc ''text'', JStr (asc ''first answer'')), (asc ''user'', JStr (asc ''U2'')),
       (asc ''ts'', JStr (asc ''1690000001.000100'')),
       (asc ''thread_ts'', JStr (asc ''1690000000.000100''))],
      [(asc ''text'', JStr (asc ''second answer'')),
       (asc ''ts'', JStr (asc ''1690000002.000100'')),
       (asc ''thread_ts'', JStr (asc ''1690000000.000100''))]]"

definition thread_response :: json where
  "thread_response =
     JObj [(asc ''ok'', JBool True),
           (asc ''messages'', JList (map JObj (thread_parent # thread_later)))]"

text \<open>A remote error with the given tag.\<close>

definition remote_error_response :: "pystr \<Rightarrow> json" where
  "remote_error_response tag = JObj [(asc ''ok'', JBool False), (asc ''error'', JStr tag)]"

text \<open>
  A remote side for uploads: every GET returns an upload destination and a file handle,
  the upload destination answers with the given status, every JSON POST succeeds.
\<close>

definition upload_net :: "int \<Rightarrow> request list \<Rightarrow> request \<Rightarrow> outcome" where
  "upload_net upload_status tr req =
     (case req of
        HttpGet url hs params \<Rightarrow>
          reply 200 (Inr (JObj [(asc ''ok'', JBool True),
                                (asc ''upload_url'', JStr (asc ''https://files.slack.com/upload/v1/abc'')),
                                (asc ''file_id'', JStr (asc ''F123''))]))
      | HttpPostJson url hs data \<Rightarrow>
          reply 200 (Inr (JObj [(asc ''ok'', JBool True),
                                (asc ''files'', JList [JObj [(asc ''id'', JStr (asc ''F123''))]])]))
      | HttpPostFiles url name content \<Rightarrow> reply upload_status (Inr JNull))"

text \<open>A list-channels response with the two channels \<open>general\<close> and \<open>random\<close>.\<close>

definition channels_response :: json where
  "channels_response =
     JObj [(asc ''ok'', JBool True),
           (asc ''channels'',
            JList [JObj [(asc ''id'', JStr (asc ''C001'')), (asc ''name'', JStr (asc ''general'')),
                         (asc ''is_member'', JBool True)],
                   JObj [(asc ''id'', JStr (asc ''C002'')), (asc ''name'', JStr (asc ''random''))]])]"

text \<open>
  A network on which every request times out (a \<open>RequestException\<close>), and one on which
  every request raises an exception that is no \<open>RequestException\<close>.
\<close>

definition net_down :: "request list \<Rightarrow> request \<Rightarrow> outcome" where
  "net_down tr req = Raised (PyExn RequestException (asc ''timed out''))"

definition net_broken :: "request list \<Rightarrow> request \<Rightarrow> outcome" where
  "net_broken tr req = Raised (PyExn OtherException (asc ''boom''))"

text \<open>
  A history response whose four entries have the subtypes \<open>group_join\<close>, \<open>group_leave\<close>,
  \<open>channel_topic\<close> and \<open>bot_add\<close>.
\<close>

definition other_noise_response :: json where
  "other_noise_response =
     JObj [(asc ''ok'', JBool True),
           (asc ''messages'',
            JList [JObj [(asc ''subtype'', JStr (asc ''group_join'')),
                         (asc ''user'', JStr (asc ''U2'')),
                         (asc ''ts'', JStr (asc ''1690000001.000100''))],
                   JObj [(asc ''subtype'', JStr (asc ''group_leave'')),
                         (asc ''user'', JStr (asc ''U2'')),
                         (asc ''ts'', JStr (asc ''1690000002.000100''))],
                   JObj [(asc ''subtype'', JStr (asc ''channel_topic'')),
                         (asc ''user'', JStr (asc ''U1'')),
                         (asc ''ts'', JStr (asc ''1690000003.000100''))],
                   JObj [(asc ''subtype'', JStr (asc ''bot_add'')),
                         (asc ''user'', JStr (asc ''U1'')),
                         (asc ''ts'', JStr (asc ''1690000004.000100''))]])]"

text \<open>
  A list-channels response in which a channel has the name \<open>U024BE7LH\<close>, and a remote
  side that answers the list request with it and every other request like \<open>upload_net 200\<close>.
\<close>

definition named_channels_response :: json where
  "named_channels_response =
     JObj [(asc ''ok'', JBool True),
           (asc ''channels'',
            JList [JObj [(asc ''id'', JStr (asc ''C001'')), (asc ''name'', JStr (asc ''general''))],
                   JObj [(asc ''id'', JStr (asc ''C777'')),
                         (asc ''name'', JStr (asc ''U024BE7LH''))]])]"

definition named_upload_net :: "request list \<Rightarrow> request \<Rightarrow> outcome" where
  "named_upload_net tr req =
     (case req of
        HttpGet url hs params \<Rightarrow>
          if url = BASE_URL @ asc ''/'' @ asc ''conversations.list''
          then reply 200 (Inr named_channels_response)
          else upload_net 200 tr req
      | HttpPostJson url hs data \<Rightarrow> upload_net 200 tr req
      | HttpPostFiles url name content \<Rightarrow> upload_net 200 tr req)"

section \<open>Basic facts about computations and requests\<close>

lemma io_lift_apply [simp]: "io_lift r tr = (r, tr)"
  by (simp add: io_lift_def)

lemma upper_GET [simp]: "upper (asc ''GET'') = asc ''GET''"
  by (simp add: upper_def asc_def)

lemma upper_POST [simp]: "upper (asc ''POST'') \<noteq> asc ''GET''"
  by (simp add: upper_def asc_def)

lemma snd_http [simp]: "snd (http env req tr) = tr @ [req]"
  by (simp add: http_def split: outcome.splits)

lemma snd_io_bind_lift [simp]: "snd (io_bind m (\<lambda>x. io_lift (f x)) tr) = snd (m tr)"
  by (simp add: io_bind_def split: prod.splits sum.splits)

lemma snd_io_catch:
  assumes "\<And>e tr'. snd (h e tr') = tr'"
  shows "snd (io_catch m h tr) = snd (m tr)"
  using assms by (simp add: io_catch_def split: prod.splits sum.splits)

text \<open>Every call of the request primitive issues exactly one request.\<close>

lemma snd_make_request_get [simp]:
  "snd (make_request env token (asc ''GET'') endpoint data params tr) =
     tr @ [HttpGet (BASE_URL @ asc ''/'' @ endpoint) (headers token) params]"
  unfolding make_request_def
  by (subst snd_io_catch) simp_all

lemma snd_make_request_post [simp]:
  "snd (make_request env token (asc ''POST'') endpoint data params tr) =
     tr @ [HttpPostJson (BASE_URL @ asc ''/'' @ endpoint) (headers token) data]"
  unfolding make_request_def
  by (subst snd_io_catch) simp_all

lemma snd_get_channel_history:
  "snd (get_channel_history env token channel_id limit oldest latest tr) =
     tr @ [HttpGet (BASE_URL @ asc ''/'' @ asc ''conversations.history'') (headers token)
             (Some ([(asc ''channel'', JStr channel_id), (asc ''limit'', JInt (min limit 100))]
                    @ optional_param (asc ''oldest'') oldest
                    @ optional_param (asc ''latest'') latest))]"
  unfolding get_channel_history_def
  by (subst snd_io_catch) (simp_all split: exn.splits)

lemma snd_get_users:
  "snd (get_users env token limit tr) =
     tr @ [HttpGet (BASE_URL @ asc ''/'' @ asc ''users.list'') (headers token)
             (Some [(asc ''limit'', JInt (min limit 1000))])]"
  unfolding get_users_def by simp

lemma snd_search_messages:
  "snd (search_messages env token query count sort_mode tr) =
     tr @ [HttpGet (BASE_URL @ asc ''/'' @ asc ''search.messages'') (headers token)
             (Some [(asc ''query'', JStr query), (asc ''count'', JInt (min count 100)),
                    (asc ''sort'', JStr sort_mode)])]"
  unfolding search_messages_def
  by (subst snd_io_catch) (simp_all split: exn.splits)

subsection \<open>Outcomes of the request primitive\<close>

lemma exn_bind_simps [simp]:
  "exn_bind (Inl e) f = Inl e"
  "exn_bind (Inr x) f = f x"
  by (simp_all add: exn_bind_def)

lemma make_request_http:
  "make_request env token method endpoint data params tr =
     io_catch
       (io_bind
          (http env (if upper method = asc ''GET''
                     then HttpGet (BASE_URL @ asc ''/'' @ endpoint) (headers token) params
                     else HttpPostJson (BASE_URL @ asc ''/'' @ endpoint) (headers token) data))
          (\<lambda>response. io_lift
             (exn_bind (raise_for_status response) (\<lambda>u.
              exn_bind (resp_json response) (\<lambda>result.
              exn_bind (dict_get result (asc ''ok'') (JBool False)) (\<lambda>ok.
                if \<not> truthy ok
                then exn_bind (dict_get result (asc ''error'') (JStr (asc ''Unknown error'')))
                       (\<lambda>error_msg. Inl (SlackAPIError error_msg (Some result)))
                else Inr result))))))
       (\<lambda>e. if is_RequestException e
            then io_lift (Inl (SlackAPIError (JStr (asc ''Network error: '' @ str_exn env e)) None))
            else if is_JSONDecodeError e
            then io_lift (Inl (SlackAPIError (JStr (asc ''JSON decode error: '' @ str_exn env e)) None))
            else io_lift (Inl e)) tr"
  by (simp add: make_request_def)

lemma make_request_raised:
  assumes "respond env tr (if upper method = asc ''GET''
                     then HttpGet (BASE_URL @ asc ''/'' @ endpoint) (headers token) params
                     else HttpPostJson (BASE_URL @ asc ''/'' @ endpoint) (headers token) data) = Raised e"
  shows "make_request env token method endpoint data params tr =
     (Inl (if is_RequestException e
           then SlackAPIError (JStr (asc ''Network error: '' @ str_exn env e)) None
           else if is_JSONDecodeError e
           then SlackAPIError (JStr (asc ''JSON decode error: '' @ str_exn env e)) None
           else e),
      tr @ [if upper method = asc ''GET''
                     then HttpGet (BASE_URL @ asc ''/'' @ endpoint) (headers token) params
                     else HttpPostJson (BASE_URL @ asc ''/'' @ endpoint) (headers token) data])"
  using assms unfolding make_request_http
  by (simp add: io_catch_def io_bind_def http_def)

lemma make_request_http_error:
  assumes "respond env tr (if upper method = asc ''GET''
                     then HttpGet (BASE_URL @ asc ''/'' @ endpoint) (headers token) params
                     else HttpPostJson (BASE_URL @ asc ''/'' @ endpoint) (headers token) data) = Replied r"
    and "400 \<le> status_code r" and "status_code r < 600"
  shows "make_request env token method endpoint data params tr =
     (Inl (SlackAPIError (JStr (asc ''Network error: '' @ http_error_text r)) None),
      tr @ [if upper method = asc ''GET''
                     then HttpGet (BASE_URL @ asc ''/'' @ endpoint) (headers token) params
                     else HttpPostJson (BASE_URL @ asc ''/'' @ endpoint) (headers token) data])"
  using assms unfolding make_request_http
  by (simp add: io_catch_def io_bind_def http_def raise_for_status_def)

lemma make_request_ok:
  assumes "respond env tr (if upper method = asc ''GET''
                     then HttpGet (BASE_URL @ asc ''/'' @ endpoint) (headers token) params
                     else HttpPostJson (BASE_URL @ asc ''/'' @ endpoint) (headers token) data) = Replied r"
    and "\<not> (400 \<le> status_code r \<and> status_code r < 600)"
    and "resp_json r = Inr (JObj kvs)"
    and "truthy (lookup kvs (asc ''ok'') (JBool False))"
  shows "make_request env token method endpoint data params tr =
     (Inr (JObj kvs),
      tr @ [if upper method = asc ''GET''
                     then HttpGet (BASE_URL @ asc ''/'' @ endpoint) (headers token) params
                     else HttpPostJson (BASE_URL @ asc ''/'' @ endpoint) (headers token) data])"
  using assms unfolding make_request_http
  by (simp add: io_catch_def io_bind_def http_def raise_for_status_def)

lemma make_request_remote_error:
  assumes "respond env tr (if upper method = asc ''GET''
                     then HttpGet (BASE_URL @ asc ''/'' @ endpoint) (headers token) params
                     else HttpPostJson (BASE_URL @ asc ''/'' @ endpoint) (headers token) data) = Replied r"
    and "\<not> (400 \<le> status_code r \<and> status_code r < 600)"
    and "resp_json r = Inr (JObj kvs)"
    and "\<not> truthy (lookup kvs (asc ''ok'') (JBool False))"
  shows "make_request env token method endpoint data params tr =
     (Inl (SlackAPIError (lookup kvs (asc ''error'') (JStr (asc ''Unknown error'')))
             (Some (JObj kvs))),
      tr @ [if upper method = asc ''GET''
                     then HttpGet (BASE_URL @ asc ''/'' @ endpoint) (headers token) params
                     else HttpPostJson (BASE_URL @ asc ''/'' @ endpoint) (headers token) data])"
  using assms unfolding make_request_http
  by (simp add: io_catch_def io_bind_def http_def raise_for_status_def)

lemma dict_get_Inr: "dict_get v k d = Inr x \<Longrightarrow> \<exists>kvs. v = JObj kvs \<and> x = lookup kvs k d"
  by (cases v) auto

lemma make_request_returns_dict:
  assumes "make_request env token method endpoint data params tr = (Inr v, tr')"
  shows "\<exists>kvs. v = JObj kvs \<and> truthy (lookup kvs (asc ''ok'') (JBool False))"
  using assms unfolding make_request_http
  apply (simp add: io_catch_def io_bind_def http_def raise_for_status_def exn_bind_def
      split: outcome.splits if_splits sum.splits prod.splits)
  apply  (auto dest!: dict_get_Inr)
  done

text \<open>The definitions to unfold when a computation is run in an example environment.\<close>

lemmas run_defs =
  make_request_http io_catch_def io_bind_def http_def raise_for_status_def example_env_def
  reply_def lookup_def optional_param_def asc_def upper_def

text \<open>
  The order of the two handlers matters for an exception that is both a
  \<open>RequestException\<close> and a \<open>JSONDecodeError\<close>: the first handler takes it.
\<close>

lemma make_request_requests_decode_error:
  assumes "respond env tr (if upper method = asc ''GET''
                     then HttpGet (BASE_URL @ asc ''/'' @ endpoint) (headers token) params
                     else HttpPostJson (BASE_URL @ asc ''/'' @ endpoint) (headers token) data) = Replied r"
    and "\<not> (400 \<le> status_code r \<and> status_code r < 600)"
    and "resp_json r = Inl (PyExn RequestsJSONDecodeError m)"
  shows "fst (make_request env token method endpoint data params tr) =
     Inl (SlackAPIError (JStr (asc ''Network error: '' @ m)) None)"
  using assms unfolding make_request_http
  by (auto simp add: io_catch_def io_bind_def http_def raise_for_status_def)

text \<open>
  An exception of \<open>json()\<close> that is a \<open>json.JSONDecodeError\<close> and no \<open>RequestException\<close>
  reaches the second handler, unless the status check has raised before.
\<close>

lemma make_request_plain_decode_error:
  assumes "respond env tr (if upper method = asc ''GET''
                     then HttpGet (BASE_URL @ asc ''/'' @ endpoint) (headers token) params
                     else HttpPostJson (BASE_URL @ asc ''/'' @ endpoint) (headers token) data) = Replied r"
    and "resp_json r = Inl (PyExn JSONDecodeError m)"
  shows "fst (make_request env token method endpoint data params tr) =
     Inl (SlackAPIError
            (JStr (if 400 \<le> status_code r \<and> status_code r < 600
                   then asc ''Network error: '' @ http_error_text r
                   else asc ''JSON decode error: '' @ m)) None)
     \<and> \<not> prefix (asc ''Network error: '') (asc ''JSON decode error: '' @ m)"
  using assms unfolding make_request_http
  by (simp add: io_catch_def io_bind_def http_def raise_for_status_def asc_def)

subsection \<open>The reaction request and \<open>strip\<close>\<close>

lemma snd_add_reaction:
  "snd (add_reaction env token channel timestamp name tr) =
     tr @ [HttpPostJson (BASE_URL @ asc ''/'' @ asc ''reactions.add'') (headers token)
             (Some (JObj [(asc ''channel'', JStr channel), (asc ''timestamp'', JStr timestamp),
                          (asc ''name'', JStr name)]))]"
  by (simp add: add_reaction_def)

lemma dropWhile_id_iff: "dropWhile P xs = xs \<longleftrightarrow> xs = [] \<or> \<not> P (hd xs)"
proof (cases xs)
  case Nil
  then show ?thesis by simp
next
  case (Cons a list)
  have "length (dropWhile P list) \<le> length list"
    by (rule length_dropWhile_le)
  then have "dropWhile P list \<noteq> a # list"
    by auto
  with Cons show ?thesis by simp
qed

lemma dropWhile_same_length:
  assumes "length (dropWhile P xs) = length xs"
  shows "dropWhile P xs = xs"
proof (cases xs)
  case Nil
  then show ?thesis by simp
next
  case (Cons a list)
  have "length (dropWhile P list) \<le> length list"
    by (rule length_dropWhile_le)
  with assms Cons have "\<not> P a"
    by auto
  with Cons show ?thesis by simp
qed

lemma length_strip_char_le: "length (dropWhile P (rev (dropWhile P s))) \<le> length (dropWhile P s)"
  by (metis length_dropWhile_le length_rev)

lemma strip_char_id_iff:
  "strip_char c s = s \<longleftrightarrow> s = [] \<or> (hd s \<noteq> c \<and> last s \<noteq> c)"
proof (cases "s = []")
  case True
  then show ?thesis by (simp add: strip_char_def)
next
  case False
  show ?thesis
  proof
    assume eq: "strip_char c s = s"
    have l1: "length (strip_char c s) \<le> length (dropWhile (\<lambda>x. x = c) s)"
      unfolding strip_char_def by (simp add: length_strip_char_le)
    have l2: "length (dropWhile (\<lambda>x. x = c) s) \<le> length s"
      by (rule length_dropWhile_le)
    from eq l1 l2 have "length (dropWhile (\<lambda>x. x = c) s) = length s" by simp
    then have d1: "dropWhile (\<lambda>x. x = c) s = s"
      by (rule dropWhile_same_length)
    with eq have "rev (dropWhile (\<lambda>x. x = c) (rev s)) = s"
      by (simp add: strip_char_def)
    then have d2: "dropWhile (\<lambda>x. x = c) (rev s) = rev s"
      by (metis rev_rev_ident)
    from d1 False have "hd s \<noteq> c" by (simp add: dropWhile_id_iff)
    moreover from d2 False have "last s \<noteq> c" by (simp add: dropWhile_id_iff hd_rev)
    ultimately show "s = [] \<or> (hd s \<noteq> c \<and> last s \<noteq> c)" by simp
  next
    assume "s = [] \<or> (hd s \<noteq> c \<and> last s \<noteq> c)"
    with False have h: "hd s \<noteq> c" and l: "last s \<noteq> c" by simp_all
    from h False have d1: "dropWhile (\<lambda>x. x = c) s = s" by (simp add: dropWhile_id_iff)
    from l False have d2: "dropWhile (\<lambda>x. x = c) (rev s) = rev s"
      by (simp add: dropWhile_id_iff hd_rev)
    show "strip_char c s = s" by (simp add: strip_char_def d1 d2)
  qed
qed

subsection \<open>The loop of \<open>get_channel_history\<close>\<close>

lemma history_message_dict:
  "history_message channel_id (JObj d) =
     Inr (if lookup d (asc ''subtype'') JNull \<in> set noise_subtypes then None
          else Some \<lparr>m_text = lookup d (asc ''text'') (JStr []),
                     m_user = lookup d (asc ''user'') (JStr []),
                     m_timestamp = lookup d (asc ''ts'') (JStr []),
                     m_channel = channel_id, m_user_name = JNull,
                     m_thread_ts = lookup d (asc ''thread_ts'') JNull\<rparr>)"
  by (simp add: history_message_def)

lemma history_message_Inr:
  "history_message channel_id v = Inr x \<Longrightarrow> \<exists>d. v = JObj d"
  by (cases v) (simp_all add: history_message_def)

lemma for_each_history_message:
  "for_each (history_message channel_id) (map JObj entries) =
     Inr (map (\<lambda>d. \<lparr>m_text = lookup d (asc ''text'') (JStr []),
                     m_user = lookup d (asc ''user'') (JStr []),
                     m_timestamp = lookup d (asc ''ts'') (JStr []),
                     m_channel = channel_id, m_user_name = JNull,
                     m_thread_ts = lookup d (asc ''thread_ts'') JNull\<rparr>)
            (filter (\<lambda>d. lookup d (asc ''subtype'') JNull \<notin> set noise_subtypes) entries))"
  by (induction entries) (simp_all add: history_message_dict)

lemma for_each_history_message_Inr:
  "for_each (history_message channel_id) items = Inr messages \<Longrightarrow>
     \<exists>entries. items = map JObj entries"
proof (induction items arbitrary: messages)
  case Nil
  then show ?case by simp
next
  case (Cons v items)
  from Cons.prems obtain x where x: "history_message channel_id v = Inr x"
    by (cases "history_message channel_id v") simp_all
  then obtain d where d: "v = JObj d"
    using history_message_Inr by blast
  from Cons.prems x obtain rest where "for_each (history_message channel_id) items = Inr rest"
    by (cases x; cases "for_each (history_message channel_id) items") simp_all
  then obtain entries where "items = map JObj entries"
    using Cons.IH by blast
  with d have "v # items = map JObj (d # entries)" by simp
  then show ?case by (rule exI)
qed

lemma get_channel_history_Inr:
  assumes "get_channel_history env token channel_id limit oldest latest tr = (Inr messages, tr')"
  shows "\<exists>kvs items.
           make_request env token (asc ''GET'') (asc ''conversations.history'') None
             (Some ([(asc ''channel'', JStr channel_id), (asc ''limit'', JInt (min limit 100))]
                    @ optional_param (asc ''oldest'') oldest
                    @ optional_param (asc ''latest'') latest)) tr = (Inr (JObj kvs), tr')
         \<and> py_iter (lookup kvs (asc ''messages'') (JList [])) = Inr items
         \<and> for_each (history_message channel_id) items = Inr messages"
proof -
  let ?req = "make_request env token (asc ''GET'') (asc ''conversations.history'') None
             (Some ([(asc ''channel'', JStr channel_id), (asc ''limit'', JInt (min limit 100))]
                    @ optional_param (asc ''oldest'') oldest
                    @ optional_param (asc ''latest'') latest)) tr"
  obtain res tr1 where r: "?req = (res, tr1)" by (cases ?req)
  show ?thesis
  proof (cases res)
    case (Inl e)
    with assms r show ?thesis
      by (simp add: get_channel_history_def io_catch_def io_bind_def split: exn.splits if_splits)
  next
    case (Inr result)
    with r obtain kvs where k: "result = JObj kvs"
      using make_request_returns_dict by blast
    from assms r Inr k show ?thesis
      by (cases "py_iter (lookup kvs (asc ''messages'') (JList []))")
         (auto simp add: get_channel_history_def io_catch_def io_bind_def
            split: exn.splits if_splits sum.splits)
  qed
qed

lemma history_example:
  "get_channel_history (example_env (\<lambda>tr req. reply 200 (Inr history_response)) (\<lambda>p. False))
     (asc ''xoxb'') (asc ''C123'') 10 None None [] =
   (Inr [\<lparr>m_text = JStr (asc ''hello''), m_user = JStr (asc ''U1''),
           m_timestamp = JStr (asc ''1690000000.000100''), m_channel = asc ''C123'',
           m_user_name = JNull, m_thread_ts = JNull\<rparr>,
         \<lparr>m_text = JStr (asc ''bye''), m_user = JStr (asc ''U1''),
           m_timestamp = JStr (asc ''1690000004.000100''), m_channel = asc ''C123'',
           m_user_name = JNull, m_thread_ts = JStr (asc ''1690000000.000100'')\<rparr>],
    [HttpGet (BASE_URL @ asc ''/'' @ asc ''conversations.history'') (headers (asc ''xoxb''))
       (Some [(asc ''channel'', JStr (asc ''C123'')), (asc ''limit'', JInt 10)])])"
  by (simp add: get_channel_history_def history_message_def noise_subtypes_def
      history_response_def run_defs)

subsection \<open>The loop of \<open>get_thread_replies\<close>\<close>

lemma thread_message_dict:
  "thread_message channel (JObj d) =
     Inr (Some \<lparr>m_text = lookup d (asc ''text'') (JStr []),
                m_user = lookup d (asc ''user'') (JStr (asc ''unknown'')),
                m_timestamp = lookup d (asc ''ts'') (JStr []),
                m_channel = channel, m_user_name = JNull,
                m_thread_ts = lookup d (asc ''thread_ts'') JNull\<rparr>)"
  by (simp add: thread_message_def)

lemma for_each_thread_message:
  "for_each (thread_message channel) (map JObj entries) =
     Inr (map (\<lambda>d. \<lparr>m_text = lookup d (asc ''text'') (JStr []),
                     m_user = lookup d (asc ''user'') (JStr (asc ''unknown'')),
                     m_timestamp = lookup d (asc ''ts'') (JStr []),
                     m_channel = channel, m_user_name = JNull,
                     m_thread_ts = lookup d (asc ''thread_ts'') JNull\<rparr>) entries)"
  by (induction entries) (simp_all add: thread_message_dict)

lemma get_thread_replies_returns:
  assumes "make_request env token (asc ''GET'') (asc ''conversations.replies'') None
             (Some [(asc ''channel'', JStr channel), (asc ''ts'', JStr thread_ts)]) tr
           = (Inr (JObj kvs), tr')"
    and "lookup kvs (asc ''messages'') (JList []) = JList (map JObj entries)"
  shows "get_thread_replies env token channel thread_ts tr =
     (Inr (map (\<lambda>d. \<lparr>m_text = lookup d (asc ''text'') (JStr []),
                     m_user = lookup d (asc ''user'') (JStr (asc ''unknown'')),
                     m_timestamp = lookup d (asc ''ts'') (JStr []),
                     m_channel = channel, m_user_name = JNull,
                     m_thread_ts = lookup d (asc ''thread_ts'') JNull\<rparr>) entries), tr')"
  using assms by (simp add: get_thread_replies_def io_bind_def for_each_thread_message)

text \<open>In the example environments \<open>float\<close> raises \<open>ValueError\<close>, so a timestamp is shown as it is.\<close>

lemma format_timestamp_example [simp]:
  "format_timestamp (example_env net files) v = Inr v"
  by (simp add: format_timestamp_def example_env_def)

subsection \<open>Remote errors in \<open>get_channels\<close> and \<open>get_channel_history\<close>\<close>

lemma get_channels_remote_error:
  assumes "respond env tr
             (HttpGet (BASE_URL @ asc ''/'' @ asc ''conversations.list'') (headers token)
                (Some [(asc ''types'', JStr (asc ''public_channel'')),
                       (asc ''exclude_archived'', JBool exclude_archived),
                       (asc ''limit'', JInt 1000)])) = Replied r"
    and "\<not> (400 \<le> status_code r \<and> status_code r < 600)"
    and "resp_json r = Inr (JObj kvs)"
    and "\<not> truthy (lookup kvs (asc ''ok'') (JBool False))"
  shows "get_channels env token exclude_archived tr =
     (Inl (if sublist (asc ''missing_scope'')
                (py_str env (lookup kvs (asc ''error'') (JStr (asc ''Unknown error''))))
           then SlackAPIError (JStr guidance_channels) None
           else SlackAPIError (lookup kvs (asc ''error'') (JStr (asc ''Unknown error'')))
                  (Some (JObj kvs))),
      tr @ [HttpGet (BASE_URL @ asc ''/'' @ asc ''conversations.list'') (headers token)
              (Some [(asc ''types'', JStr (asc ''public_channel'')),
                     (asc ''exclude_archived'', JBool exclude_archived),
                     (asc ''limit'', JInt 1000)])])"
proof -
  have "make_request env token (asc ''GET'') (asc ''conversations.list'') None
          (Some [(asc ''types'', JStr (asc ''public_channel'')),
                 (asc ''exclude_archived'', JBool exclude_archived),
                 (asc ''limit'', JInt 1000)]) tr =
     (Inl (SlackAPIError (lookup kvs (asc ''error'') (JStr (asc ''Unknown error'')))
             (Some (JObj kvs))),
      tr @ [HttpGet (BASE_URL @ asc ''/'' @ asc ''conversations.list'') (headers token)
              (Some [(asc ''types'', JStr (asc ''public_channel'')),
                     (asc ''exclude_archived'', JBool exclude_archived),
                     (asc ''limit'', JInt 1000)])])"
    using make_request_remote_error [of _ _ "asc ''GET''" _ _ _ None, OF _ assms(2-4)]
      assms(1) by simp
  then show ?thesis
    by (simp add: get_channels_def io_catch_def io_bind_def)
qed

lemma get_channel_history_remote_error:
  assumes "respond env tr
             (HttpGet (BASE_URL @ asc ''/'' @ asc ''conversations.history'') (headers token)
                (Some ([(asc ''channel'', JStr channel_id), (asc ''limit'', JInt (min limit 100))]
                    @ optional_param (asc ''oldest'') oldest
                    @ optional_param (asc ''latest'') latest))) = Replied r"
    and "\<not> (400 \<le> status_code r \<and> status_code r < 600)"
    and "resp_json r = Inr (JObj kvs)"
    and "\<not> truthy (lookup kvs (asc ''ok'') (JBool False))"
  shows "get_channel_history env token channel_id limit oldest latest tr =
     (Inl (if sublist (asc ''missing_scope'')
                (py_str env (lookup kvs (asc ''error'') (JStr (asc ''Unknown error''))))
           then SlackAPIError (JStr guidance_history) None
           else SlackAPIError (lookup kvs (asc ''error'') (JStr (asc ''Unknown error'')))
                  (Some (JObj kvs))),
      tr @ [HttpGet (BASE_URL @ asc ''/'' @ asc ''conversations.history'') (headers token)
                (Some ([(asc ''channel'', JStr channel_id), (asc ''limit'', JInt (min limit 100))]
                    @ optional_param (asc ''oldest'') oldest
                    @ optional_param (asc ''latest'') latest))])"
proof -
  have "make_request env token (asc ''GET'') (asc ''conversations.history'') None
          (Some ([(asc ''channel'', JStr channel_id), (asc ''limit'', JInt (min limit 100))]
                    @ optional_param (asc ''oldest'') oldest
                    @ optional_param (asc ''latest'') latest)) tr =
     (Inl (SlackAPIError (lookup kvs (asc ''error'') (JStr (asc ''Unknown error'')))
             (Some (JObj kvs))),
      tr @ [HttpGet (BASE_URL @ asc ''/'' @ asc ''conversations.history'') (headers token)
                (Some ([(asc ''channel'', JStr channel_id), (asc ''limit'', JInt (min limit 100))]
                    @ optional_param (asc ''oldest'') oldest
                    @ optional_param (asc ''latest'') latest))])"
    using make_request_remote_error [of _ _ "asc ''GET''" _ _ _ None, OF _ assms(2-4)]
      assms(1) by simp
  then show ?thesis
    by (simp add: get_channel_history_def io_catch_def io_bind_def)
qed

lemma guidance_names_scope:
  "sublist ([39] @ asc ''channels:read'' @ [39]) guidance_channels"
  "sublist ([39] @ asc ''channels:history'' @ [39]) guidance_history"
  "guidance_channels \<noteq> asc ''missing_scope''"
  "guidance_history \<noteq> asc ''missing_scope''"
  by (simp_all add: guidance_channels_def guidance_history_def asc_def sublist_code)

text \<open>
  Every error whose text does not contain \<open>missing_scope\<close> keeps its tag, and the tools
  render the tag as it is.
\<close>

lemma other_tags_rendered_raw:
  assumes "\<not> (400 \<le> status_code r \<and> status_code r < 600)"
    and "resp_json r = Inr (JObj kvs)"
    and "\<not> truthy (lookup kvs (asc ''ok'') (JBool False))"
    and "\<not> sublist (asc ''missing_scope'')
             (py_str env (lookup kvs (asc ''error'') (JStr (asc ''Unknown error''))))"
    and "respond env tr
           (HttpGet (BASE_URL @ asc ''/'' @ asc ''conversations.list'') (headers token)
              (Some [(asc ''types'', JStr (asc ''public_channel'')),
                     (asc ''exclude_archived'', JBool True),
                     (asc ''limit'', JInt 1000)])) = Replied r"
  shows "fst (get_slack_channels env token tr) =
           Inr (channels_failed
                @ py_str env (lookup kvs (asc ''error'') (JStr (asc ''Unknown error''))))"
  using get_channels_remote_error [OF assms(5) assms(1-3)] assms(4)
  by (simp add: get_slack_channels_def io_catch_def io_bind_def)

text \<open>The remediation texts do not contain the tag itself.\<close>

lemma guidance_without_tag:
  "\<not> sublist (asc ''missing_scope'') guidance_channels"
  "\<not> sublist (asc ''missing_scope'') guidance_history"
  by (simp_all add: guidance_channels_def guidance_history_def asc_def sublist_code)

text \<open>The example response with a remote error, and three tags.\<close>

lemma remote_error_example:
  "\<not> (400 \<le> status_code \<lparr>status_code = 200, http_error_text = asc ''HTTP error'',
          resp_json = Inr (JObj [(asc ''ok'', JBool False), (asc ''error'', JStr tag)])\<rparr>
      \<and> status_code \<lparr>status_code = 200, http_error_text = asc ''HTTP error'',
          resp_json = Inr (JObj [(asc ''ok'', JBool False), (asc ''error'', JStr tag)])\<rparr> < 600)"
  "resp_json \<lparr>status_code = 200, http_error_text = asc ''HTTP error'',
          resp_json = Inr (JObj [(asc ''ok'', JBool False), (asc ''error'', JStr tag)])\<rparr>
     = Inr (JObj [(asc ''ok'', JBool False), (asc ''error'', JStr tag)])"
  "\<not> truthy (lookup [(asc ''ok'', JBool False), (asc ''error'', JStr tag)] (asc ''ok'') (JBool False))"
  "respond (example_env (\<lambda>tr req. reply 200 (Inr (remote_error_response tag))) files) tr req
     = Replied \<lparr>status_code = 200, http_error_text = asc ''HTTP error'',
          resp_json = Inr (JObj [(asc ''ok'', JBool False), (asc ''error'', JStr tag)])\<rparr>"
  "lookup [(asc ''ok'', JBool False), (asc ''error'', JStr tag)] (asc ''error'')
     (JStr (asc ''Unknown error'')) = JStr tag"
  by (simp_all add: lookup_def asc_def reply_def remote_error_response_def example_env_def)

lemma tag_examples:
  "sublist (asc ''missing_scope'') (asc ''missing_scope'')"
  "\<not> sublist (asc ''missing_scope'') (asc ''channel_not_found'')"
  "sublist (asc ''missing_scope'') (asc ''missing_scope_for_team'')"
  "asc ''missing_scope_for_team'' \<noteq> asc ''missing_scope''"
  by (simp_all add: asc_def sublist_code)

subsection \<open>The upload steps in the example environment\<close>

lemma upload_example_steps:
  "path_exists (example_env (upload_net st) (\<lambda>p. True)) (asc ''report.txt'')"
  "resolve_channels (example_env (upload_net st) (\<lambda>p. True)) (asc ''xoxb'') (JStr (asc ''C123'')) []
     = (Inr (JStr (asc ''C123'')), [])"
  "getsize (example_env (upload_net st) (\<lambda>p. True)) (asc ''report.txt'') = Inr 3"
  "make_request (example_env (upload_net st) (\<lambda>p. True)) (asc ''xoxb'') (asc ''GET'')
     (asc ''files.getUploadURLExternal'') None
     (Some [(asc ''filename'', JStr (basename (example_env (upload_net st) (\<lambda>p. True)) (asc ''report.txt''))),
            (asc ''length'', JInt 3)]) []
   = (Inr (JObj [(asc ''ok'', JBool True),
                 (asc ''upload_url'', JStr (asc ''https://files.slack.com/upload/v1/abc'')),
                 (asc ''file_id'', JStr (asc ''F123''))]),
      [HttpGet (BASE_URL @ asc ''/'' @ asc ''files.getUploadURLExternal'') (headers (asc ''xoxb''))
         (Some [(asc ''filename'', JStr (asc ''report.txt'')), (asc ''length'', JInt 3)])])"
  "subscript (JObj [(asc ''ok'', JBool True),
                 (asc ''upload_url'', JStr (asc ''https://files.slack.com/upload/v1/abc'')),
                 (asc ''file_id'', JStr (asc ''F123''))]) (asc ''upload_url'')
   = Inr (JStr (asc ''https://files.slack.com/upload/v1/abc''))"
  "subscript (JObj [(asc ''ok'', JBool True),
                 (asc ''upload_url'', JStr (asc ''https://files.slack.com/upload/v1/abc'')),
                 (asc ''file_id'', JStr (asc ''F123''))]) (asc ''file_id'')
   = Inr (JStr (asc ''F123''))"
  "open_rb (example_env (upload_net st) (\<lambda>p. True)) (asc ''report.txt'') = Inr [104, 105, 10]"
  "respond (example_env (upload_net st) (\<lambda>p. True))
     [HttpGet (BASE_URL @ asc ''/'' @ asc ''files.getUploadURLExternal'') (headers (asc ''xoxb''))
         (Some [(asc ''filename'', JStr (asc ''report.txt'')), (asc ''length'', JInt 3)])]
     (HttpPostFiles (JStr (asc ''https://files.slack.com/upload/v1/abc''))
        (basename (example_env (upload_net st) (\<lambda>p. True)) (asc ''report.txt'')) [104, 105, 10])
   = Replied \<lparr>status_code = st, http_error_text = asc ''HTTP error'', resp_json = Inr JNull\<rparr>"
  "(case JStr (asc ''C123'') of JStr s \<Rightarrow> Inr (JStr (asc ''C123'')) | v \<Rightarrow> subscript0 (JStr (asc ''C123'')))
   = Inr (JStr (asc ''C123''))"
  by (simp_all add: resolve_channels_def startswith_def upload_net_def run_defs)

subsection \<open>Resolving a channel name in \<open>upload_file\<close>\<close>

lemma snd_get_channels:
  "snd (get_channels env token exclude_archived tr) =
     tr @ [HttpGet (BASE_URL @ asc ''/'' @ asc ''conversations.list'') (headers token)
             (Some [(asc ''types'', JStr (asc ''public_channel'')),
                    (asc ''exclude_archived'', JBool exclude_archived),
                    (asc ''limit'', JInt 1000)])]"
  unfolding get_channels_def
  by (subst snd_io_catch) (simp_all split: exn.splits)

lemma startswith_U_not_C: "startswith 85 s \<Longrightarrow> \<not> startswith 67 s"
  by (cases s) (simp_all add: startswith_def)

lemma resolve_channels_by_name:
  assumes "\<not> startswith 67 s"
    and "get_channels env token True tr = (Inr channel_list, tr')"
  shows "resolve_channels env token (JStr s) tr =
     (case find (\<lambda>channel. c_name channel = JStr s) channel_list of
        None \<Rightarrow> Inl (SlackAPIError (JStr (channel_not_found @ s)) None)
      | Some channel \<Rightarrow>
          if truthy (c_id channel) then Inr (c_id channel)
          else Inl (SlackAPIError (JStr (channel_not_found @ s)) None),
      tr')"
  using assms
  by (simp add: resolve_channels_def io_bind_def Let_def split: option.splits)

lemma channels_example:
  "get_channels (example_env (\<lambda>tr req. reply 200 (Inr channels_response)) (\<lambda>p. True))
     (asc ''xoxb'') True [] =
   (Inr [\<lparr>c_id = JStr (asc ''C001''), c_name = JStr (asc ''general''),
           c_is_private = JBool False, c_is_member = JBool True, c_topic = JNull,
           c_purpose = JNull, c_num_members = JNull\<rparr>,
         \<lparr>c_id = JStr (asc ''C002''), c_name = JStr (asc ''random''),
           c_is_private = JBool False, c_is_member = JBool False, c_topic = JNull,
           c_purpose = JNull, c_num_members = JNull\<rparr>],
    [HttpGet (BASE_URL @ asc ''/'' @ asc ''conversations.list'') (headers (asc ''xoxb''))
       (Some [(asc ''types'', JStr (asc ''public_channel'')),
              (asc ''exclude_archived'', JBool True),
              (asc ''limit'', JInt 1000)])])"
  by (simp add: get_channels_def slack_channel_of_def channels_response_def run_defs)

text \<open>
  A value that is no string, or a string that starts with \<open>C\<close>, is taken as it is; after
  a resolution that gives such a value the upload goes on as an upload to that value.
\<close>

lemma resolve_channels_direct:
  assumes "\<forall>cid. v = JStr cid \<longrightarrow> startswith 67 cid"
  shows "resolve_channels env token v tr = (Inr v, tr)"
  using assms by (cases v) (simp_all add: resolve_channels_def)

lemma upload_file_after_resolve:
  assumes "path_exists env file_path"
    and "resolve_channels env token channels tr = (Inr v, tr')"
    and "\<forall>cid. v = JStr cid \<longrightarrow> startswith 67 cid"
  shows "upload_file env token channels file_path title initial_comment tr =
         upload_file env token v file_path title initial_comment tr'"
  using assms(1,2) resolve_channels_direct [OF assms(3), of env token tr']
  by (simp add: upload_file_def io_catch_def io_bind_def)

text \<open>The listing and the upload on the remote side with a channel named like the user ID.\<close>

lemma named_channels_example:
  "get_channels (example_env named_upload_net (\<lambda>p. True)) (asc ''xoxb'') True [] =
   (Inr [\<lparr>c_id = JStr (asc ''C001''), c_name = JStr (asc ''general''),
           c_is_private = JBool False, c_is_member = JBool False, c_topic = JNull,
           c_purpose = JNull, c_num_members = JNull\<rparr>,
         \<lparr>c_id = JStr (asc ''C777''), c_name = JStr (asc ''U024BE7LH''),
           c_is_private = JBool False, c_is_member = JBool False, c_topic = JNull,
           c_purpose = JNull, c_num_members = JNull\<rparr>],
    [HttpGet (BASE_URL @ asc ''/'' @ asc ''conversations.list'') (headers (asc ''xoxb''))
       (Some [(asc ''types'', JStr (asc ''public_channel'')),
              (asc ''exclude_archived'', JBool True),
              (asc ''limit'', JInt 1000)])])"
  by (simp add: get_channels_def slack_channel_of_def named_channels_response_def
      named_upload_net_def BASE_URL_def run_defs)

lemma named_upload_example:
  "upload_file (example_env named_upload_net (\<lambda>p. True)) (asc ''xoxb'') (JStr (asc ''C777''))
     (asc ''report.txt'') None None
     [HttpGet (BASE_URL @ asc ''/'' @ asc ''conversations.list'') (headers (asc ''xoxb''))
       (Some [(asc ''types'', JStr (asc ''public_channel'')),
              (asc ''exclude_archived'', JBool True),
              (asc ''limit'', JInt 1000)])] =
   (Inr (JObj [(asc ''ok'', JBool True),
               (asc ''files'', JList [JObj [(asc ''id'', JStr (asc ''F123''))]])]),
    [HttpGet (BASE_URL @ asc ''/'' @ asc ''conversations.list'') (headers (asc ''xoxb''))
       (Some [(asc ''types'', JStr (asc ''public_channel'')),
              (asc ''exclude_archived'', JBool True),
              (asc ''limit'', JInt 1000)]),
     HttpGet (BASE_URL @ asc ''/'' @ asc ''files.getUploadURLExternal'') (headers (asc ''xoxb''))
        (Some [(asc ''filename'', JStr (asc ''report.txt'')), (asc ''length'', JInt 3)]),
     HttpPostFiles (JStr (asc ''https://files.slack.com/upload/v1/abc'')) (asc ''report.txt'')
        [104, 105, 10],
     HttpPostJson (BASE_URL @ asc ''/'' @ asc ''files.completeUploadExternal'')
        (headers (asc ''xoxb''))
        (Some (JObj [(asc ''files'',
                      JList [JObj [(asc ''id'', JStr (asc ''F123'')),
                                   (asc ''title'', JStr (asc ''report.txt''))]]),
                     (asc ''channel_id'', JStr (asc ''C777''))]))])"
  by (simp add: upload_file_def resolve_channels_def startswith_def named_upload_net_def
      upload_net_def title_or_def BASE_URL_def run_defs)

subsection \<open>The handlers of the tools\<close>

lemma io_catch_total:
  assumes "\<And>e tr'. \<exists>s. fst (h e tr') = Inr s"
  shows "\<exists>s. fst (io_catch m h tr) = Inr s"
proof (cases "m tr")
  case (Pair res tr')
  show ?thesis
  proof (cases res)
    case (Inl e)
    with Pair assms [of e tr'] show ?thesis by (simp add: io_catch_def)
  next
    case (Inr x)
    with Pair show ?thesis by (simp add: io_catch_def)
  qed
qed

lemma tool_handler_total:
  "\<exists>s. fst ((case e of SlackAPIError err resp \<Rightarrow> io_lift (Inr (f err))
                       | PyExn c m \<Rightarrow> io_lift (Inr (g c m))) tr') = Inr s"
  by (cases e) simp_all

lemma io_catch_bind_raised:
  assumes "fst (m tr) = Inl e"
  shows "io_catch (io_bind m k) h tr = h e (snd (m tr))"
  using assms by (cases "m tr") (simp add: io_catch_def io_bind_def)

text \<open>Whatever happens inside \<open>upload_file\<close> leaves it as a \<open>SlackAPIError\<close>.\<close>

lemma upload_file_raises_SlackAPIError_only:
  "fst (upload_file env token channels file_path title initial_comment tr) \<noteq> Inl (PyExn c m)"
proof (cases "path_exists env file_path")
  case False
  then show ?thesis by (simp add: upload_file_def)
next
  case True
  then show ?thesis
    by (simp add: upload_file_def io_catch_def split: prod.splits sum.splits)
qed

subsection \<open>The client on a failing network\<close>

lemma example_env_sel [simp]:
  "respond (example_env net files) = net"
  "path_exists (example_env net files) = files"
  "getsize (example_env net files) p = Inr 3"
  "basename (example_env net files) p = p"
  "open_rb (example_env net files) p = Inr [104, 105, 10]"
  "now_text (example_env net files) = asc ''2023-07-22 12:00:00''"
  by (simp_all add: example_env_def)

lemma make_request_net_down:
  "make_request (example_env net_down files) token method endpoint data params tr =
     (Inl (SlackAPIError (JStr (asc ''Network error: timed out'')) None),
      tr @ [if upper method = asc ''GET''
            then HttpGet (BASE_URL @ asc ''/'' @ endpoint) (headers token) params
            else HttpPostJson (BASE_URL @ asc ''/'' @ endpoint) (headers token) data])"
  using make_request_raised [where env = "example_env net_down files"
      and e = "PyExn RequestException (asc ''timed out'')"]
  by (simp add: net_down_def asc_def)

lemma make_request_net_broken:
  "make_request (example_env net_broken files) token method endpoint data params tr =
     (Inl (PyExn OtherException (asc ''boom'')),
      tr @ [if upper method = asc ''GET''
            then HttpGet (BASE_URL @ asc ''/'' @ endpoint) (headers token) params
            else HttpPostJson (BASE_URL @ asc ''/'' @ endpoint) (headers token) data])"
  using make_request_raised [where env = "example_env net_broken files"
      and e = "PyExn OtherException (asc ''boom'')"]
  by (simp add: net_broken_def)

lemma missing_scope_not_in_timed_out:
  "\<not> sublist (asc ''missing_scope'') (asc ''Network error: timed out'')"
  "asc ''Network error: timed out'' \<noteq> asc ''not_allowed_token_type''"
  "asc ''Network error: timed out'' \<noteq> asc ''missing_scope''"
  by (simp_all add: asc_def sublist_code)

lemma client_net_down:
  "fst (send_message (example_env net_down files) token channel text thread_ts tr) =
     Inl (SlackAPIError (JStr (asc ''Network error: timed out'')) None)"
  "fst (get_channels (example_env net_down files) token True tr) =
     Inl (SlackAPIError (JStr (asc ''Network error: timed out'')) None)"
  "fst (get_channel_history (example_env net_down files) token channel_id limit None None tr) =
     Inl (SlackAPIError (JStr (asc ''Network error: timed out'')) None)"
  "fst (send_direct_message (example_env net_down files) token user_id text tr) =
     Inl (SlackAPIError (JStr (asc ''Network error: timed out'')) None)"
  "fst (get_users (example_env net_down files) token limit tr) =
     Inl (SlackAPIError (JStr (asc ''Network error: timed out'')) None)"
  "fst (search_messages (example_env net_down files) token query count sort_mode tr) =
     Inl (SlackAPIError (JStr (asc ''Network error: timed out'')) None)"
  "fst (add_reaction (example_env net_down files) token channel timestamp name tr) =
     Inl (SlackAPIError (JStr (asc ''Network error: timed out'')) None)"
  "fst (get_thread_replies (example_env net_down files) token channel thread_ts' tr) =
     Inl (SlackAPIError (JStr (asc ''Network error: timed out'')) None)"
  "fst (test_connection (example_env net_down files) token tr) =
     Inl (SlackAPIError (JStr (asc ''Network error: timed out'')) None)"
  by (simp_all add: send_message_def get_channels_def get_channel_history_def
      send_direct_message_def get_users_def search_messages_def add_reaction_def
      get_thread_replies_def test_connection_def make_request_net_down io_catch_def
      io_bind_def missing_scope_not_in_timed_out)

lemma client_net_broken:
  "fst (send_message (example_env net_broken files) token channel text thread_ts tr) =
     Inl (PyExn OtherException (asc ''boom''))"
  "fst (get_channels (example_env net_broken files) token True tr) =
     Inl (PyExn OtherException (asc ''boom''))"
  "fst (get_channel_history (example_env net_broken files) token channel_id limit None None tr) =
     Inl (PyExn OtherException (asc ''boom''))"
  "fst (send_direct_message (example_env net_broken files) token user_id text tr) =
     Inl (PyExn OtherException (asc ''boom''))"
  "fst (get_users (example_env net_broken files) token limit tr) =
     Inl (PyExn OtherException (asc ''boom''))"
  "fst (search_messages (example_env net_broken files) token query count sort_mode tr) =
     Inl (PyExn OtherException (asc ''boom''))"
  "fst (add_reaction (example_env net_broken files) token channel timestamp name tr) =
     Inl (PyExn OtherException (asc ''boom''))"
  "fst (get_thread_replies (example_env net_broken files) token channel thread_ts' tr) =
     Inl (PyExn OtherException (asc ''boom''))"
  "fst (test_connection (example_env net_broken files) token tr) =
     Inl (PyExn OtherException (asc ''boom''))"
  by (simp_all add: send_message_def get_channels_def get_channel_history_def
      send_direct_message_def get_users_def search_messages_def add_reaction_def
      get_thread_replies_def test_connection_def make_request_net_broken io_catch_def
      io_bind_def)

lemma channel_param_example:
  "channel_param (asc ''C123'') = JList [JStr (asc ''C123'')]"
  by (simp add: channel_param_def startswith_def strip_def is_space_def asc_def)

lemma upload_net_down:
  "path_exists (example_env net_down (\<lambda>p. True)) (asc ''report.txt'')"
  "fst (upload_file (example_env net_down (\<lambda>p. True)) token (channel_param (asc ''C123''))
          (asc ''report.txt'') title initial_comment tr) =
     Inl (SlackAPIError
            (JStr (upload_failed @ asc ''Slack API Error: '' @ asc ''Network error: timed out''))
            None)"
  by (simp_all add: upload_file_def resolve_channels_def channel_param_example
      make_request_net_down io_catch_def io_bind_def)

section \<open>Clamping of limits\<close>

text \<open>
  Claim C5. For every integer limit or count, also one below 1 or above the cap, the tools
  for channel history, user listing and message search issue exactly one request, and its
  query carries the value clamped into the range from 1 to the cap (100, 1000 and 100).
\<close>

theorem limits_clamped_in_query:
  "snd (get_slack_channel_history env token channel_id limit tr) =
     tr @ [HttpGet (BASE_URL @ asc ''/'' @ asc ''conversations.history'') (headers token)
             (Some [(asc ''channel'', JStr channel_id),
                    (asc ''limit'', JInt (max 1 (min limit 100)))])]
   \<and> snd (get_slack_users env token user_limit tr) =
     tr @ [HttpGet (BASE_URL @ asc ''/'' @ asc ''users.list'') (headers token)
             (Some [(asc ''limit'', JInt (max 1 (min user_limit 1000)))])]
   \<and> snd (search_slack_messages env token query count tr) =
     tr @ [HttpGet (BASE_URL @ asc ''/'' @ asc ''search.messages'') (headers token)
             (Some [(asc ''query'', JStr query),
                    (asc ''count'', JInt (max 1 (min count 100))),
                    (asc ''sort'', JStr (asc ''timestamp''))])]
   \<and> 1 \<le> max 1 (min limit 100) \<and> max 1 (min limit 100) \<le> 100
   \<and> 1 \<le> max 1 (min user_limit 1000) \<and> max 1 (min user_limit 1000) \<le> 1000
   \<and> 1 \<le> max 1 (min count 100) \<and> max 1 (min count 100) \<le> 100"
proof -
  have h: "snd (get_slack_channel_history env token channel_id limit tr) =
     tr @ [HttpGet (BASE_URL @ asc ''/'' @ asc ''conversations.history'') (headers token)
             (Some [(asc ''channel'', JStr channel_id),
                    (asc ''limit'', JInt (max 1 (min limit 100)))])]"
    unfolding get_slack_channel_history_def
    by (subst snd_io_catch)
       (simp_all add: snd_get_channel_history optional_param_def split: exn.splits)
  have u: "snd (get_slack_users env token user_limit tr) =
     tr @ [HttpGet (BASE_URL @ asc ''/'' @ asc ''users.list'') (headers token)
             (Some [(asc ''limit'', JInt (max 1 (min user_limit 1000)))])]"
    unfolding get_slack_users_def
    by (subst snd_io_catch) (simp_all add: snd_get_users split: exn.splits)
  have s: "snd (search_slack_messages env token query count tr) =
     tr @ [HttpGet (BASE_URL @ asc ''/'' @ asc ''search.messages'') (headers token)
             (Some [(asc ''query'', JStr query),
                    (asc ''count'', JInt (max 1 (min count 100))),
                    (asc ''sort'', JStr (asc ''timestamp''))])]"
    unfolding search_slack_messages_def
    by (subst snd_io_catch) (simp_all add: snd_search_messages split: exn.splits)
  show ?thesis using h u s by simp
qed

section \<open>Every tool returns text\<close>

text \<open>
  Claim C1, as amended. Exceptions are the subclasses of \<open>Exception\<close>. For every
  environment and every input, each of the eleven tools returns a string, so none of them
  raises. When the client operation a tool calls raises a \<open>SlackAPIError\<close>, the string
  is the failure format of the tool: its failure prefix, \<open>str(e.error)\<close>, and the call
  parameters that the format names (for the reaction tool the emoji after the colons are
  stripped; no parameter for the channel list, the user list and the connection test; not
  the limit, the count, the title or the comment). When the client operation raises any
  other exception \<open>e\<close>, the string is the generic failure prefix followed by \<open>str(e)\<close>,
  without any call parameter. The upload tool calls the client only when the path exists,
  and \<open>upload_file\<close> raises nothing but \<open>SlackAPIError\<close>.
\<close>

theorem tools_always_return_text:
  "((\<exists>s. fst (send_slack_message env token channel message tr) = Inr s)
    \<and> (\<forall>err resp. fst (send_message env token channel message None tr) = Inl (SlackAPIError err resp)
         \<longrightarrow> fst (send_slack_message env token channel message tr) =
              Inr (send_failed @ py_str env err @ [10] @ label_channel @ channel @ [10]
                   @ label_message @ message))
    \<and> (\<forall>c m. fst (send_message env token channel message None tr) = Inl (PyExn c m)
         \<longrightarrow> fst (send_slack_message env token channel message tr) = Inr (unexpected_error @ m)))
   \<and> ((\<exists>s. fst (get_slack_channels env token tr) = Inr s)
    \<and> (\<forall>err resp. fst (get_channels env token True tr) = Inl (SlackAPIError err resp)
         \<longrightarrow> fst (get_slack_channels env token tr) = Inr (channels_failed @ py_str env err))
    \<and> (\<forall>c m. fst (get_channels env token True tr) = Inl (PyExn c m)
         \<longrightarrow> fst (get_slack_channels env token tr) = Inr (unexpected_error @ m)))
   \<and> ((\<exists>s. fst (get_slack_channel_history env token channel_id limit tr) = Inr s)
    \<and> (\<forall>err resp. fst (get_channel_history env token channel_id (max 1 (min limit 100))
                         None None tr) = Inl (SlackAPIError err resp)
         \<longrightarrow> fst (get_slack_channel_history env token channel_id limit tr) =
              Inr (history_failed @ py_str env err @ history_channel_id @ channel_id))
    \<and> (\<forall>c m. fst (get_channel_history env token channel_id (max 1 (min limit 100))
                    None None tr) = Inl (PyExn c m)
         \<longrightarrow> fst (get_slack_channel_history env token channel_id limit tr) =
              Inr (unexpected_error @ m)))
   \<and> ((\<exists>s. fst (send_slack_direct_message env token user_id message tr) = Inr s)
    \<and> (\<forall>err resp. fst (send_direct_message env token user_id message tr) =
                     Inl (SlackAPIError err resp)
         \<longrightarrow> fst (send_slack_direct_message env token user_id message tr) =
              Inr (dm_failed @ py_str env err @ [10] @ label_user_id @ user_id @ [10]
                   @ label_message @ message))
    \<and> (\<forall>c m. fst (send_direct_message env token user_id message tr) = Inl (PyExn c m)
         \<longrightarrow> fst (send_slack_direct_message env token user_id message tr) =
              Inr (unexpected_error @ m)))
   \<and> ((\<exists>s. fst (get_slack_users env token user_limit tr) = Inr s)
    \<and> (\<forall>err resp. fst (get_users env token (max 1 (min user_limit 1000)) tr) =
                     Inl (SlackAPIError err resp)
         \<longrightarrow> fst (get_slack_users env token user_limit tr) =
              Inr (users_failed @ py_str env err))
    \<and> (\<forall>c m. fst (get_users env token (max 1 (min user_limit 1000)) tr) = Inl (PyExn c m)
         \<longrightarrow> fst (get_slack_users env token user_limit tr) = Inr (unexpected_error @ m)))
   \<and> ((\<exists>s. fst (search_slack_messages env token query count tr) = Inr s)
    \<and> (\<forall>err resp. fst (search_messages env token query (max 1 (min count 100))
                         (asc ''timestamp'') tr) = Inl (SlackAPIError err resp)
         \<longrightarrow> fst (search_slack_messages env token query count tr) =
              Inr (search_failed @ py_str env err @ search_query @ query))
    \<and> (\<forall>c m. fst (search_messages env token query (max 1 (min count 100))
                    (asc ''timestamp'') tr) = Inl (PyExn c m)
         \<longrightarrow> fst (search_slack_messages env token query count tr) =
              Inr (unexpected_error @ m)))
   \<and> ((\<exists>s. fst (upload_slack_file env token channels file_path title initial_comment tr) = Inr s)
    \<and> (\<forall>err resp. path_exists env file_path
           \<and> fst (upload_file env token (channel_param channels) file_path title
                    initial_comment tr) = Inl (SlackAPIError err resp)
         \<longrightarrow> fst (upload_slack_file env token channels file_path title initial_comment tr) =
              Inr (tool_upload_failed @ py_str env err @ [10] @ label_file @ file_path @ [10]
                   @ label_channel @ channels)))
   \<and> ((\<exists>s. fst (add_slack_reaction env token channel timestamp emoji tr) = Inr s)
    \<and> (\<forall>err resp. fst (add_reaction env token channel timestamp (strip_char 58 emoji) tr) =
                     Inl (SlackAPIError err resp)
         \<longrightarrow> fst (add_slack_reaction env token channel timestamp emoji tr) =
              Inr (reaction_failed @ py_str env err @ [10] @ label_channel @ channel @ [10]
                   @ label_timestamp @ timestamp @ [10] @ label_emoji @ strip_char 58 emoji))
    \<and> (\<forall>c m. fst (add_reaction env token channel timestamp (strip_char 58 emoji) tr) =
                Inl (PyExn c m)
         \<longrightarrow> fst (add_slack_reaction env token channel timestamp emoji tr) =
              Inr (unexpected_error @ m)))
   \<and> ((\<exists>s. fst (get_slack_thread_replies env token channel thread_ts tr) = Inr s)
    \<and> (\<forall>err resp. fst (get_thread_replies env token channel thread_ts tr) =
                     Inl (SlackAPIError err resp)
         \<longrightarrow> fst (get_slack_thread_replies env token channel thread_ts tr) =
              Inr (thread_failed @ py_str env err @ [10] @ label_channel @ channel
                   @ thread_label @ thread_ts))
    \<and> (\<forall>c m. fst (get_thread_replies env token channel thread_ts tr) = Inl (PyExn c m)
         \<longrightarrow> fst (get_slack_thread_replies env token channel thread_ts tr) =
              Inr (unexpected_error @ m)))
   \<and> ((\<exists>s. fst (send_slack_thread_reply env token channel thread_ts message tr) = Inr s)
    \<and> (\<forall>err resp. fst (send_message env token channel message (Some thread_ts) tr) =
                     Inl (SlackAPIError err resp)
         \<longrightarrow> fst (send_slack_thread_reply env token channel thread_ts message tr) =
              Inr (reply_failed @ py_str env err @ [10] @ label_channel @ channel
                   @ thread_label @ thread_ts @ [10] @ label_reply @ message))
    \<and> (\<forall>c m. fst (send_message env token channel message (Some thread_ts) tr) = Inl (PyExn c m)
         \<longrightarrow> fst (send_slack_thread_reply env token channel thread_ts message tr) =
              Inr (unexpected_error @ m)))
   \<and> ((\<exists>s. fst (test_slack_connection env token tr) = Inr s)
    \<and> (\<forall>err resp. fst (test_connection env token tr) = Inl (SlackAPIError err resp)
         \<longrightarrow> fst (test_slack_connection env token tr) =
              Inr (connection_failed @ py_str env err @ [10] @ check_token))
    \<and> (\<forall>c m. fst (test_connection env token tr) = Inl (PyExn c m)
         \<longrightarrow> fst (test_slack_connection env token tr) = Inr (unexpected_error @ m)))"
proof (intro conjI allI impI)
  show "\<exists>s. fst (send_slack_message env token channel message tr) = Inr s"
    unfolding send_slack_message_def by (rule io_catch_total) (rule tool_handler_total)
  show "\<exists>s. fst (get_slack_channels env token tr) = Inr s"
    unfolding get_slack_channels_def by (rule io_catch_total) (rule tool_handler_total)
  show "\<exists>s. fst (get_slack_channel_history env token channel_id limit tr) = Inr s"
    unfolding get_slack_channel_history_def by (rule io_catch_total) (rule tool_handler_total)
  show "\<exists>s. fst (send_slack_direct_message env token user_id message tr) = Inr s"
    unfolding send_slack_direct_message_def by (rule io_catch_total) (rule tool_handler_total)
  show "\<exists>s. fst (get_slack_users env token user_limit tr) = Inr s"
    unfolding get_slack_users_def by (rule io_catch_total) (rule tool_handler_total)
  show "\<exists>s. fst (search_slack_messages env token query count tr) = Inr s"
    unfolding search_slack_messages_def by (rule io_catch_total) (rule tool_handler_total)
  show "\<exists>s. fst (upload_slack_file env token channels file_path title initial_comment tr) = Inr s"
    unfolding upload_slack_file_def by (rule io_catch_total) (rule tool_handler_total)
  show "\<exists>s. fst (add_slack_reaction env token channel timestamp emoji tr) = Inr s"
    unfolding add_slack_reaction_def by (rule io_catch_total) (rule tool_handler_total)
  show "\<exists>s. fst (get_slack_thread_replies env token channel thread_ts tr) = Inr s"
    unfolding get_slack_thread_replies_def by (rule io_catch_total) (rule tool_handler_total)
  show "\<exists>s. fst (send_slack_thread_reply env token channel thread_ts message tr) = Inr s"
    unfolding send_slack_thread_reply_def by (rule io_catch_total) (rule tool_handler_total)
  show "\<exists>s. fst (test_slack_connection env token tr) = Inr s"
    unfolding test_slack_connection_def by (rule io_catch_total) (rule tool_handler_total)
qed (simp_all add: send_slack_message_def get_slack_channels_def get_slack_channel_history_def
      send_slack_direct_message_def get_slack_users_def search_slack_messages_def
      upload_slack_file_def add_slack_reaction_def get_slack_thread_replies_def
      send_slack_thread_reply_def test_slack_connection_def io_catch_bind_raised)

text \<open>
  On a network where every request times out, every tool returns its failure format around
  the network error; where every request raises some other exception, every tool that can
  meet it returns the generic failure text.
\<close>

theorem tools_always_return_text_witness:
  "fst (send_slack_message (example_env net_down (\<lambda>p. True)) (asc ''xoxb'') (asc ''#general'')
          (asc ''hello'') []) =
     Inr (send_failed @ asc ''Network error: timed out'' @ [10] @ label_channel
          @ asc ''#general'' @ [10] @ label_message @ asc ''hello'')
   \<and> fst (get_slack_channels (example_env net_down (\<lambda>p. True)) (asc ''xoxb'') []) =
     Inr (channels_failed @ asc ''Network error: timed out'')
   \<and> fst (get_slack_channel_history (example_env net_down (\<lambda>p. True)) (asc ''xoxb'')
            (asc ''C123'') 500 []) =
     Inr (history_failed @ asc ''Network error: timed out'' @ history_channel_id @ asc ''C123'')
   \<and> fst (send_slack_direct_message (example_env net_down (\<lambda>p. True)) (asc ''xoxb'')
            (asc ''U024BE7LH'') (asc ''hello'') []) =
     Inr (dm_failed @ asc ''Network error: timed out'' @ [10] @ label_user_id
          @ asc ''U024BE7LH'' @ [10] @ label_message @ asc ''hello'')
   \<and> fst (get_slack_users (example_env net_down (\<lambda>p. True)) (asc ''xoxb'') 50 []) =
     Inr (users_failed @ asc ''Network error: timed out'')
   \<and> fst (search_slack_messages (example_env net_down (\<lambda>p. True)) (asc ''xoxb'')
            (asc ''deploy'') (- 3) []) =
     Inr (search_failed @ asc ''Network error: timed out'' @ search_query @ asc ''deploy'')
   \<and> fst (upload_slack_file (example_env net_down (\<lambda>p. True)) (asc ''xoxb'') (asc ''C123'')
            (asc ''report.txt'') None None []) =
     Inr (tool_upload_failed @ upload_failed @ asc ''Slack API Error: ''
          @ asc ''Network error: timed out'' @ [10] @ label_file @ asc ''report.txt'' @ [10]
          @ label_channel @ asc ''C123'')
   \<and> fst (add_slack_reaction (example_env net_down (\<lambda>p. True)) (asc ''xoxb'') (asc ''C123'')
            (asc ''1690000000.000100'') (asc ''heart'') []) =
     Inr (reaction_failed @ asc ''Network error: timed out'' @ [10] @ label_channel
          @ asc ''C123'' @ [10] @ label_timestamp @ asc ''1690000000.000100'' @ [10]
          @ label_emoji @ asc ''heart'')
   \<and> fst (get_slack_thread_replies (example_env net_down (\<lambda>p. True)) (asc ''xoxb'')
            (asc ''C123'') (asc ''1690000000.000100'') []) =
     Inr (thread_failed @ asc ''Network error: timed out'' @ [10] @ label_channel
          @ asc ''C123'' @ thread_label @ asc ''1690000000.000100'')
   \<and> fst (send_slack_thread_reply (example_env net_down (\<lambda>p. True)) (asc ''xoxb'')
            (asc ''C123'') (asc ''1690000000.000100'') (asc ''hello'') []) =
     Inr (reply_failed @ asc ''Network error: timed out'' @ [10] @ label_channel
          @ asc ''C123'' @ thread_label @ asc ''1690000000.000100'' @ [10] @ label_reply
          @ asc ''hello'')
   \<and> fst (test_slack_connection (example_env net_down (\<lambda>p. True)) (asc ''xoxb'') []) =
     Inr (connection_failed @ asc ''Network error: timed out'' @ [10] @ check_token)
   \<and> fst (send_slack_message (example_env net_broken (\<lambda>p. True)) (asc ''xoxb'')
            (asc ''#general'') (asc ''hello'') []) = Inr (unexpected_error @ asc ''boom'')
   \<and> fst (get_slack_channels (example_env net_broken (\<lambda>p. True)) (asc ''xoxb'') []) =
     Inr (unexpected_error @ asc ''boom'')
   \<and> fst (get_slack_channel_history (example_env net_broken (\<lambda>p. True)) (asc ''xoxb'')
            (asc ''C123'') 500 []) = Inr (unexpected_error @ asc ''boom'')
   \<and> fst (send_slack_direct_message (example_env net_broken (\<lambda>p. True)) (asc ''xoxb'')
            (asc ''U024BE7LH'') (asc ''hello'') []) = Inr (unexpected_error @ asc ''boom'')
   \<and> fst (get_slack_users (example_env net_broken (\<lambda>p. True)) (asc ''xoxb'') 50 []) =
     Inr (unexpected_error @ asc ''boom'')
   \<and> fst (search_slack_messages (example_env net_broken (\<lambda>p. True)) (asc ''xoxb'')
            (asc ''deploy'') (- 3) []) = Inr (unexpected_error @ asc ''boom'')
   \<and> fst (add_slack_reaction (example_env net_broken (\<lambda>p. True)) (asc ''xoxb'') (asc ''C123'')
            (asc ''1690000000.000100'') (asc ''heart'') []) = Inr (unexpected_error @ asc ''boom'')
   \<and> fst (get_slack_thread_replies (example_env net_broken (\<lambda>p. True)) (asc ''xoxb'')
            (asc ''C123'') (asc ''1690000000.000100'') []) = Inr (unexpected_error @ asc ''boom'')
   \<and> fst (send_slack_thread_reply (example_env net_broken (\<lambda>p. True)) (asc ''xoxb'')
            (asc ''C123'') (asc ''1690000000.000100'') (asc ''hello'') []) =
     Inr (unexpected_error @ asc ''boom'')
   \<and> fst (test_slack_connection (example_env net_broken (\<lambda>p. True)) (asc ''xoxb'') []) =
     Inr (unexpected_error @ asc ''boom'')"
proof -
  note down = tools_always_return_text
    [where env = "example_env net_down (\<lambda>p. True)" and token = "asc ''xoxb''"
       and channel = "asc ''C123''" and message = "asc ''hello''" and tr = "[]"
       and channel_id = "asc ''C123''" and limit = 500 and user_id = "asc ''U024BE7LH''"
       and user_limit = 50 and query = "asc ''deploy''" and count = "- 3"
       and channels = "asc ''C123''" and file_path = "asc ''report.txt''" and title = None
       and initial_comment = None and timestamp = "asc ''1690000000.000100''"
       and emoji = "asc ''heart''" and thread_ts = "asc ''1690000000.000100''"]
  note down_general = tools_always_return_text
    [where env = "example_env net_down (\<lambda>p. True)" and token = "asc ''xoxb''"
       and channel = "asc ''#general''" and message = "asc ''hello''" and tr = "[]"]
  note broken = tools_always_return_text
    [where env = "example_env net_broken (\<lambda>p. True)" and token = "asc ''xoxb''"
       and channel = "asc ''C123''" and message = "asc ''hello''" and tr = "[]"
       and channel_id = "asc ''C123''" and limit = 500 and user_id = "asc ''U024BE7LH''"
       and user_limit = 50 and query = "asc ''deploy''" and count = "- 3"
       and timestamp = "asc ''1690000000.000100''"
       and emoji = "asc ''heart''" and thread_ts = "asc ''1690000000.000100''"]
  note broken_general = tools_always_return_text
    [where env = "example_env net_broken (\<lambda>p. True)" and token = "asc ''xoxb''"
       and channel = "asc ''#general''" and message = "asc ''hello''" and tr = "[]"]
  have h: "strip_char 58 (asc ''heart'') = asc ''heart''"
    by (simp add: strip_char_def asc_def)
  show ?thesis
    using down down_general broken broken_general
    by (simp add: client_net_down client_net_broken upload_net_down h)
qed

text \<open>
  Claim C1 as stated fails in its promise that the failure string embeds the original call
  parameters. The failure string of the user list for the limit 50 on a timed-out network
  does not contain the limit, and the generic failure string of the direct-message tool,
  here for a response without the \<open>channel\<close> key, contains neither the user ID nor the
  message.
\<close>

theorem failure_text_without_parameters_counterexample:
  "fst (get_slack_users (example_env net_down (\<lambda>p. True)) (asc ''xoxb'') 50 []) =
     Inr (users_failed @ asc ''Network error: timed out'')
   \<and> \<not> sublist (str_of_int 50) (users_failed @ asc ''Network error: timed out'')
   \<and> fst (send_slack_direct_message
            (example_env (\<lambda>tr req. reply 200 (Inr (JObj [(asc ''ok'', JBool True)]))) (\<lambda>p. True))
            (asc ''xoxb'') (asc ''U024BE7LH'') (asc ''hello'') []) =
     Inr (unexpected_error @ [39] @ asc ''channel'' @ [39])
   \<and> \<not> sublist (asc ''U024BE7LH'') (unexpected_error @ [39] @ asc ''channel'' @ [39])
   \<and> \<not> sublist (asc ''hello'') (unexpected_error @ [39] @ asc ''channel'' @ [39])"
proof -
  have u: "fst (get_slack_users (example_env net_down (\<lambda>p. True)) (asc ''xoxb'') 50 []) =
     Inr (users_failed @ asc ''Network error: timed out'')"
    by (simp add: get_slack_users_def io_catch_bind_raised client_net_down)
  have n: "\<not> sublist (str_of_int 50) (users_failed @ asc ''Network error: timed out'')"
    by (simp add: str_of_int_def str_of_nat.simps users_failed_def asc_def sublist_code)
  have d: "fst (send_slack_direct_message
            (example_env (\<lambda>tr req. reply 200 (Inr (JObj [(asc ''ok'', JBool True)]))) (\<lambda>p. True))
            (asc ''xoxb'') (asc ''U024BE7LH'') (asc ''hello'') []) =
     Inr (unexpected_error @ [39] @ asc ''channel'' @ [39])"
    by (simp add: send_slack_direct_message_def send_direct_message_def run_defs)
  have p: "\<not> sublist (asc ''U024BE7LH'') (unexpected_error @ [39] @ asc ''channel'' @ [39])"
    "\<not> sublist (asc ''hello'') (unexpected_error @ [39] @ asc ''channel'' @ [39])"
    by (simp_all add: unexpected_error_def asc_def sublist_code)
  show ?thesis using u n d p by simp
qed

section \<open>Decode errors of the request primitive\<close>

text \<open>
  Claim C2 says that a response whose body does not decode is reported as a decode error,
  "JSON decode error: ...", and the source has a handler that builds this text. The handler
  is never reached for such a body: \<open>response.json()\<close> raises
  \<open>requests.exceptions.JSONDecodeError\<close>, which is also a \<open>RequestException\<close>, and the
  handler for \<open>RequestException\<close> comes first. At a response with status 200 whose body
  does not decode, the request primitive reports a network error and not a decode error.
\<close>

theorem undecodable_body_reported_as_network_error:
  "fst (make_request
          (example_env
             (\<lambda>tr req. reply 200
                (Inl (PyExn RequestsJSONDecodeError
                        (asc ''Expecting value: line 1 column 1 (char 0)''))))
             (\<lambda>p. False))
          (asc ''xoxb'') (asc ''GET'') (asc ''auth.test'') None None []) =
     Inl (SlackAPIError
            (JStr (asc ''Network error: Expecting value: line 1 column 1 (char 0)'')) None)
   \<and> is_JSONDecodeError
         (PyExn RequestsJSONDecodeError (asc ''Expecting value: line 1 column 1 (char 0)''))
   \<and> \<not> prefix (asc ''JSON decode error: '')
         (asc ''Network error: Expecting value: line 1 column 1 (char 0)'')"
  by (simp add: run_defs)

section \<open>Channel history without noise entries\<close>

text \<open>
  Claim C3, as amended. Whenever \<open>get_channel_history\<close> returns a list, the response was
  an object whose \<open>messages\<close> are objects, and the list returned is, in order, the messages
  built from exactly those entries whose \<open>subtype\<close> is none of \<open>bot_message\<close>,
  \<open>channel_join\<close> and \<open>channel_leave\<close>. No entry with one of these three subtypes
  contributes a message; an entry with any other subtype, or with none, does.
\<close>

theorem history_excludes_noise:
  assumes "get_channel_history env token channel_id limit oldest latest tr = (Inr messages, tr')"
  shows "\<exists>kvs entries.
           make_request env token (asc ''GET'') (asc ''conversations.history'') None
             (Some ([(asc ''channel'', JStr channel_id), (asc ''limit'', JInt (min limit 100))]
                    @ optional_param (asc ''oldest'') oldest
                    @ optional_param (asc ''latest'') latest)) tr = (Inr (JObj kvs), tr')
         \<and> py_iter (lookup kvs (asc ''messages'') (JList [])) = Inr (map JObj entries)
         \<and> messages =
             map (\<lambda>d. \<lparr>m_text = lookup d (asc ''text'') (JStr []),
                        m_user = lookup d (asc ''user'') (JStr []),
                        m_timestamp = lookup d (asc ''ts'') (JStr []),
                        m_channel = channel_id, m_user_name = JNull,
                        m_thread_ts = lookup d (asc ''thread_ts'') JNull\<rparr>)
               (filter (\<lambda>d. lookup d (asc ''subtype'') JNull \<notin> set noise_subtypes) entries)"
proof -
  from get_channel_history_Inr [OF assms] obtain kvs items where
    r: "make_request env token (asc ''GET'') (asc ''conversations.history'') None
             (Some ([(asc ''channel'', JStr channel_id), (asc ''limit'', JInt (min limit 100))]
                    @ optional_param (asc ''oldest'') oldest
                    @ optional_param (asc ''latest'') latest)) tr = (Inr (JObj kvs), tr')"
    and i: "py_iter (lookup kvs (asc ''messages'') (JList [])) = Inr items"
    and f: "for_each (history_message channel_id) items = Inr messages"
    by blast
  from f obtain entries where e: "items = map JObj entries"
    using for_each_history_message_Inr by blast
  from f e have "messages =
             map (\<lambda>d. \<lparr>m_text = lookup d (asc ''text'') (JStr []),
                        m_user = lookup d (asc ''user'') (JStr []),
                        m_timestamp = lookup d (asc ''ts'') (JStr []),
                        m_channel = channel_id, m_user_name = JNull,
                        m_thread_ts = lookup d (asc ''thread_ts'') JNull\<rparr>)
               (filter (\<lambda>d. lookup d (asc ''subtype'') JNull \<notin> set noise_subtypes) entries)"
    by (simp add: for_each_history_message)
  with r i e show ?thesis by blast
qed

text \<open>
  On the mixed example response the two ordinary messages are returned and the three noise
  entries are not.
\<close>

theorem history_excludes_noise_witness:
  "\<exists>kvs entries.
     make_request (example_env (\<lambda>tr req. reply 200 (Inr history_response)) (\<lambda>p. False))
       (asc ''xoxb'') (asc ''GET'') (asc ''conversations.history'') None
       (Some ([(asc ''channel'', JStr (asc ''C123'')), (asc ''limit'', JInt (min 10 100))]
              @ optional_param (asc ''oldest'') None @ optional_param (asc ''latest'') None)) []
       = (Inr (JObj kvs),
          [HttpGet (BASE_URL @ asc ''/'' @ asc ''conversations.history'') (headers (asc ''xoxb''))
             (Some [(asc ''channel'', JStr (asc ''C123'')), (asc ''limit'', JInt 10)])])
   \<and> py_iter (lookup kvs (asc ''messages'') (JList [])) = Inr (map JObj entries)
   \<and> [\<lparr>m_text = JStr (asc ''hello''), m_user = JStr (asc ''U1''),
         m_timestamp = JStr (asc ''1690000000.000100''), m_channel = asc ''C123'',
         m_user_name = JNull, m_thread_ts = JNull\<rparr>,
       \<lparr>m_text = JStr (asc ''bye''), m_user = JStr (asc ''U1''),
         m_timestamp = JStr (asc ''1690000004.000100''), m_channel = asc ''C123'',
         m_user_name = JNull, m_thread_ts = JStr (asc ''1690000000.000100'')\<rparr>] =
       map (\<lambda>d. \<lparr>m_text = lookup d (asc ''text'') (JStr []),
                  m_user = lookup d (asc ''user'') (JStr []),
                  m_timestamp = lookup d (asc ''ts'') (JStr []),
                  m_channel = asc ''C123'', m_user_name = JNull,
                  m_thread_ts = lookup d (asc ''thread_ts'') JNull\<rparr>)
         (filter (\<lambda>d. lookup d (asc ''subtype'') JNull \<notin> set noise_subtypes) entries)"
  by (rule history_excludes_noise [OF history_example])

text \<open>
  Claim C3 as stated fails: it speaks of bot, system, join and leave noise, and the entries
  with the subtypes \<open>group_join\<close>, \<open>group_leave\<close>, \<open>channel_topic\<close> and \<open>bot_add\<close> are
  all returned.
\<close>

theorem other_noise_subtypes_counterexample:
  "get_channel_history (example_env (\<lambda>tr req. reply 200 (Inr other_noise_response)) (\<lambda>p. False))
     (asc ''xoxb'') (asc ''G123'') 10 None None [] =
   (Inr [\<lparr>m_text = JStr [], m_user = JStr (asc ''U2''),
           m_timestamp = JStr (asc ''1690000001.000100''), m_channel = asc ''G123'',
           m_user_name = JNull, m_thread_ts = JNull\<rparr>,
         \<lparr>m_text = JStr [], m_user = JStr (asc ''U2''),
           m_timestamp = JStr (asc ''1690000002.000100''), m_channel = asc ''G123'',
           m_user_name = JNull, m_thread_ts = JNull\<rparr>,
         \<lparr>m_text = JStr [], m_user = JStr (asc ''U1''),
           m_timestamp = JStr (asc ''1690000003.000100''), m_channel = asc ''G123'',
           m_user_name = JNull, m_thread_ts = JNull\<rparr>,
         \<lparr>m_text = JStr [], m_user = JStr (asc ''U1''),
           m_timestamp = JStr (asc ''1690000004.000100''), m_channel = asc ''G123'',
           m_user_name = JNull, m_thread_ts = JNull\<rparr>],
    [HttpGet (BASE_URL @ asc ''/'' @ asc ''conversations.history'') (headers (asc ''xoxb''))
       (Some [(asc ''channel'', JStr (asc ''G123'')), (asc ''limit'', JInt 10)])])"
  by (simp add: get_channel_history_def history_message_def noise_subtypes_def
      other_noise_response_def run_defs)


section \<open>Thread replies: the parent comes first and the tool leaves it out\<close>

text \<open>
  Claim C4. When the thread response is an object whose \<open>messages\<close> are the objects
  \<open>parent # later\<close>, the client returns the messages built from all of them in order, the
  parent as element 0. The tool then counts and lists exactly the messages built from
  \<open>later\<close>, in order (or says that there are no replies when \<open>later\<close> is empty); the
  parent is not in its listing. The two formatting helpers are assumed not to raise.
\<close>

theorem thread_parent_first_and_excluded:
  assumes "make_request env token (asc ''GET'') (asc ''conversations.replies'') None
             (Some [(asc ''channel'', JStr channel), (asc ''ts'', JStr thread_ts)]) tr
           = (Inr (JObj kvs), tr')"
    and "lookup kvs (asc ''messages'') (JList []) = JList (map JObj (parent # later))"
    and "format_timestamp env (JStr thread_ts) = Inr ts"
    and "format_message_list env
           (map (\<lambda>d. \<lparr>m_text = lookup d (asc ''text'') (JStr []),
                       m_user = lookup d (asc ''user'') (JStr (asc ''unknown'')),
                       m_timestamp = lookup d (asc ''ts'') (JStr []),
                       m_channel = channel, m_user_name = JNull,
                       m_thread_ts = lookup d (asc ''thread_ts'') JNull\<rparr>) later)
         = Inr listing"
  shows "get_thread_replies env token channel thread_ts tr =
           (Inr (map (\<lambda>d. \<lparr>m_text = lookup d (asc ''text'') (JStr []),
                             m_user = lookup d (asc ''user'') (JStr (asc ''unknown'')),
                             m_timestamp = lookup d (asc ''ts'') (JStr []),
                             m_channel = channel, m_user_name = JNull,
                             m_thread_ts = lookup d (asc ''thread_ts'') JNull\<rparr>)
                   (parent # later)), tr')
       \<and> get_slack_thread_replies env token channel thread_ts tr =
           (Inr (thread_head @ str_of_nat (length later) @ count_close @ thread_original
                 @ py_str env ts @ [10, 10]
                 @ (if later = [] then thread_no_replies else listing)), tr')"
proof -
  note r = get_thread_replies_returns [OF assms(1) assms(2)]
  have "get_slack_thread_replies env token channel thread_ts tr =
           (Inr (thread_head @ str_of_nat (length later) @ count_close @ thread_original
                 @ py_str env ts @ [10, 10]
                 @ (if later = [] then thread_no_replies else listing)), tr')"
    using assms(3) assms(4)
    by (simp add: get_slack_thread_replies_def io_catch_def io_bind_def r)
  with r show ?thesis by simp
qed

text \<open>
  On the example thread the client returns three messages, the parent first, and the tool
  lists the two replies only.
\<close>

theorem thread_parent_first_and_excluded_witness:
  "get_thread_replies (example_env (\<lambda>tr req. reply 200 (Inr thread_response)) (\<lambda>p. False))
     (asc ''xoxb'') (asc ''C123'') (asc ''1690000000.000100'') [] =
     (Inr [\<lparr>m_text = JStr (asc ''question''), m_user = JStr (asc ''U1''),
             m_timestamp = JStr (asc ''1690000000.000100''), m_channel = asc ''C123'',
             m_user_name = JNull, m_thread_ts = JStr (asc ''1690000000.000100'')\<rparr>,
           \<lparr>m_text = JStr (asc ''first answer''), m_user = JStr (asc ''U2''),
             m_timestamp = JStr (asc ''1690000001.000100''), m_channel = asc ''C123'',
             m_user_name = JNull, m_thread_ts = JStr (asc ''1690000000.000100'')\<rparr>,
           \<lparr>m_text = JStr (asc ''second answer''), m_user = JStr (asc ''unknown''),
             m_timestamp = JStr (asc ''1690000002.000100''), m_channel = asc ''C123'',
             m_user_name = JNull, m_thread_ts = JStr (asc ''1690000000.000100'')\<rparr>],
      [HttpGet (BASE_URL @ asc ''/'' @ asc ''conversations.replies'') (headers (asc ''xoxb''))
         (Some [(asc ''channel'', JStr (asc ''C123'')),
                (asc ''ts'', JStr (asc ''1690000000.000100''))])])
   \<and> get_slack_thread_replies
       (example_env (\<lambda>tr req. reply 200 (Inr thread_response)) (\<lambda>p. False))
       (asc ''xoxb'') (asc ''C123'') (asc ''1690000000.000100'') [] =
     (Inr (thread_head @ asc ''2'' @ count_close @ thread_original
           @ asc ''1690000000.000100'' @ [10, 10]
           @ [91] @ asc ''1690000001.000100'' @ asc ''] '' @ asc ''U2'' @ asc '': ''
           @ asc ''first answer'' @ thread_reply_mark @ timestamp_arrow
           @ asc ''1690000001.000100'' @ [10]
           @ [91] @ asc ''1690000002.000100'' @ asc ''] '' @ asc ''unknown'' @ asc '': ''
           @ asc ''second answer'' @ thread_reply_mark @ timestamp_arrow
           @ asc ''1690000002.000100''),
      [HttpGet (BASE_URL @ asc ''/'' @ asc ''conversations.replies'') (headers (asc ''xoxb''))
         (Some [(asc ''channel'', JStr (asc ''C123'')),
                (asc ''ts'', JStr (asc ''1690000000.000100''))])])"
proof -
  let ?env = "example_env (\<lambda>tr req. reply 200 (Inr thread_response)) (\<lambda>p. False)"
  let ?mk = "\<lambda>d. \<lparr>m_text = lookup d (asc ''text'') (JStr []),
                   m_user = lookup d (asc ''user'') (JStr (asc ''unknown'')),
                   m_timestamp = lookup d (asc ''ts'') (JStr []),
                   m_channel = asc ''C123'', m_user_name = JNull,
                   m_thread_ts = lookup d (asc ''thread_ts'') JNull\<rparr>"
  let ?kvs = "[(asc ''ok'', JBool True),
               (asc ''messages'', JList (map JObj (thread_parent # thread_later)))]"
  let ?listing = "[91] @ asc ''1690000001.000100'' @ asc ''] '' @ asc ''U2'' @ asc '': ''
           @ asc ''first answer'' @ thread_reply_mark @ timestamp_arrow
           @ asc ''1690000001.000100'' @ [10]
           @ [91] @ asc ''1690000002.000100'' @ asc ''] '' @ asc ''unknown'' @ asc '': ''
           @ asc ''second answer'' @ thread_reply_mark @ timestamp_arrow
           @ asc ''1690000002.000100''"
  have a: "make_request ?env (asc ''xoxb'') (asc ''GET'') (asc ''conversations.replies'') None
             (Some [(asc ''channel'', JStr (asc ''C123'')),
                    (asc ''ts'', JStr (asc ''1690000000.000100''))]) []
           = (Inr (JObj ?kvs),
              [HttpGet (BASE_URL @ asc ''/'' @ asc ''conversations.replies'')
                 (headers (asc ''xoxb''))
                 (Some [(asc ''channel'', JStr (asc ''C123'')),
                        (asc ''ts'', JStr (asc ''1690000000.000100''))])])"
    by (simp add: thread_response_def run_defs)
  have b: "lookup ?kvs (asc ''messages'') (JList []) = JList (map JObj (thread_parent # thread_later))"
    by (simp add: lookup_def asc_def)
  have c: "format_timestamp ?env (JStr (asc ''1690000000.000100'')) = Inr (JStr (asc ''1690000000.000100''))"
    by simp
  have d: "format_message_list ?env (map ?mk thread_later) = Inr ?listing"
    by (simp add: format_message_list_def format_message_def thread_later_def lookup_def asc_def)
  show ?thesis
    using thread_parent_first_and_excluded [OF a b c d]
    by (simp add: thread_parent_def thread_later_def lookup_def asc_def str_of_nat.simps)
qed

section \<open>Upload of a missing file\<close>

text \<open>
  Claim C8. When the local path does not exist, the upload tool returns at once: the list of
  issued requests is unchanged and the string returned is the "file not found" failure
  followed by the path. The client's own \<open>upload_file\<close> checks the same before its first
  request.
\<close>

theorem missing_file_aborts_before_network:
  assumes "\<not> path_exists env file_path"
  shows "upload_slack_file env token channels file_path title initial_comment tr =
           (Inr (tool_file_not_found @ file_path), tr)
       \<and> sublist file_path (tool_file_not_found @ file_path)
       \<and> upload_file env token channel_list file_path title initial_comment tr =
           (Inl (SlackAPIError (JStr (file_not_found @ file_path)) None), tr)"
  using assms by (simp add: upload_slack_file_def upload_file_def io_catch_def)

theorem missing_file_aborts_before_network_witness:
  "upload_slack_file (example_env (\<lambda>tr req. reply 200 (Inr JNull)) (\<lambda>p. False)) (asc ''xoxb'')
     (asc ''C123'') (asc ''/tmp/report.txt'') None None [] =
     (Inr (tool_file_not_found @ asc ''/tmp/report.txt''), [])
   \<and> sublist (asc ''/tmp/report.txt'') (tool_file_not_found @ asc ''/tmp/report.txt'')
   \<and> upload_file (example_env (\<lambda>tr req. reply 200 (Inr JNull)) (\<lambda>p. False)) (asc ''xoxb'')
       (JList [JStr (asc ''C123'')]) (asc ''/tmp/report.txt'') None None [] =
     (Inl (SlackAPIError (JStr (file_not_found @ asc ''/tmp/report.txt'')) None), [])"
proof -
  have a: "\<not> path_exists (example_env (\<lambda>tr req. reply 200 (Inr JNull)) (\<lambda>p. False))
               (asc ''/tmp/report.txt'')"
    by (simp add: example_env_def)
  show ?thesis
    by (rule missing_file_aborts_before_network [OF a])
qed

section \<open>Remediation text for a missing scope\<close>

text \<open>
  Claim C6, as amended. Let the remote service answer the list-channels or the
  channel-history request with \<open>ok\<close> false and an error value. When the text of the error
  contains \<open>missing_scope\<close>, as the tag \<open>missing_scope\<close> itself does, the client raises a
  \<open>SlackAPIError\<close> whose text is the remediation message of the operation, which names the
  scope \<open>channels:read\<close> or \<open>channels:history\<close>, and the tool's failure string carries that
  message in place of the tag. When the text of the error does not contain \<open>missing_scope\<close>,
  the client raises the error unchanged and the tool's failure string carries the raw tag.
  The remediation messages do not contain \<open>missing_scope\<close>, so the two renderings of an
  error are never the same string.
\<close>

theorem missing_scope_rewritten_other_tags_raw:
  assumes "\<not> (400 \<le> status_code r \<and> status_code r < 600)"
    and "resp_json r = Inr (JObj kvs)"
    and "\<not> truthy (lookup kvs (asc ''ok'') (JBool False))"
    and "respond env tr
           (HttpGet (BASE_URL @ asc ''/'' @ asc ''conversations.list'') (headers token)
              (Some [(asc ''types'', JStr (asc ''public_channel'')),
                     (asc ''exclude_archived'', JBool True),
                     (asc ''limit'', JInt 1000)])) = Replied r"
    and "respond env tr
           (HttpGet (BASE_URL @ asc ''/'' @ asc ''conversations.history'') (headers token)
              (Some [(asc ''channel'', JStr channel_id),
                     (asc ''limit'', JInt (max 1 (min limit 100)))])) = Replied r"
  shows "fst (get_channels env token True tr) =
           Inl (if sublist (asc ''missing_scope'')
                     (py_str env (lookup kvs (asc ''error'') (JStr (asc ''Unknown error''))))
                then SlackAPIError (JStr guidance_channels) None
                else SlackAPIError (lookup kvs (asc ''error'') (JStr (asc ''Unknown error'')))
                       (Some (JObj kvs)))
       \<and> fst (get_slack_channels env token tr) =
           Inr (channels_failed
                @ (if sublist (asc ''missing_scope'')
                        (py_str env (lookup kvs (asc ''error'') (JStr (asc ''Unknown error''))))
                   then guidance_channels
                   else py_str env (lookup kvs (asc ''error'') (JStr (asc ''Unknown error'')))))
       \<and> fst (get_channel_history env token channel_id (max 1 (min limit 100)) None None tr) =
           Inl (if sublist (asc ''missing_scope'')
                     (py_str env (lookup kvs (asc ''error'') (JStr (asc ''Unknown error''))))
                then SlackAPIError (JStr guidance_history) None
                else SlackAPIError (lookup kvs (asc ''error'') (JStr (asc ''Unknown error'')))
                       (Some (JObj kvs)))
       \<and> fst (get_slack_channel_history env token channel_id limit tr) =
           Inr (history_failed
                @ (if sublist (asc ''missing_scope'')
                        (py_str env (lookup kvs (asc ''error'') (JStr (asc ''Unknown error''))))
                   then guidance_history
                   else py_str env (lookup kvs (asc ''error'') (JStr (asc ''Unknown error''))))
                @ history_channel_id @ channel_id)
       \<and> sublist (asc ''missing_scope'') (py_str env (JStr (asc ''missing_scope'')))
       \<and> sublist ([39] @ asc ''channels:read'' @ [39]) guidance_channels
       \<and> sublist ([39] @ asc ''channels:history'' @ [39]) guidance_history
       \<and> \<not> sublist (asc ''missing_scope'') guidance_channels
       \<and> \<not> sublist (asc ''missing_scope'') guidance_history"
proof -
  let ?err = "lookup kvs (asc ''error'') (JStr (asc ''Unknown error''))"
  note c = get_channels_remote_error [OF assms(4) assms(1-3)]
  have "min (max 1 (min limit 100)) 100 = max 1 (min limit 100)" by simp
  with assms(5) have r5: "respond env tr
           (HttpGet (BASE_URL @ asc ''/'' @ asc ''conversations.history'') (headers token)
              (Some ([(asc ''channel'', JStr channel_id),
                     (asc ''limit'', JInt (min (max 1 (min limit 100)) 100))]
                  @ optional_param (asc ''oldest'') None
                  @ optional_param (asc ''latest'') None))) = Replied r"
    by (simp add: optional_param_def)
  note h = get_channel_history_remote_error [OF r5 assms(1-3)]
  have tc: "fst (get_slack_channels env token tr) =
           Inr (channels_failed
                @ (if sublist (asc ''missing_scope'') (py_str env ?err)
                   then guidance_channels else py_str env ?err))"
    using c by (simp add: get_slack_channels_def io_catch_def io_bind_def)
  have th: "fst (get_slack_channel_history env token channel_id limit tr) =
           Inr (history_failed
                @ (if sublist (asc ''missing_scope'') (py_str env ?err)
                   then guidance_history else py_str env ?err)
                @ history_channel_id @ channel_id)"
    using h by (simp add: get_slack_channel_history_def io_catch_def io_bind_def)
  show ?thesis
    using c h tc th guidance_names_scope guidance_without_tag by simp
qed

text \<open>
  For the tag \<open>missing_scope\<close> both tools show the remediation message; for the tag
  \<open>channel_not_found\<close> both show the tag.
\<close>

theorem missing_scope_rewritten_other_tags_raw_witness:
  "fst (get_channels
          (example_env (\<lambda>tr req. reply 200 (Inr (remote_error_response (asc ''missing_scope''))))
             (\<lambda>p. False)) (asc ''xoxb'') True []) =
     Inl (SlackAPIError (JStr guidance_channels) None)
   \<and> fst (get_slack_channels
          (example_env (\<lambda>tr req. reply 200 (Inr (remote_error_response (asc ''missing_scope''))))
             (\<lambda>p. False)) (asc ''xoxb'') []) =
     Inr (channels_failed @ guidance_channels)
   \<and> fst (get_slack_channel_history
          (example_env (\<lambda>tr req. reply 200 (Inr (remote_error_response (asc ''missing_scope''))))
             (\<lambda>p. False)) (asc ''xoxb'') (asc ''C123'') 500 []) =
     Inr (history_failed @ guidance_history @ history_channel_id @ asc ''C123'')
   \<and> fst (get_channels
          (example_env (\<lambda>tr req. reply 200 (Inr (remote_error_response (asc ''channel_not_found''))))
             (\<lambda>p. False)) (asc ''xoxb'') True []) =
     Inl (SlackAPIError (JStr (asc ''channel_not_found''))
            (Some (JObj [(asc ''ok'', JBool False),
                         (asc ''error'', JStr (asc ''channel_not_found''))])))
   \<and> fst (get_slack_channels
          (example_env (\<lambda>tr req. reply 200 (Inr (remote_error_response (asc ''channel_not_found''))))
             (\<lambda>p. False)) (asc ''xoxb'') []) =
     Inr (channels_failed @ asc ''channel_not_found'')
   \<and> fst (get_slack_channel_history
          (example_env (\<lambda>tr req. reply 200 (Inr (remote_error_response (asc ''channel_not_found''))))
             (\<lambda>p. False)) (asc ''xoxb'') (asc ''C123'') 500 []) =
     Inr (history_failed @ asc ''channel_not_found'' @ history_channel_id @ asc ''C123'')"
proof -
  note scope = missing_scope_rewritten_other_tags_raw
      [where env = "example_env (\<lambda>tr req. reply 200 (Inr (remote_error_response (asc ''missing_scope''))))
             (\<lambda>p. False)" and token = "asc ''xoxb''" and tr = "[]" and channel_id = "asc ''C123''"
         and limit = 500,
       OF remote_error_example(1) remote_error_example(2) remote_error_example(3)
          remote_error_example(4) remote_error_example(4)]
  note other = missing_scope_rewritten_other_tags_raw
      [where env = "example_env (\<lambda>tr req. reply 200 (Inr (remote_error_response (asc ''channel_not_found''))))
             (\<lambda>p. False)" and token = "asc ''xoxb''" and tr = "[]" and channel_id = "asc ''C123''"
         and limit = 500,
       OF remote_error_example(1) remote_error_example(2) remote_error_example(3)
          remote_error_example(4) remote_error_example(4)]
  show ?thesis
    using scope other by (simp add: remote_error_example(5) tag_examples)
qed

text \<open>
  Claim C6 as stated fails in its last part, that every other error tag is rendered raw:
  the tag \<open>missing_scope_for_team\<close> is another tag, and the tool shows the remediation
  message for it, not the tag.
\<close>

theorem tag_containing_missing_scope_counterexample:
  "asc ''missing_scope_for_team'' \<noteq> asc ''missing_scope''
   \<and> fst (get_slack_channels
          (example_env (\<lambda>tr req. reply 200 (Inr (remote_error_response (asc ''missing_scope_for_team''))))
             (\<lambda>p. False)) (asc ''xoxb'') []) =
     Inr (channels_failed @ guidance_channels)
   \<and> channels_failed @ guidance_channels \<noteq> channels_failed @ asc ''missing_scope_for_team''"
proof -
  have c: "get_channels
          (example_env (\<lambda>tr req. reply 200 (Inr (remote_error_response (asc ''missing_scope_for_team''))))
             (\<lambda>p. False)) (asc ''xoxb'') True [] =
     (Inl (SlackAPIError (JStr guidance_channels) None),
      [HttpGet (BASE_URL @ asc ''/'' @ asc ''conversations.list'') (headers (asc ''xoxb''))
         (Some [(asc ''types'', JStr (asc ''public_channel'')),
                (asc ''exclude_archived'', JBool True),
                (asc ''limit'', JInt 1000)])])"
    using get_channels_remote_error
      [where env = "example_env (\<lambda>tr req. reply 200 (Inr (remote_error_response (asc ''missing_scope_for_team''))))
             (\<lambda>p. False)" and tr = "[]" and token = "asc ''xoxb''" and exclude_archived = True,
       OF remote_error_example(4) remote_error_example(1) remote_error_example(2)
          remote_error_example(3)]
    by (simp add: remote_error_example(5) tag_examples)
  have t: "fst (get_slack_channels
          (example_env (\<lambda>tr req. reply 200 (Inr (remote_error_response (asc ''missing_scope_for_team''))))
             (\<lambda>p. False)) (asc ''xoxb'') []) =
     Inr (channels_failed @ guidance_channels)"
    using c by (simp add: get_slack_channels_def io_catch_def io_bind_def)
  have n: "guidance_channels \<noteq> asc ''missing_scope_for_team''"
    by (simp add: guidance_channels_def asc_def)
  show ?thesis using t n tag_examples by simp
qed

section \<open>The emoji name of a reaction\<close>

text \<open>
  Claim C7, as amended. The client's \<open>add_reaction\<close> puts the name it is given into the
  request unchanged. The tool \<open>add_slack_reaction\<close> first strips every leading and trailing
  colon, so the name in the request is \<open>emoji.strip(':')\<close>; that is the emoji as given
  exactly when it is empty or neither starts nor ends with a colon.
\<close>

theorem emoji_stripped_by_tool:
  "snd (add_reaction env token channel timestamp name tr) =
     tr @ [HttpPostJson (BASE_URL @ asc ''/'' @ asc ''reactions.add'') (headers token)
             (Some (JObj [(asc ''channel'', JStr channel), (asc ''timestamp'', JStr timestamp),
                          (asc ''name'', JStr name)]))]
   \<and> snd (add_slack_reaction env token channel timestamp emoji tr) =
     tr @ [HttpPostJson (BASE_URL @ asc ''/'' @ asc ''reactions.add'') (headers token)
             (Some (JObj [(asc ''channel'', JStr channel), (asc ''timestamp'', JStr timestamp),
                          (asc ''name'', JStr (strip_char 58 emoji))]))]
   \<and> (strip_char 58 emoji = emoji \<longleftrightarrow> emoji = [] \<or> (hd emoji \<noteq> 58 \<and> last emoji \<noteq> 58))"
proof -
  have t: "snd (add_slack_reaction env token channel timestamp emoji tr) =
     tr @ [HttpPostJson (BASE_URL @ asc ''/'' @ asc ''reactions.add'') (headers token)
             (Some (JObj [(asc ''channel'', JStr channel), (asc ''timestamp'', JStr timestamp),
                          (asc ''name'', JStr (strip_char 58 emoji))]))]"
    unfolding add_slack_reaction_def
    by (subst snd_io_catch) (simp_all add: snd_add_reaction split: exn.splits)
  show ?thesis
    using t snd_add_reaction [of env token channel timestamp name tr]
      strip_char_id_iff [of 58 emoji] by simp
qed

theorem emoji_stripped_by_tool_witness:
  "snd (add_slack_reaction (example_env (\<lambda>tr req. reply 200 (Inr (JObj [(asc ''ok'', JBool True)])))
          (\<lambda>p. False)) (asc ''xoxb'') (asc ''C123'') (asc ''1690000000.000100'')
          (asc ''heart'') []) =
     [HttpPostJson (BASE_URL @ asc ''/'' @ asc ''reactions.add'') (headers (asc ''xoxb''))
        (Some (JObj [(asc ''channel'', JStr (asc ''C123'')),
                     (asc ''timestamp'', JStr (asc ''1690000000.000100'')),
                     (asc ''name'', JStr (asc ''heart''))]))]"
  using emoji_stripped_by_tool [of
      "example_env (\<lambda>tr req. reply 200 (Inr (JObj [(asc ''ok'', JBool True)]))) (\<lambda>p. False)"
      "asc ''xoxb''" "asc ''C123''" "asc ''1690000000.000100''" "asc ''heart''" "[]" "asc ''heart''"]
  by (simp add: asc_def)

text \<open>
  Claim C7 as stated fails: for the emoji \<open>:thumbsup:\<close> the request carries \<open>thumbsup\<close>.
\<close>

theorem emoji_verbatim_counterexample:
  "snd (add_slack_reaction (example_env (\<lambda>tr req. reply 200 (Inr (JObj [(asc ''ok'', JBool True)])))
          (\<lambda>p. False)) (asc ''xoxb'') (asc ''C123'') (asc ''1690000000.000100'')
          (asc '':thumbsup:'') []) =
     [HttpPostJson (BASE_URL @ asc ''/'' @ asc ''reactions.add'') (headers (asc ''xoxb''))
        (Some (JObj [(asc ''channel'', JStr (asc ''C123'')),
                     (asc ''timestamp'', JStr (asc ''1690000000.000100'')),
                     (asc ''name'', JStr (asc ''thumbsup''))]))]
   \<and> asc ''thumbsup'' \<noteq> asc '':thumbsup:''"
  by (simp add: add_slack_reaction_def add_reaction_def make_request_http io_catch_def
      io_bind_def http_def raise_for_status_def example_env_def reply_def lookup_def
      strip_char_def asc_def upper_def format_timestamp_def)

section \<open>The upload step of \<open>upload_file\<close>\<close>

text \<open>
  Claim C9, as amended. Suppose the steps before the upload succeed: the path exists, the
  channels resolve, the destination request returns an upload URL and a file handle, the
  file opens, and the upload destination replies with response \<open>r\<close>. Then the finalize
  request is issued exactly when the status of \<open>r\<close> is 200. Every other status, a 2xx
  status other than 200 included, ends the sequence after the upload request with a
  \<open>SlackAPIError\<close> that names the status.
\<close>

theorem upload_accepts_status_200_only:
  assumes "path_exists env file_path"
    and "resolve_channels env token channels tr = (Inr resolved, tr1)"
    and "getsize env file_path = Inr file_size"
    and "make_request env token (asc ''GET'') (asc ''files.getUploadURLExternal'') None
           (Some [(asc ''filename'', JStr (basename env file_path)),
                  (asc ''length'', JInt file_size)]) tr1 = (Inr upload_result, tr2)"
    and "subscript upload_result (asc ''upload_url'') = Inr upload_url"
    and "subscript upload_result (asc ''file_id'') = Inr file_id"
    and "open_rb env file_path = Inr f"
    and "respond env tr2 (HttpPostFiles upload_url (basename env file_path) f) = Replied r"
    and "(case resolved of JStr s \<Rightarrow> Inr resolved | v \<Rightarrow> subscript0 resolved) = Inr channel_id"
  shows "snd (upload_file env token channels file_path title initial_comment tr) =
           tr2 @ [HttpPostFiles upload_url (basename env file_path) f]
           @ (if status_code r = 200
              then [HttpPostJson (BASE_URL @ asc ''/'' @ asc ''files.completeUploadExternal'')
                      (headers token)
                      (Some (JObj
                         ([(asc ''files'',
                            JList [JObj [(asc ''id'', file_id),
                                         (asc ''title'',
                                          JStr (title_or title (basename env file_path)))]]),
                           (asc ''channel_id'', channel_id)]
                          @ optional_param (asc ''initial_comment'') initial_comment)))]
              else [])
       \<and> (status_code r \<noteq> 200 \<longrightarrow>
            fst (upload_file env token channels file_path title initial_comment tr) =
              Inl (SlackAPIError
                     (JStr (upload_failed @ asc ''Slack API Error: '' @ upload_failed_http
                            @ str_of_int (status_code r))) None))"
proof (cases "status_code r = 200")
  case True
  let ?fin = "make_request env token (asc ''POST'') (asc ''files.completeUploadExternal'')
                (Some (JObj
                   ([(asc ''files'',
                      JList [JObj [(asc ''id'', file_id),
                                   (asc ''title'',
                                    JStr (title_or title (basename env file_path)))]]),
                     (asc ''channel_id'', channel_id)]
                    @ optional_param (asc ''initial_comment'') initial_comment)))
                None (tr2 @ [HttpPostFiles upload_url (basename env file_path) f])"
  obtain res tr3 where fin: "?fin = (res, tr3)" by (cases ?fin)
  then have "snd ?fin = tr3" by simp
  then have tr3: "tr3 = tr2 @ [HttpPostFiles upload_url (basename env file_path) f,
              HttpPostJson (BASE_URL @ asc ''/'' @ asc ''files.completeUploadExternal'')
                      (headers token)
                      (Some (JObj
                         ([(asc ''files'',
                            JList [JObj [(asc ''id'', file_id),
                                         (asc ''title'',
                                          JStr (title_or title (basename env file_path)))]]),
                           (asc ''channel_id'', channel_id)]
                          @ optional_param (asc ''initial_comment'') initial_comment)))]"
    by simp
  from assms True fin tr3 show ?thesis
    by (cases res) (simp_all add: upload_file_def io_catch_def io_bind_def http_def)
next
  case False
  with assms show ?thesis
    by (simp add: upload_file_def io_catch_def io_bind_def http_def)
qed

text \<open>
  With status 200 the three requests are issued, the finalize request last; with status 500
  the operation fails and names the status.
\<close>

theorem upload_accepts_status_200_only_witness:
  "snd (upload_file (example_env (upload_net 200) (\<lambda>p. True)) (asc ''xoxb'')
          (JStr (asc ''C123'')) (asc ''report.txt'') None None []) =
     [HttpGet (BASE_URL @ asc ''/'' @ asc ''files.getUploadURLExternal'') (headers (asc ''xoxb''))
        (Some [(asc ''filename'', JStr (asc ''report.txt'')), (asc ''length'', JInt 3)]),
      HttpPostFiles (JStr (asc ''https://files.slack.com/upload/v1/abc'')) (asc ''report.txt'')
        [104, 105, 10],
      HttpPostJson (BASE_URL @ asc ''/'' @ asc ''files.completeUploadExternal'')
        (headers (asc ''xoxb''))
        (Some (JObj [(asc ''files'',
                      JList [JObj [(asc ''id'', JStr (asc ''F123'')),
                                   (asc ''title'', JStr (asc ''report.txt''))]]),
                     (asc ''channel_id'', JStr (asc ''C123''))]))]
   \<and> fst (upload_file (example_env (upload_net 500) (\<lambda>p. True)) (asc ''xoxb'')
            (JStr (asc ''C123'')) (asc ''report.txt'') None None []) =
       Inl (SlackAPIError
              (JStr (upload_failed @ asc ''Slack API Error: '' @ upload_failed_http @ asc ''500''))
              None)"
proof -
  note ok = upload_accepts_status_200_only
      [where env = "example_env (upload_net 200) (\<lambda>p. True)" and title = None
         and initial_comment = None, OF upload_example_steps]
  note bad = upload_accepts_status_200_only
      [where env = "example_env (upload_net 500) (\<lambda>p. True)" and title = None
         and initial_comment = None, OF upload_example_steps]
  have b: "basename (example_env (upload_net 200) (\<lambda>p. True)) (asc ''report.txt'') = asc ''report.txt''"
    by (simp add: example_env_def)
  have s: "str_of_int 500 = asc ''500''"
    by (simp add: str_of_int_def str_of_nat.simps asc_def)
  show ?thesis
    using ok bad b s by (simp add: title_or_def optional_param_def)
qed

text \<open>
  Claim C9 as stated fails: the status 201 is a 2xx status, and the upload is not accepted;
  the sequence ends after the upload request with a failure.
\<close>

theorem upload_status_201_counterexample:
  "200 \<le> (201 :: int) \<and> (201 :: int) < 300
   \<and> upload_file (example_env (upload_net 201) (\<lambda>p. True)) (asc ''xoxb'')
       (JStr (asc ''C123'')) (asc ''report.txt'') None None [] =
     (Inl (SlackAPIError
             (JStr (upload_failed @ asc ''Slack API Error: '' @ upload_failed_http @ asc ''201''))
             None),
      [HttpGet (BASE_URL @ asc ''/'' @ asc ''files.getUploadURLExternal'') (headers (asc ''xoxb''))
         (Some [(asc ''filename'', JStr (asc ''report.txt'')), (asc ''length'', JInt 3)]),
       HttpPostFiles (JStr (asc ''https://files.slack.com/upload/v1/abc'')) (asc ''report.txt'')
         [104, 105, 10]])"
proof -
  have s: "str_of_int 201 = asc ''201''"
    by (simp add: str_of_int_def str_of_nat.simps asc_def)
  have e: "upload_file (example_env (upload_net 201) (\<lambda>p. True)) (asc ''xoxb'')
       (JStr (asc ''C123'')) (asc ''report.txt'') None None [] =
     (Inl (SlackAPIError
             (JStr (upload_failed @ asc ''Slack API Error: '' @ upload_failed_http
                    @ str_of_int 201)) None),
      [HttpGet (BASE_URL @ asc ''/'' @ asc ''files.getUploadURLExternal'') (headers (asc ''xoxb''))
         (Some [(asc ''filename'', JStr (asc ''report.txt'')), (asc ''length'', JInt 3)]),
       HttpPostFiles (JStr (asc ''https://files.slack.com/upload/v1/abc'')) (asc ''report.txt'')
         [104, 105, 10]])"
    by (simp add: upload_file_def resolve_channels_def startswith_def upload_net_def run_defs)
  show ?thesis using e s by simp
qed

section \<open>A user ID as upload target\<close>

text \<open>
  Claim C10. When the \<open>channels\<close> argument of the upload tool starts with \<open>U\<close> and has no
  comma, the tool passes it to the client as a bare string. The client, for a string that
  does not start with \<open>C\<close>, lists the channels and takes the first one whose name is
  exactly that string. Let the file exist and the listing succeed; the listing is then the
  one request issued so far. When no channel has that name, or the one found has an empty
  ID, the client raises the wrapped "channel not found" error and the tool returns the
  upload failure string with that error, the path and the target. When a channel with that
  name is found and its ID is a string that starts with \<open>C\<close> (or is not a string), the
  operation does not fail there: it goes on exactly as an upload to that ID.
\<close>

theorem user_id_target_resolved_as_channel_name:
  assumes "startswith 85 channels" and "44 \<notin> set channels"
    and "path_exists env file_path"
    and "get_channels env token True tr = (Inr channel_list, tr')"
  shows "channel_param channels = JStr channels
       \<and> tr' = tr @ [HttpGet (BASE_URL @ asc ''/'' @ asc ''conversations.list'') (headers token)
                       (Some [(asc ''types'', JStr (asc ''public_channel'')),
                              (asc ''exclude_archived'', JBool True),
                              (asc ''limit'', JInt 1000)])]
       \<and> (\<not> (\<exists>channel \<in> set channel_list. c_name channel = JStr channels) \<longrightarrow>
            upload_file env token (channel_param channels) file_path title initial_comment tr =
              (Inl (SlackAPIError
                      (JStr (upload_failed @ asc ''Slack API Error: '' @ channel_not_found
                             @ channels)) None), tr')
          \<and> upload_slack_file env token channels file_path title initial_comment tr =
              (Inr (tool_upload_failed @ upload_failed @ asc ''Slack API Error: ''
                    @ channel_not_found @ channels @ [10] @ label_file @ file_path @ [10]
                    @ label_channel @ channels), tr'))
       \<and> (\<forall>channel. find (\<lambda>channel. c_name channel = JStr channels) channel_list = Some channel
            \<longrightarrow>
            (if \<not> truthy (c_id channel)
             then upload_slack_file env token channels file_path title initial_comment tr =
                    (Inr (tool_upload_failed @ upload_failed @ asc ''Slack API Error: ''
                          @ channel_not_found @ channels @ [10] @ label_file @ file_path @ [10]
                          @ label_channel @ channels), tr')
             else (\<forall>cid. c_id channel = JStr cid \<longrightarrow> startswith 67 cid) \<longrightarrow>
                  upload_file env token (channel_param channels) file_path title
                    initial_comment tr =
                  upload_file env token (c_id channel) file_path title initial_comment tr'))"
proof -
  have p: "channel_param channels = JStr channels"
    using assms(1,2) by (simp add: channel_param_def)
  have t: "tr' = tr @ [HttpGet (BASE_URL @ asc ''/'' @ asc ''conversations.list'') (headers token)
                       (Some [(asc ''types'', JStr (asc ''public_channel'')),
                              (asc ''exclude_archived'', JBool True),
                              (asc ''limit'', JInt 1000)])]"
    using snd_get_channels [of env token True tr] assms(4) by simp
  note res = resolve_channels_by_name [OF startswith_U_not_C [OF assms(1)] assms(4)]
  have failing: "upload_file env token (JStr channels) file_path title initial_comment tr =
              (Inl (SlackAPIError
                      (JStr (upload_failed @ asc ''Slack API Error: '' @ channel_not_found
                             @ channels)) None), tr')
          \<and> upload_slack_file env token channels file_path title initial_comment tr =
              (Inr (tool_upload_failed @ upload_failed @ asc ''Slack API Error: ''
                    @ channel_not_found @ channels @ [10] @ label_file @ file_path @ [10]
                    @ label_channel @ channels), tr')"
    if "resolve_channels env token (JStr channels) tr =
          (Inl (SlackAPIError (JStr (channel_not_found @ channels)) None), tr')"
  proof -
    have u: "upload_file env token (JStr channels) file_path title initial_comment tr =
              (Inl (SlackAPIError
                      (JStr (upload_failed @ asc ''Slack API Error: '' @ channel_not_found
                             @ channels)) None), tr')"
      using assms(3) that by (simp add: upload_file_def io_catch_def io_bind_def)
    then show ?thesis
      using assms(3) p by (simp add: upload_slack_file_def io_catch_def io_bind_def)
  qed
  have none: "\<not> (\<exists>channel \<in> set channel_list. c_name channel = JStr channels) \<longrightarrow>
            upload_file env token (JStr channels) file_path title initial_comment tr =
              (Inl (SlackAPIError
                      (JStr (upload_failed @ asc ''Slack API Error: '' @ channel_not_found
                             @ channels)) None), tr')
          \<and> upload_slack_file env token channels file_path title initial_comment tr =
              (Inr (tool_upload_failed @ upload_failed @ asc ''Slack API Error: ''
                    @ channel_not_found @ channels @ [10] @ label_file @ file_path @ [10]
                    @ label_channel @ channels), tr')"
  proof
    assume "\<not> (\<exists>channel \<in> set channel_list. c_name channel = JStr channels)"
    then have "find (\<lambda>channel. c_name channel = JStr channels) channel_list = None"
      by (simp add: find_None_iff)
    with res show "upload_file env token (JStr channels) file_path title initial_comment tr =
              (Inl (SlackAPIError
                      (JStr (upload_failed @ asc ''Slack API Error: '' @ channel_not_found
                             @ channels)) None), tr')
          \<and> upload_slack_file env token channels file_path title initial_comment tr =
              (Inr (tool_upload_failed @ upload_failed @ asc ''Slack API Error: ''
                    @ channel_not_found @ channels @ [10] @ label_file @ file_path @ [10]
                    @ label_channel @ channels), tr')"
      by (intro failing) simp
  qed
  have some: "(if \<not> truthy (c_id channel)
             then upload_slack_file env token channels file_path title initial_comment tr =
                    (Inr (tool_upload_failed @ upload_failed @ asc ''Slack API Error: ''
                          @ channel_not_found @ channels @ [10] @ label_file @ file_path @ [10]
                          @ label_channel @ channels), tr')
             else (\<forall>cid. c_id channel = JStr cid \<longrightarrow> startswith 67 cid) \<longrightarrow>
                  upload_file env token (JStr channels) file_path title
                    initial_comment tr =
                  upload_file env token (c_id channel) file_path title initial_comment tr')"
    if f: "find (\<lambda>channel. c_name channel = JStr channels) channel_list = Some channel"
    for channel
  proof (cases "truthy (c_id channel)")
    case False
    with res f have "resolve_channels env token (JStr channels) tr =
          (Inl (SlackAPIError (JStr (channel_not_found @ channels)) None), tr')"
      by simp
    from failing [OF this] False show ?thesis by simp
  next
    case True
    with res f have r: "resolve_channels env token (JStr channels) tr = (Inr (c_id channel), tr')"
      by simp
    show ?thesis
      using True upload_file_after_resolve [OF assms(3) r] by simp
  qed
  show ?thesis
    using p t none some by simp
qed

text \<open>
  With the channels \<open>general\<close> and \<open>random\<close> the upload to \<open>U024BE7LH\<close> fails after the
  listing with "channel not found". With a channel named \<open>U024BE7LH\<close> whose ID is
  \<open>C777\<close> the upload goes through, and the finalize request names the channel \<open>C777\<close>.
\<close>

theorem user_id_target_resolved_as_channel_name_witness:
  "channel_param (asc ''U024BE7LH'') = JStr (asc ''U024BE7LH'')
   \<and> upload_slack_file (example_env (\<lambda>tr req. reply 200 (Inr channels_response)) (\<lambda>p. True))
       (asc ''xoxb'') (asc ''U024BE7LH'') (asc ''report.txt'') None None [] =
     (Inr (tool_upload_failed @ upload_failed @ asc ''Slack API Error: ''
           @ channel_not_found @ asc ''U024BE7LH'' @ [10] @ label_file @ asc ''report.txt''
           @ [10] @ label_channel @ asc ''U024BE7LH''),
      [HttpGet (BASE_URL @ asc ''/'' @ asc ''conversations.list'') (headers (asc ''xoxb''))
         (Some [(asc ''types'', JStr (asc ''public_channel'')),
                (asc ''exclude_archived'', JBool True),
                (asc ''limit'', JInt 1000)])])
   \<and> upload_file (example_env named_upload_net (\<lambda>p. True)) (asc ''xoxb'')
       (channel_param (asc ''U024BE7LH'')) (asc ''report.txt'') None None [] =
     (Inr (JObj [(asc ''ok'', JBool True),
                 (asc ''files'', JList [JObj [(asc ''id'', JStr (asc ''F123''))]])]),
      [HttpGet (BASE_URL @ asc ''/'' @ asc ''conversations.list'') (headers (asc ''xoxb''))
         (Some [(asc ''types'', JStr (asc ''public_channel'')),
                (asc ''exclude_archived'', JBool True),
                (asc ''limit'', JInt 1000)]),
       HttpGet (BASE_URL @ asc ''/'' @ asc ''files.getUploadURLExternal'') (headers (asc ''xoxb''))
          (Some [(asc ''filename'', JStr (asc ''report.txt'')), (asc ''length'', JInt 3)]),
       HttpPostFiles (JStr (asc ''https://files.slack.com/upload/v1/abc'')) (asc ''report.txt'')
          [104, 105, 10],
       HttpPostJson (BASE_URL @ asc ''/'' @ asc ''files.completeUploadExternal'')
          (headers (asc ''xoxb''))
          (Some (JObj [(asc ''files'',
                        JList [JObj [(asc ''id'', JStr (asc ''F123'')),
                                     (asc ''title'', JStr (asc ''report.txt''))]]),
                       (asc ''channel_id'', JStr (asc ''C777''))]))])"
proof -
  have a1: "startswith 85 (asc ''U024BE7LH'')"
    by (simp add: startswith_def asc_def)
  have a2: "44 \<notin> set (asc ''U024BE7LH'')"
    by (simp add: asc_def)
  have a3: "path_exists (example_env net (\<lambda>p. True)) (asc ''report.txt'')" for net
    by (simp add: example_env_def)
  note missing = user_id_target_resolved_as_channel_name [OF a1 a2 a3 channels_example,
        where title = None and initial_comment = None]
  note found = user_id_target_resolved_as_channel_name [OF a1 a2 a3 named_channels_example,
        where title = None and initial_comment = None]
  have c: "startswith 67 (asc ''C777'')" "asc ''C777'' \<noteq> []"
    by (simp_all add: startswith_def asc_def)
  have n: "asc ''general'' \<noteq> asc ''U024BE7LH''" "asc ''random'' \<noteq> asc ''U024BE7LH''"
    by (simp_all add: asc_def)
  have p: "channel_param (asc ''U024BE7LH'') = JStr (asc ''U024BE7LH'')"
    using missing by simp
  have m: "upload_slack_file (example_env (\<lambda>tr req. reply 200 (Inr channels_response)) (\<lambda>p. True))
       (asc ''xoxb'') (asc ''U024BE7LH'') (asc ''report.txt'') None None [] =
     (Inr (tool_upload_failed @ upload_failed @ asc ''Slack API Error: ''
           @ channel_not_found @ asc ''U024BE7LH'' @ [10] @ label_file @ asc ''report.txt''
           @ [10] @ label_channel @ asc ''U024BE7LH''),
      [HttpGet (BASE_URL @ asc ''/'' @ asc ''conversations.list'') (headers (asc ''xoxb''))
         (Some [(asc ''types'', JStr (asc ''public_channel'')),
                (asc ''exclude_archived'', JBool True),
                (asc ''limit'', JInt 1000)])])"
    using missing by (simp add: n)
  have f: "upload_file (example_env named_upload_net (\<lambda>p. True)) (asc ''xoxb'')
       (channel_param (asc ''U024BE7LH'')) (asc ''report.txt'') None None [] =
     upload_file (example_env named_upload_net (\<lambda>p. True)) (asc ''xoxb'') (JStr (asc ''C777''))
       (asc ''report.txt'') None None
       [HttpGet (BASE_URL @ asc ''/'' @ asc ''conversations.list'') (headers (asc ''xoxb''))
         (Some [(asc ''types'', JStr (asc ''public_channel'')),
                (asc ''exclude_archived'', JBool True),
                (asc ''limit'', JInt 1000)])]"
    using found unfolding p by (simp add: c n)
  show ?thesis
    by (intro conjI) (rule p, rule m, simp only: f named_upload_example)
qed

end
